theory Spec2Isabelle
  imports Complex_Main "HOL-Library.Char_ord" "HOL-Library.List_Lexorder" "HOL-Library.Sublist"
begin

section \<open>experiments/nips2015-model-selection.py: the hyperparameter grid\<close>

text \<open>
  \<^verbatim>\<open>ModelConfig\<close> is the namedtuple of the script, with its nine fields in the
  order of \<^verbatim>\<open>ModelConfig._fields\<close>. Python's floats are idealised as reals.
\<close>

record ModelConfig =
  embedding_size :: int
  hidden_layer_size :: int
  activation :: string
  loss :: string
  init :: string
  n_pretrain_epochs :: int
  n_epochs :: int
  dropout_probability :: real
  max_ic50 :: int

definition HIDDEN1_LAYER_SIZES :: "int list" where
  "HIDDEN1_LAYER_SIZES = [64, 512]"

definition INITILIZATION_METHODS :: "string list" where
  "INITILIZATION_METHODS = [''glorot_uniform'', ''glorot_normal'']"

definition ACTIVATIONS :: "string list" where
  "ACTIVATIONS = [''relu'', ''tanh'']"

definition MAX_IC50_VALUES :: "int list" where
  "MAX_IC50_VALUES = [5000, 20000]"

text \<open>
  The eight nested \<^verbatim>\<open>for\<close> loops of \<^verbatim>\<open>generate_all_model_configs\<close>, outermost
  first; each innermost iteration appends one configuration. (The \<^verbatim>\<open>print(config)\<close>
  of the loop body writes to standard output only.)
\<close>

definition generate_all_model_configs :: "int list \<Rightarrow> int \<Rightarrow> real \<Rightarrow> ModelConfig list" where
  "generate_all_model_configs embedding_sizes n_training_epochs max_dropout =
     [\<lparr>embedding_size = embedding_size_v,
       hidden_layer_size = hidden_layer_size_v,
       activation = activation_v,
       loss = loss_v,
       init = init_v,
       n_pretrain_epochs = n_pretrain_epochs_v,
       n_epochs = n_training_epochs,
       dropout_probability = dropout,
       max_ic50 = max_ic50_v\<rparr>.
      activation_v \<leftarrow> ACTIVATIONS,
      loss_v \<leftarrow> [''mse''],
      init_v \<leftarrow> INITILIZATION_METHODS,
      n_pretrain_epochs_v \<leftarrow> [0, 10],
      hidden_layer_size_v \<leftarrow> HIDDEN1_LAYER_SIZES,
      embedding_size_v \<leftarrow> embedding_sizes,
      dropout \<leftarrow> [0, max_dropout],
      max_ic50_v \<leftarrow> MAX_IC50_VALUES]"


section \<open>Errors, standard output and the model object\<close>

text \<open>
  Every exception the scripts can meet is a value. A pure function that may raise returns
  \<open>py_error + 'a\<close>; one that acts on a state returns \<open>(py_error + 'a) \<times> state\<close>, and the
  state reached so far survives the exception.
\<close>

datatype py_error = ZeroDivisionError | IndexError | KeyError | AttributeError | ValueError

text \<open>The lines the cross-validation functions print, with the values they format.\<close>

datatype msg =
    Using_nb_epoch int string nat
  | Skipping_cv_iter nat string
  | Fold_result nat string real real
  | Skipping_allele string
  | Too_few_samples string nat
  | Pretraining_X_shape nat
  | Pretraining_Y_shape nat
  | Cross_validation_for string nat
  | Separator
  | Config_line ModelConfig

text \<open>
  The external model is its mutable weight state. Each call on it is logged with the
  weights the model held when the call was made, and each \<^verbatim>\<open>print\<close> is logged in
  the same sequence.
\<close>

datatype ('w, 'x) event =
    Print msg
  | Get_weights 'w
  | Set_weights 'w
  | Fit 'w "'x list" "real list" int
  | Predict 'w "'x list"

record ('w, 'x) session =
  weights :: 'w
  calls :: "('w, 'x) event list"

text \<open>
  The functions of the training library and of the rest of the package, which the script
  only calls. Rows of a feature matrix are values of type \<open>'x\<close>; a prediction is one real
  per row, the single column of the array \<^verbatim>\<open>predict\<close> returns. \<^verbatim>\<open>roc_auc_score\<close> and
  \<^verbatim>\<open>KFold\<close> may raise.
\<close>

record sklearn =
  roc_auc_score :: "bool list \<Rightarrow> real list \<Rightarrow> py_error + real"
  f1_score :: "bool list \<Rightarrow> bool list \<Rightarrow> real"
  KFold :: "nat \<Rightarrow> int \<Rightarrow> py_error + (nat list \<times> nat list) list"

record 'x dataset =
  ds_X :: "'x list"
  ds_ic50 :: "real list"

record ('w, 'x) mhcflurry =
  keras_fit :: "'x list \<Rightarrow> real list \<Rightarrow> int \<Rightarrow> 'w \<Rightarrow> 'w"
  keras_predict :: "'w \<Rightarrow> 'x list \<Rightarrow> real list"
  make_embedding_network :: "int \<Rightarrow> int \<Rightarrow> int \<Rightarrow> int list \<Rightarrow> string \<Rightarrow> string \<Rightarrow> string \<Rightarrow> real \<Rightarrow> 'w"
  make_hotshot_network :: "int \<Rightarrow> int list \<Rightarrow> string \<Rightarrow> string \<Rightarrow> string \<Rightarrow> real \<Rightarrow> 'w"
  normalize_allele_name :: "string \<Rightarrow> string"
  indices_to_hotshot_encoding :: "'x list \<Rightarrow> 'x list"
  load_data :: "string \<Rightarrow> (string \<times> 'x dataset) list"

definition print :: "msg \<Rightarrow> ('w, 'x) session \<Rightarrow> ('w, 'x) session" where
  "print m st = st\<lparr>calls := calls st @ [Print m]\<rparr>"

definition model_get_weights :: "('w, 'x) session \<Rightarrow> 'w \<times> ('w, 'x) session" where
  "model_get_weights st = (weights st, st\<lparr>calls := calls st @ [Get_weights (weights st)]\<rparr>)"

definition model_set_weights :: "'w \<Rightarrow> ('w, 'x) session \<Rightarrow> ('w, 'x) session" where
  "model_set_weights w st = st\<lparr>weights := w, calls := calls st @ [Set_weights w]\<rparr>"

definition model_fit ::
  "('w, 'x) mhcflurry \<Rightarrow> 'x list \<Rightarrow> real list \<Rightarrow> int \<Rightarrow> ('w, 'x) session \<Rightarrow> ('w, 'x) session" where
  "model_fit L xs ys nb_epoch st =
     st\<lparr>weights := keras_fit L xs ys nb_epoch (weights st),
        calls := calls st @ [Fit (weights st) xs ys nb_epoch]\<rparr>"

definition model_predict ::
  "('w, 'x) mhcflurry \<Rightarrow> 'x list \<Rightarrow> ('w, 'x) session \<Rightarrow> real list \<times> ('w, 'x) session" where
  "model_predict L xs st =
     (keras_predict L (weights st) xs, st\<lparr>calls := calls st @ [Predict (weights st) xs]\<rparr>)"

text \<open>
  A \<^verbatim>\<open>for\<close> loop whose body may raise: the first exception ends the loop and keeps
  the state reached.
\<close>

fun for_each ::
  "('a \<Rightarrow> 'acc \<Rightarrow> 's \<Rightarrow> (py_error + 'acc) \<times> 's) \<Rightarrow> 'a list \<Rightarrow> 'acc \<Rightarrow> 's \<Rightarrow> (py_error + 'acc) \<times> 's" where
  "for_each body [] acc st = (Inr acc, st)"
| "for_each body (x # xs) acc st =
     (case body x acc st of
        (Inl e, st') \<Rightarrow> (Inl e, st')
      | (Inr acc', st') \<Rightarrow> for_each body xs acc' st')"

section \<open>numpy\<close>

text \<open>
  Indexing an array with an array of indices raises IndexError when an index is out of
  bounds. The statistics are those of numpy on a one-dimensional array, over the reals;
  \<^verbatim>\<open>np.std\<close> is the population standard deviation. \<^verbatim>\<open>np.min\<close> and \<^verbatim>\<open>np.max\<close>
  raise ValueError on an empty array; \<^verbatim>\<open>np.mean\<close>, \<^verbatim>\<open>np.median\<close> and \<^verbatim>\<open>np.std\<close> of
  an empty array are nan, which the scripts never ask for.
\<close>

definition np_take :: "'a list \<Rightarrow> nat list \<Rightarrow> py_error + 'a list" where
  "np_take xs idx =
     (if list_all (\<lambda>i. i < length xs) idx then Inr (map (nth xs) idx) else Inl IndexError)"

definition np_mean :: "real list \<Rightarrow> real" where
  "np_mean xs = sum_list xs / real (length xs)"

definition np_median :: "real list \<Rightarrow> real" where
  "np_median xs =
     (let s = sort xs; n = length xs
      in if odd n then s ! (n div 2) else (s ! (n div 2 - 1) + s ! (n div 2)) / 2)"

definition np_std :: "real list \<Rightarrow> real" where
  "np_std xs = sqrt (np_mean (map (\<lambda>x. (abs (x - np_mean xs))\<^sup>2) xs))"

fun np_min :: "real list \<Rightarrow> py_error + real" where
  "np_min [] = Inl ValueError"
| "np_min (x # xs) = Inr (fold min xs x)"

fun np_max :: "real list \<Rightarrow> py_error + real" where
  "np_max [] = Inl ValueError"
| "np_max (x # xs) = Inr (fold max xs x)"

definition np_vstack :: "'a list list \<Rightarrow> py_error + 'a list" where
  "np_vstack arrays = (if arrays = [] then Inl ValueError else Inr (concat arrays))"

definition np_concatenate :: "'a list list \<Rightarrow> py_error + 'a list" where
  "np_concatenate arrays = (if arrays = [] then Inl ValueError else Inr (concat arrays))"

text \<open>A list comprehension whose element expression may raise: the first exception wins.\<close>

fun collect :: "(py_error + 'a) list \<Rightarrow> py_error + 'a list" where
  "collect [] = Inr []"
| "collect (r # rs) =
     (case r of
        Inl e \<Rightarrow> Inl e
      | Inr v \<Rightarrow> (case collect rs of Inl e \<Rightarrow> Inl e | Inr vs \<Rightarrow> Inr (v # vs)))"

text \<open>
  The affinity target of the script:
  \<^verbatim>\<open>1.0 - np.minimum(1.0, np.log(ic50) / np.log(max_ic50))\<close>.
\<close>

definition ic50_to_target :: "int \<Rightarrow> real list \<Rightarrow> real list" where
  "ic50_to_target max_ic50' ic50s = map (\<lambda>v. 1 - min 1 (ln v / ln (real_of_int max_ic50'))) ic50s"

section \<open>Tables: an ordered dictionary of columns, a DataFrame, a CSV file\<close>

datatype cell = Cell_str string | Cell_int int | Cell_real real | Cell_bool bool

type_synonym table = "(string \<times> cell list) list"

text \<open>\<^verbatim>\<open>d[key].append(v)\<close>: KeyError when the key is absent.\<close>

fun dict_append :: "string \<Rightarrow> cell \<Rightarrow> table \<Rightarrow> py_error + table" where
  "dict_append k v [] = Inl KeyError"
| "dict_append k v ((k', vs) # d) =
     (if k' = k then Inr ((k', vs @ [v]) # d)
      else (case dict_append k v d of Inl e \<Rightarrow> Inl e | Inr d' \<Rightarrow> Inr ((k', vs) # d')))"

text \<open>A sequence of such appends, in order.\<close>

fun dict_append_all :: "(string \<times> cell) list \<Rightarrow> table \<Rightarrow> py_error + table" where
  "dict_append_all [] d = Inr d"
| "dict_append_all ((k, v) # kvs) d =
     (case dict_append k v d of Inl e \<Rightarrow> Inl e | Inr d' \<Rightarrow> dict_append_all kvs d')"

definition column :: "string \<Rightarrow> table \<Rightarrow> cell list" where
  "column k d = (case map_of d k of None \<Rightarrow> [] | Some vs \<Rightarrow> vs)"

text \<open>
  \<^verbatim>\<open>pd.DataFrame(dict)\<close> raises ValueError unless all columns have one length;
  \<^verbatim>\<open>len(df)\<close> is the number of rows; \<^verbatim>\<open>df[name] = values\<close> replaces the column of that
  name or adds it as the last one (the script always assigns \<^verbatim>\<open>[value] * len(df)\<close>, whose
  length fits).
\<close>

definition df_len :: "table \<Rightarrow> nat" where
  "df_len df = (case df of [] \<Rightarrow> 0 | (k, vs) # _ \<Rightarrow> length vs)"

definition pd_DataFrame :: "table \<Rightarrow> py_error + table" where
  "pd_DataFrame d =
     (if list_all (\<lambda>(k, vs). length vs = df_len d) d then Inr d else Inl ValueError)"

definition df_set_column :: "string \<Rightarrow> cell list \<Rightarrow> table \<Rightarrow> table" where
  "df_set_column name vals df =
     (if name \<in> set (map fst df) then map (\<lambda>(k, vs). if k = name then (k, vals) else (k, vs)) df
      else df @ [(name, vals)])"

definition df_row :: "table \<Rightarrow> nat \<Rightarrow> cell list" where
  "df_row df r = map (\<lambda>(k, vs). vs ! r) df"

text \<open>
  A file is a sequence of chunks: the header line and the data lines that
  \<^verbatim>\<open>to_csv(f, index=False)\<close> writes, or an image that \<^verbatim>\<open>savefig\<close> writes.
\<close>

datatype chunk = Csv_header "string list" | Csv_row "cell list" | Png_image

type_synonym filesystem = "string \<Rightarrow> chunk list option"

definition to_csv :: "table \<Rightarrow> chunk list" where
  "to_csv df = Csv_header (map fst df) # map (\<lambda>r. Csv_row (df_row df r)) [0..<df_len df]"

text \<open>
  \<^verbatim>\<open>with open(name, mode) as f: ...\<close> for the modes \<^verbatim>\<open>"w"\<close> (truncate or create) and
  \<^verbatim>\<open>"a"\<close> (append or create).
\<close>

definition write_file :: "string \<Rightarrow> string \<Rightarrow> chunk list \<Rightarrow> filesystem \<Rightarrow> filesystem" where
  "write_file name mode content fs =
     fs(name \<mapsto> (if mode = ''a'' then (case fs name of None \<Rightarrow> [] | Some old \<Rightarrow> old) else []) @ content)"

section \<open>experiments/nips2015-model-selection.py: cross-validation\<close>

text \<open>
  Lines 170 to 176 of \<^verbatim>\<open>kfold_cross_validation_for_single_allele\<close>: when
  \<^verbatim>\<open>n_training_epochs\<close> is falsy the number of epochs is derived from the fold size
  (true division; a zero divisor raises).
\<close>

definition kfold_epochs ::
  "string \<Rightarrow> int \<Rightarrow> int \<Rightarrow> nat \<Rightarrow> ('w, 'x) session \<Rightarrow> (py_error + int) \<times> ('w, 'x) session" where
  "kfold_epochs allele_name n_training_epochs cv_folds n_samples st =
     (if n_training_epochs \<noteq> 0 then (Inr n_training_epochs, st)
      else
        let target_number_updates = (250000 :: real)
        in if cv_folds = 0 then (Inl ZeroDivisionError, st)
           else
             let n_samples_per_fold = real_of_int ((cv_folds - 1) * int n_samples) / real_of_int cv_folds
             in if n_samples_per_fold = 0 then (Inl ZeroDivisionError, st)
                else
                  let ratio = target_number_updates / n_samples_per_fold;
                      n_training_epochs = \<lceil>ratio\<rceil>
                  in (Inr n_training_epochs,
                      print (Using_nb_epoch n_training_epochs allele_name n_samples) st))"

text \<open>
  The body of the loop over the folds (lines 183 to 211). The accumulator is the pair
  \<^verbatim>\<open>(fold_aucs, fold_accuracies)\<close>; \<^verbatim>\<open>continue\<close> returns it unchanged.
  \<^verbatim>\<open>model.predict\<close> returns an array of shape (n, 1) and \<^verbatim>\<open>label_test\<close> has shape
  (n,): numpy broadcasts \<^verbatim>\<open>label_test == (ic50_pred <= 500)\<close> to n rows, one per
  prediction, of n columns, one per label, and \<^verbatim>\<open>np.mean\<close> is taken over all of them.
\<close>

definition kfold_fold ::
  "sklearn \<Rightarrow> ('w, 'x) mhcflurry \<Rightarrow> string \<Rightarrow> 'x list \<Rightarrow> real list \<Rightarrow> real list \<Rightarrow> int \<Rightarrow> int \<Rightarrow> 'w \<Rightarrow>
   nat \<times> nat list \<times> nat list \<Rightarrow> real list \<times> real list \<Rightarrow> ('w, 'x) session \<Rightarrow>
   (py_error + real list \<times> real list) \<times> ('w, 'x) session" where
  "kfold_fold SK L allele_name Xs Ys ic50s n_training_epochs max_ic50' initial_weights item acc st =
     (case item of (cv_iter, train_idx, test_idx) \<Rightarrow>
      case acc of (fold_aucs, fold_accuracies) \<Rightarrow>
      case np_take Xs train_idx of Inl e \<Rightarrow> (Inl e, st) | Inr X_train \<Rightarrow>
      case np_take Ys train_idx of Inl e \<Rightarrow> (Inl e, st) | Inr Y_train \<Rightarrow>
      case np_take Xs test_idx of Inl e \<Rightarrow> (Inl e, st) | Inr X_test \<Rightarrow>
      case np_take ic50s test_idx of Inl e \<Rightarrow> (Inl e, st) | Inr ic50_test \<Rightarrow>
        let label_test = map (\<lambda>v. v \<le> 500) ic50_test
        in if list_all (\<lambda>b. b) label_test \<or> \<not> list_ex (\<lambda>b. b) label_test
           then (Inr (fold_aucs, fold_accuracies), print (Skipping_cv_iter cv_iter allele_name) st)
           else
             let st1 = model_set_weights initial_weights st;
                 st2 = model_fit L X_train Y_train n_training_epochs st1;
                 (pred, st3) = model_predict L X_test st2
             in case roc_auc_score SK label_test pred of Inl e \<Rightarrow> (Inl e, st3) | Inr auc \<Rightarrow>
                  let ic50_pred = map (\<lambda>p. real_of_int max_ic50' powr (1 - p)) pred;
                      accuracy = np_mean (concat (map (\<lambda>p. map (\<lambda>l. if l = (p \<le> 500) then 1 else 0)
                                                            label_test) ic50_pred));
                      st4 = print (Fold_result (cv_iter + 1) allele_name auc accuracy) st3
                  in (Inr (fold_aucs @ [auc], fold_accuracies @ [accuracy]), st4))"

definition kfold_cross_validation_for_single_allele ::
  "sklearn \<Rightarrow> ('w, 'x) mhcflurry \<Rightarrow> string \<Rightarrow> 'x list \<Rightarrow> real list \<Rightarrow> real list \<Rightarrow> int \<Rightarrow> int \<Rightarrow> int \<Rightarrow>
   ('w, 'x) session \<Rightarrow> (py_error + real list \<times> real list) \<times> ('w, 'x) session" where
  "kfold_cross_validation_for_single_allele SK L allele_name Xs Ys ic50s n_training_epochs cv_folds max_ic50' st =
     (let n_samples = length Ys;
          (initial_weights, st1) = model_get_weights st
      in case kfold_epochs allele_name n_training_epochs cv_folds n_samples st1 of
           (Inl e, st2) \<Rightarrow> (Inl e, st2)
         | (Inr n_training_epochs, st2) \<Rightarrow>
             (case KFold SK n_samples cv_folds of
                Inl e \<Rightarrow> (Inl e, st2)
              | Inr folds \<Rightarrow>
                  for_each
                    (kfold_fold SK L allele_name Xs Ys ic50s n_training_epochs max_ic50' initial_weights)
                    (List.enumerate 0 folds) ([], []) st2))"

text \<open>
  \<^verbatim>\<open>allele_name.isdigit()\<close> on ASCII text: true when the string is not empty and all
  its characters are decimal digits.
\<close>

definition isdigit :: "string \<Rightarrow> bool" where
  "isdigit s = (s \<noteq> [] \<and> list_all (\<lambda>c. c \<in> set ''0123456789'') s)"

text \<open>
  A Python string has no attribute \<^verbatim>\<open>ic50\<close>: reading it raises AttributeError.
\<close>

definition str_getattr_ic50 :: "string \<Rightarrow> py_error + real list" where
  "str_getattr_ic50 s = Inl AttributeError"

text \<open>
  Lines 273 to 293 of \<^verbatim>\<open>leave_out_allele_cross_validation\<close>, the branch taken when
  \<^verbatim>\<open>n_pretrain_epochs > 0\<close>. The first comprehension reads \<^verbatim>\<open>other_dataset.X\<close>; the
  second reads \<^verbatim>\<open>other_allele.ic50\<close>, where \<^verbatim>\<open>other_allele\<close> is the key of the
  dictionary, a string.
\<close>

definition pretrain ::
  "('w, 'x) mhcflurry \<Rightarrow> (string \<times> 'x dataset) list \<Rightarrow> string \<Rightarrow> bool \<Rightarrow> int \<Rightarrow> int \<Rightarrow>
   ('w, 'x) session \<Rightarrow> (py_error + unit) \<times> ('w, 'x) session" where
  "pretrain L allele_datasets allele_name binary_encoding n_pretrain_epochs' max_ic50' st =
     (let others = filter (\<lambda>(other_allele, other_dataset).
                       normalize_allele_name L other_allele \<noteq> allele_name) allele_datasets
      in case np_vstack (map (\<lambda>(other_allele, other_dataset). ds_X other_dataset) others) of
           Inl e \<Rightarrow> (Inl e, st)
         | Inr X_other_alleles0 \<Rightarrow>
             let X_other_alleles =
                   (if binary_encoding then indices_to_hotshot_encoding L X_other_alleles0
                    else X_other_alleles0)
             in case collect (map (\<lambda>(other_allele, other_dataset). str_getattr_ic50 other_allele) others) of
                  Inl e \<Rightarrow> (Inl e, st)
                | Inr arrays \<Rightarrow>
                    (case np_concatenate arrays of
                       Inl e \<Rightarrow> (Inl e, st)
                     | Inr ic50_other_alleles \<Rightarrow>
                         let Y_other_alleles = ic50_to_target max_ic50' ic50_other_alleles;
                             st1 = print (Pretraining_X_shape (length X_other_alleles)) st;
                             st2 = print (Pretraining_Y_shape (length Y_other_alleles)) st1
                         in (Inr (), model_fit L X_other_alleles Y_other_alleles n_pretrain_epochs' st2)))"

text \<open>Lines 238 to 251: the twelve columns, all empty.\<close>

definition initial_result_dict :: table where
  "initial_result_dict =
     [(''allele_name'', []), (''dataset_size'', []),
      (''auc_mean'', []), (''auc_median'', []), (''auc_std'', []), (''auc_min'', []), (''auc_max'', []),
      (''accuracy_mean'', []), (''accuracy_median'', []), (''accuracy_std'', []),
      (''accuracy_min'', []), (''accuracy_max'', [])]"

text \<open>
  Lines 309 to 314: the five statistics of one list of per-fold values, under the keys
  \<^verbatim>\<open>"%s_mean" % name\<close> and so on, in the order the script appends them.
\<close>

definition summary_entries :: "string \<Rightarrow> real list \<Rightarrow> py_error + (string \<times> cell) list" where
  "summary_entries name vals =
     (case np_min vals of Inl e \<Rightarrow> Inl e | Inr lo \<Rightarrow>
      case np_max vals of Inl e \<Rightarrow> Inl e | Inr hi \<Rightarrow>
        Inr [(name @ ''_mean'', Cell_real (np_mean vals)),
             (name @ ''_median'', Cell_real (np_median vals)),
             (name @ ''_std'', Cell_real (np_std vals)),
             (name @ ''_min'', Cell_real lo),
             (name @ ''_max'', Cell_real hi)])"

text \<open>Lines 307 to 314: one allele's row is appended to the twelve columns.\<close>

definition append_allele_row ::
  "string \<Rightarrow> real list \<Rightarrow> real list \<Rightarrow> real list \<Rightarrow> table \<Rightarrow> py_error + table" where
  "append_allele_row allele_name ic50_allele aucs accuracies result_dict =
     (case dict_append ''allele_name'' (Cell_str allele_name) result_dict of Inl e \<Rightarrow> Inl e | Inr d1 \<Rightarrow>
      case dict_append ''dataset_size'' (Cell_int (int (length ic50_allele))) d1 of Inl e \<Rightarrow> Inl e | Inr d2 \<Rightarrow>
      case summary_entries ''auc'' aucs of Inl e \<Rightarrow> Inl e | Inr auc_entries \<Rightarrow>
      case dict_append_all auc_entries d2 of Inl e \<Rightarrow> Inl e | Inr d3 \<Rightarrow>
      case summary_entries ''accuracy'' accuracies of Inl e \<Rightarrow> Inl e | Inr accuracy_entries \<Rightarrow>
        dict_append_all accuracy_entries d3)"

text \<open>
  The body of the loop over the alleles (lines 255 to 314). \<^verbatim>\<open>allele_datasets\<close> and
  \<^verbatim>\<open>config\<close> are the script's global variables, here parameters.
\<close>

definition loao_allele ::
  "sklearn \<Rightarrow> ('w, 'x) mhcflurry \<Rightarrow> (string \<times> 'x dataset) list \<Rightarrow> ModelConfig \<Rightarrow> bool \<Rightarrow> int \<Rightarrow> int \<Rightarrow> int \<Rightarrow> int \<Rightarrow>
   'w \<Rightarrow> string \<times> 'x dataset \<Rightarrow> table \<Rightarrow> ('w, 'x) session \<Rightarrow> (py_error + table) \<times> ('w, 'x) session" where
  "loao_allele SK L allele_datasets config binary_encoding n_pretrain_epochs' min_samples_per_allele
       cv_folds max_ic50' initial_weights item result_dict st =
     (case item of (allele_name0, dataset) \<Rightarrow>
      if isdigit allele_name0 \<or> length allele_name0 < 5
      then (Inr result_dict, print (Skipping_allele allele_name0) st)
      else
        let allele_name = normalize_allele_name L allele_name0;
            X_allele0 = ds_X dataset;
            n_samples_allele = length X_allele0
        in if int n_samples_allele < min_samples_per_allele
           then (Inr result_dict, print (Too_few_samples allele_name n_samples_allele) st)
           else
             let X_allele = (if binary_encoding then indices_to_hotshot_encoding L X_allele0 else X_allele0);
                 ic50_allele = ds_ic50 dataset;
                 Y_allele = ic50_to_target max_ic50' ic50_allele;
                 st1 = model_set_weights initial_weights st
             in case (if n_pretrain_epochs' > 0
                      then pretrain L allele_datasets allele_name binary_encoding n_pretrain_epochs' max_ic50' st1
                      else (Inr (), st1)) of
                  (Inl e, st2) \<Rightarrow> (Inl e, st2)
                | (Inr u, st2) \<Rightarrow>
                    let st3 = print (Cross_validation_for allele_name (length Y_allele)) st2
                    in case kfold_cross_validation_for_single_allele SK L allele_name X_allele Y_allele
                              ic50_allele (n_epochs config) cv_folds max_ic50' st3 of
                         (Inl e, st4) \<Rightarrow> (Inl e, st4)
                       | (Inr (aucs, accuracies), st4) \<Rightarrow>
                           if length aucs = 0
                           then (Inr result_dict, print (Skipping_allele allele_name) st4)
                           else (append_allele_row allele_name ic50_allele aucs accuracies result_dict, st4))"

definition leave_out_allele_cross_validation ::
  "sklearn \<Rightarrow> ('w, 'x) mhcflurry \<Rightarrow> (string \<times> 'x dataset) list \<Rightarrow> ModelConfig \<Rightarrow> bool \<Rightarrow> int \<Rightarrow> int \<Rightarrow> int \<Rightarrow> int \<Rightarrow>
   ('w, 'x) session \<Rightarrow> (py_error + table) \<times> ('w, 'x) session" where
  "leave_out_allele_cross_validation SK L allele_datasets config binary_encoding n_pretrain_epochs'
       min_samples_per_allele cv_folds max_ic50' st =
     (let result_dict = initial_result_dict;
          (initial_weights, st1) = model_get_weights st
      in case for_each
                (loao_allele SK L allele_datasets config binary_encoding n_pretrain_epochs'
                   min_samples_per_allele cv_folds max_ic50' initial_weights)
                (sort_key fst allele_datasets) result_dict st1 of
           (Inl e, st2) \<Rightarrow> (Inl e, st2)
         | (Inr result_dict', st2) \<Rightarrow> (pd_DataFrame result_dict', st2))"

text \<open>
  \<^verbatim>\<open>evaluate_model_config\<close> builds the network the configuration asks for and runs the
  cross-validation on it; the session of that model starts with the two lines it prints.
\<close>

definition evaluate_model_config ::
  "sklearn \<Rightarrow> ('w, 'x) mhcflurry \<Rightarrow> ModelConfig \<Rightarrow> (string \<times> 'x dataset) list \<Rightarrow> int \<Rightarrow> int \<Rightarrow> int \<Rightarrow>
   (py_error + table) \<times> ('w, 'x) session" where
  "evaluate_model_config SK L config allele_datasets min_samples_per_allele cv_folds max_ic50' =
     (let model =
            (if embedding_size config \<noteq> 0
             then make_embedding_network L 9 20 (embedding_size config) [hidden_layer_size config]
                    (activation config) (init config) (loss config) (dropout_probability config)
             else make_hotshot_network L 9 [hidden_layer_size config]
                    (activation config) (init config) (loss config) (dropout_probability config))
      in leave_out_allele_cross_validation SK L allele_datasets config (embedding_size config = 0)
           (n_pretrain_epochs config) min_samples_per_allele cv_folds max_ic50'
           \<lparr>weights = model, calls = [Print Separator, Print (Config_line config)]\<rparr>)"

section \<open>experiments/nips2015-model-selection.py: the main block\<close>

record args =
  args_binding_data_csv_path :: string
  args_min_samples_per_allele :: int
  args_results_filename :: string
  args_cv_folds :: int
  args_training_epochs :: int
  args_max_dropout :: real

text \<open>\<^verbatim>\<open>config._fields\<close> with \<^verbatim>\<open>getattr(config, name)\<close> for each, in order.\<close>

definition config_items :: "ModelConfig \<Rightarrow> (string \<times> cell) list" where
  "config_items config =
     [(''embedding_size'', Cell_int (embedding_size config)),
      (''hidden_layer_size'', Cell_int (hidden_layer_size config)),
      (''activation'', Cell_str (activation config)),
      (''loss'', Cell_str (loss config)),
      (''init'', Cell_str (init config)),
      (''n_pretrain_epochs'', Cell_int (n_pretrain_epochs config)),
      (''n_epochs'', Cell_int (n_epochs config)),
      (''dropout_probability'', Cell_real (dropout_probability config)),
      (''max_ic50'', Cell_int (max_ic50 config))]"

text \<open>Lines 376 to 380: the columns added to one configuration's DataFrame.\<close>

definition add_config_columns :: "nat \<Rightarrow> ModelConfig \<Rightarrow> table \<Rightarrow> table" where
  "add_config_columns i config result_df =
     (let n_rows = df_len result_df;
          result_df1 = df_set_column ''config_idx'' (replicate n_rows (Cell_int (int i))) result_df
      in fold (\<lambda>(hyperparameter_name, v). df_set_column hyperparameter_name (replicate n_rows v))
           (config_items config) result_df1)"

definition file_mode :: "nat \<Rightarrow> string" where
  "file_mode i = (if i > 0 then ''a'' else ''w'')"

text \<open>
  The loop over the enumerated configurations (lines 367 to 395). An exception ends the
  run; what was written to the file system before stays. The timing lines go to
  standard output only, as does the summary printed after the loop.
\<close>

fun main_loop ::
  "sklearn \<Rightarrow> ('w, 'x) mhcflurry \<Rightarrow> args \<Rightarrow> (string \<times> 'x dataset) list \<Rightarrow> (nat \<times> ModelConfig) list \<Rightarrow>
   filesystem \<Rightarrow> py_error option \<times> filesystem" where
  "main_loop SK L a allele_datasets [] fs = (None, fs)"
| "main_loop SK L a allele_datasets ((i, config) # rest) fs =
     (case evaluate_model_config SK L config allele_datasets
             (args_min_samples_per_allele a) (args_cv_folds a) (max_ic50 config) of
        (Inl e, st) \<Rightarrow> (Some e, fs)
      | (Inr result_df, st) \<Rightarrow>
          main_loop SK L a allele_datasets rest
            (write_file (args_results_filename a) (file_mode i)
               (to_csv (add_config_columns i config result_df)) fs))"

definition main ::
  "sklearn \<Rightarrow> ('w, 'x) mhcflurry \<Rightarrow> args \<Rightarrow> filesystem \<Rightarrow> py_error option \<times> filesystem" where
  "main SK L a fs =
     (let configs = generate_all_model_configs [0, 64] (args_training_epochs a) (args_max_dropout a);
          allele_datasets = load_data L (args_binding_data_csv_path a)
      in main_loop SK L a allele_datasets (List.enumerate 0 configs) fs)"

section \<open>script/mhcflurry-dataset-size-sensitivity.py\<close>

text \<open>
  The command line of the script: its own seven options and those that
  \<^verbatim>\<open>mhcflurry.args\<close> adds and the script reads.
\<close>

record sens_args =
  sargs_training_csv :: string
  sargs_allele :: string
  sargs_repeat :: int
  sargs_number_dataset_sizes :: int
  sargs_min_training_samples :: int
  sargs_max_training_samples :: int
  sargs_sample_censored_affinities :: bool
  sargs_training_epochs :: int
  sargs_batch_size :: int
  sargs_random_negative_samples :: int
  sargs_hidden_layer_size :: int
  sargs_activation :: string
  sargs_imputation_method :: string

text \<open>
  The \<^verbatim>\<open>Dataset\<close> class, the predictor and the argument helpers of the package, and
  numpy's floating-point computation of the sample sizes, which the script only calls. A \<^verbatim>\<open>Dataset\<close> is a value of type \<open>'d\<close>, the weights of a
  predictor a value of type \<open>'w\<close>, an imputer a value of type \<open>'i\<close>. Splitting, model
  construction and fitting draw random numbers: they read and advance the generator
  state \<open>'r\<close>. The two splits may raise; each returns \<^verbatim>\<open>Dataset\<close> objects.
\<close>

record ('w, 'd, 'r, 'i) predictor_lib =
  from_csv :: "string \<Rightarrow> 'd"
  get_allele :: "'d \<Rightarrow> string \<Rightarrow> 'd"
  dataset_len :: "'d \<Rightarrow> nat"
  affinities :: "'d \<Rightarrow> real list"
  peptides :: "'d \<Rightarrow> string list"
  random_split :: "'d \<Rightarrow> int \<Rightarrow> 'r \<Rightarrow> (py_error + 'd \<times> 'd) \<times> 'r"
  split_allele_randomly_and_impute_training_set ::
    "'d \<Rightarrow> string \<Rightarrow> int \<Rightarrow> 'i \<Rightarrow> int \<Rightarrow> int \<Rightarrow> 'r \<Rightarrow> (py_error + 'd \<times> 'd \<times> 'd) \<times> 'r"
  fit_dataset :: "'d \<Rightarrow> 'd option \<Rightarrow> int \<Rightarrow> int \<Rightarrow> bool option \<Rightarrow> 'w \<Rightarrow> 'r \<Rightarrow> 'w \<times> 'r"
  predict :: "'w \<Rightarrow> string list \<Rightarrow> real list"
  imputer_from_args :: "sens_args \<Rightarrow> 'i option"
  predictor_from_args :: "string \<Rightarrow> sens_args \<Rightarrow> 'r \<Rightarrow> 'w \<times> 'r"
  log_spaced_int64 :: "int \<Rightarrow> int \<Rightarrow> nat \<Rightarrow> nat \<Rightarrow> int"

text \<open>
  The calls on predictors, logged with the weights the predictor held when the call was
  made. \<^verbatim>\<open>Model_created w\<close> is a call of \<^verbatim>\<open>model_fn()\<close> that returned a predictor with
  weights \<open>w\<close>.
\<close>

datatype ('w, 'd) sens_event =
    Model_created 'w
  | Model_get_weights 'w
  | Model_set_weights 'w
  | Fit_dataset 'w 'd "'d option"
  | Model_predict 'w

record ('w, 'd, 'r) sens_state =
  rng :: 'r
  trace :: "('w, 'd) sens_event list"

definition new_model :: "('r \<Rightarrow> 'w \<times> 'r) \<Rightarrow> ('w, 'd, 'r) sens_state \<Rightarrow> 'w \<times> ('w, 'd, 'r) sens_state" where
  "new_model model_fn st =
     (case model_fn (rng st) of (w, r) \<Rightarrow> (w, st\<lparr>rng := r, trace := trace st @ [Model_created w]\<rparr>))"

definition sens_get_weights :: "'w \<Rightarrow> ('w, 'd, 'r) sens_state \<Rightarrow> 'w \<times> ('w, 'd, 'r) sens_state" where
  "sens_get_weights w st = (w, st\<lparr>trace := trace st @ [Model_get_weights w]\<rparr>)"

definition sens_set_weights :: "'w \<Rightarrow> 'w \<Rightarrow> ('w, 'd, 'r) sens_state \<Rightarrow> 'w \<times> ('w, 'd, 'r) sens_state" where
  "sens_set_weights new_weights w st = (new_weights, st\<lparr>trace := trace st @ [Model_set_weights new_weights]\<rparr>)"

definition sens_fit ::
  "('w, 'd, 'r, 'i) predictor_lib \<Rightarrow> 'd \<Rightarrow> 'd option \<Rightarrow> int \<Rightarrow> int \<Rightarrow> bool option \<Rightarrow> 'w \<Rightarrow>
   ('w, 'd, 'r) sens_state \<Rightarrow> 'w \<times> ('w, 'd, 'r) sens_state" where
  "sens_fit L train pretraining n_training_epochs n_random_negative_samples censored w st =
     (case fit_dataset L train pretraining n_training_epochs n_random_negative_samples censored w (rng st) of
        (w', r) \<Rightarrow> (w', st\<lparr>rng := r, trace := trace st @ [Fit_dataset w train pretraining]\<rparr>))"

definition sens_predict ::
  "('w, 'd, 'r, 'i) predictor_lib \<Rightarrow> 'w \<Rightarrow> string list \<Rightarrow> ('w, 'd, 'r) sens_state \<Rightarrow>
   real list \<times> ('w, 'd, 'r) sens_state" where
  "sens_predict L w ps st = (predict L w ps, st\<lparr>trace := trace st @ [Model_predict w]\<rparr>)"

text \<open>
  Lines 117 to 121. \<^verbatim>\<open>np.linspace(start, stop, num)\<close> has \<^verbatim>\<open>num\<close> points and raises
  ValueError when \<^verbatim>\<open>num\<close> is negative. The points are computed in double precision and
  converted to 64-bit integers; point \<open>k\<close> of
  \<^verbatim>\<open>np.exp(np.linspace(np.log(lo), np.log(hi), num)).astype(int)\<close> is the library's
  \<open>log_spaced_int64 lo hi num k\<close>. Adding 1 to a 64-bit integer wraps around.
\<close>

definition int64_wrap :: "int \<Rightarrow> int" where
  "int64_wrap v = (v + 2 ^ 63) mod 2 ^ 64 - 2 ^ 63"

definition sample_sizes ::
  "('w, 'd, 'r, 'i) predictor_lib \<Rightarrow> int \<Rightarrow> int \<Rightarrow> int \<Rightarrow> py_error + int list" where
  "sample_sizes L min_training_samples max_training_samples n_subsample_sizes =
     (if n_subsample_sizes < 0 then Inl ValueError
      else Inr (map (\<lambda>k. int64_wrap
                           (log_spaced_int64 L min_training_samples max_training_samples
                              (nat n_subsample_sizes) k + 1))
                  [0..<nat n_subsample_sizes]))"

text \<open>Lines 125 to 137: the split, with or without imputation.\<close>

definition split_datasets ::
  "('w, 'd, 'r, 'i) predictor_lib \<Rightarrow> 'd \<Rightarrow> 'd \<Rightarrow> string \<Rightarrow> 'i option \<Rightarrow> int \<Rightarrow> ('w, 'd, 'r) sens_state \<Rightarrow>
   (py_error + 'd \<times> 'd option \<times> 'd) \<times> ('w, 'd, 'r) sens_state" where
  "split_datasets L dataset dataset_allele allele imputer n_train st =
     (case imputer of
        None \<Rightarrow>
          (case random_split L dataset_allele n_train (rng st) of
             (Inl e, r) \<Rightarrow> (Inl e, st\<lparr>rng := r\<rparr>)
           | (Inr (dataset_train, dataset_test), r) \<Rightarrow>
               (Inr (dataset_train, None, dataset_test), st\<lparr>rng := r\<rparr>))
      | Some imputation_method \<Rightarrow>
          (case split_allele_randomly_and_impute_training_set L dataset allele n_train
                  imputation_method 2 1 (rng st) of
             (Inl e, r) \<Rightarrow> (Inl e, st\<lparr>rng := r\<rparr>)
           | (Inr (dataset_train, dataset_imputed, dataset_test), r) \<Rightarrow>
               (Inr (dataset_train, Some dataset_imputed, dataset_test), st\<lparr>rng := r\<rparr>)))"

text \<open>The five columns of the results (lines 109 to 115) and the append of one row.\<close>

definition initial_results :: table where
  "initial_results = [(''num_samples'', []), (''idx'', []), (''auc'', []), (''f1'', []), (''impute'', [])]"

definition result_row :: "int \<Rightarrow> nat \<Rightarrow> real \<Rightarrow> real \<Rightarrow> bool \<Rightarrow> (string \<times> cell) list" where
  "result_row n_train i auc f1 impute =
     [(''num_samples'', Cell_int n_train), (''idx'', Cell_int (int i)), (''auc'', Cell_real auc),
      (''f1'', Cell_real f1), (''impute'', Cell_bool impute)]"

text \<open>
  The body of the inner loop (lines 125 to 198), for the size index \<^verbatim>\<open>i\<close> and the size
  \<^verbatim>\<open>n_train\<close> of the outer loop. The loop variable of the inner loop is \<^verbatim>\<open>_\<close>: the body
  does not read it. The progress lines go to standard output only.
\<close>

definition subsample_once ::
  "sklearn \<Rightarrow> ('w, 'd, 'r, 'i) predictor_lib \<Rightarrow> ('r \<Rightarrow> 'w \<times> 'r) \<Rightarrow> 'd \<Rightarrow> 'd \<Rightarrow> string \<Rightarrow> 'i option \<Rightarrow>
   int \<Rightarrow> int \<Rightarrow> bool \<Rightarrow> nat \<Rightarrow> int \<Rightarrow> table \<Rightarrow> ('w, 'd, 'r) sens_state \<Rightarrow>
   (py_error + table) \<times> ('w, 'd, 'r) sens_state" where
  "subsample_once SK L model_fn dataset dataset_allele allele imputer n_training_epochs
       n_random_negative_samples sample_censored_affinities i n_train results st =
     (case split_datasets L dataset dataset_allele allele imputer n_train st of
        (Inl e, st1) \<Rightarrow> (Inl e, st1)
      | (Inr (dataset_train, dataset_imputed, dataset_test), st1) \<Rightarrow>
          let true_ic50 = affinities L dataset_test;
              true_label = map (\<lambda>v. v \<le> 500) true_ic50;
              (model, st2) = new_model model_fn st1;
              (initial_weights, st3) = sens_get_weights model st2;
              (model1, st4) = sens_fit L dataset_train None n_training_epochs
                                n_random_negative_samples None model st3;
              (pred_ic50, st5) = sens_predict L model1 (peptides L dataset_test) st4
          in case roc_auc_score SK true_label (map uminus pred_ic50) of
               Inl e \<Rightarrow> (Inl e, st5)
             | Inr auc \<Rightarrow>
                 let f1 = f1_score SK true_label (map (\<lambda>p. p \<le> 500) pred_ic50)
                 in case dict_append_all (result_row n_train i auc f1 False) results of
                      Inl e \<Rightarrow> (Inl e, st5)
                    | Inr results1 \<Rightarrow>
                        (case dataset_imputed of
                           None \<Rightarrow> (Inr results1, st5)
                         | Some imputed \<Rightarrow>
                             let (model2, st6) = sens_set_weights initial_weights model1 st5;
                                 (model3, st7) = sens_fit L dataset_train (Some imputed) n_training_epochs
                                                   n_random_negative_samples
                                                   (Some sample_censored_affinities) model2 st6;
                                 (pred_ic50', st8) = sens_predict L model3 (peptides L dataset_test) st7
                             in case roc_auc_score SK true_label (map uminus pred_ic50') of
                                  Inl e \<Rightarrow> (Inl e, st8)
                                | Inr auc' \<Rightarrow>
                                    let f1' = f1_score SK true_label (map (\<lambda>p. p \<le> 500) pred_ic50')
                                    in (dict_append_all (result_row n_train i auc' f1' True) results1, st8)))"

text \<open>
  \<^verbatim>\<open>subsample_performance\<close>: the outer loop enumerates the sample sizes, the inner
  loop runs \<^verbatim>\<open>range(n_repeats_per_size)\<close>, which is empty for a negative argument.
  \<^verbatim>\<open>batch_size\<close> is a parameter the body never reads.
\<close>

definition subsample_performance ::
  "sklearn \<Rightarrow> ('w, 'd, 'r, 'i) predictor_lib \<Rightarrow> 'd \<Rightarrow> string \<Rightarrow> ('r \<Rightarrow> 'w \<times> 'r) \<Rightarrow> 'i option \<Rightarrow>
   int \<Rightarrow> int \<Rightarrow> int \<Rightarrow> int \<Rightarrow> int \<Rightarrow> int \<Rightarrow> int \<Rightarrow> bool \<Rightarrow> ('w, 'd, 'r) sens_state \<Rightarrow>
   (py_error + table) \<times> ('w, 'd, 'r) sens_state" where
  "subsample_performance SK L dataset allele model_fn imputer min_training_samples
       max_training_samples0 n_subsample_sizes n_repeats_per_size n_training_epochs
       n_random_negative_samples batch_size sample_censored_affinities st =
     (let dataset_allele = get_allele L dataset allele;
          n_total = dataset_len L dataset_allele;
          max_training_samples = min ((2 * int n_total) div 3) max_training_samples0;
          results = initial_results
      in case sample_sizes L min_training_samples max_training_samples n_subsample_sizes of
           Inl e \<Rightarrow> (Inl e, st)
         | Inr sizes \<Rightarrow>
             (case for_each
                     (\<lambda>(i, n_train). for_each
                        (\<lambda>repeat_number. subsample_once SK L model_fn dataset dataset_allele allele imputer
                              n_training_epochs n_random_negative_samples
                              sample_censored_affinities i n_train)
                        [0..<nat n_repeats_per_size])
                     (List.enumerate 0 sizes) results st of
                (Inl e, st') \<Rightarrow> (Inl e, st')
              | (Inr results', st') \<Rightarrow> (pd_DataFrame results', st')))"

text \<open>Decimal text of an integer, as \<^verbatim>\<open>"%s" % n\<close> gives it.\<close>

fun str_nat :: "nat \<Rightarrow> string" where
  "str_nat n =
     (if n < 10 then [char_of (48 + n)] else str_nat (n div 10) @ [char_of (48 + n mod 10)])"

definition str_int :: "int \<Rightarrow> string" where
  "str_int n = (if n < 0 then CHR ''-'' # str_nat (nat (- n)) else str_nat (nat n))"

text \<open>Lines 236 to 241: the name of the plot of one metric.\<close>

definition plot_filename :: "sens_args \<Rightarrow> string \<Rightarrow> string" where
  "plot_filename a name =
     sargs_allele a @ ''-'' @ name @ ''-vs-nsamples-hidden-'' @ str_int (sargs_hidden_layer_size a)
       @ ''-activation-'' @ sargs_activation a @ ''-impute-'' @ sargs_imputation_method a @ ''.png''"

definition savefig :: "string \<Rightarrow> filesystem \<Rightarrow> filesystem" where
  "savefig filename fs = fs(filename \<mapsto> [Png_image])"

text \<open>
  The main block (lines 203 to 242). Its effects are the table printed on standard
  output and the files written: the result is the exception that ended the run if any,
  the tables printed, and the file system.
\<close>

definition sens_main ::
  "sklearn \<Rightarrow> ('w, 'd, 'r, 'i) predictor_lib \<Rightarrow> sens_args \<Rightarrow> filesystem \<Rightarrow> ('w, 'd, 'r) sens_state \<Rightarrow>
   py_error option \<times> table list \<times> filesystem" where
  "sens_main SK L a fs st =
     (let dataset = from_csv L (sargs_training_csv a);
          imputer = imputer_from_args L a;
          make_model = predictor_from_args L (sargs_allele a) a
      in case subsample_performance SK L dataset (sargs_allele a) make_model imputer
                (sargs_min_training_samples a) (sargs_max_training_samples a)
                (sargs_number_dataset_sizes a) (sargs_repeat a) (sargs_training_epochs a)
                (sargs_random_negative_samples a) (sargs_batch_size a)
                (sargs_sample_censored_affinities a) st of
           (Inl e, st') \<Rightarrow> (Some e, [], fs)
         | (Inr results_df, st') \<Rightarrow>
             (None, [results_df],
              fold (\<lambda>name fs'. savefig (plot_filename a name) fs') [''auc'', ''f1''] fs))"

section \<open>Observations on logs and tables\<close>

text \<open>The weights each \<^verbatim>\<open>fit\<close> of the log started from, in order.\<close>

fun fit_starts :: "('w, 'x) event list \<Rightarrow> 'w list" where
  "fit_starts [] = []"
| "fit_starts (Fit w xs ys n # es) = w # fit_starts es"
| "fit_starts (e # es) = fit_starts es"

text \<open>
  A fold that the loop over the folds does not skip: among its test samples there is a
  strong binder (\<^verbatim>\<open>ic50 <= 500\<close>) and one that is not.
\<close>

definition mixed_labels :: "real list \<Rightarrow> nat list \<Rightarrow> bool" where
  "mixed_labels ic50s test_idx =
     (list_ex (\<lambda>i. ic50s ! i \<le> 500) test_idx \<and> list_ex (\<lambda>i. \<not> ic50s ! i \<le> 500) test_idx)"

text \<open>
  In a log of the first script, every \<^verbatim>\<open>fit\<close> comes directly after a
  \<^verbatim>\<open>set_weights\<close> of the weights \<open>w0\<close> and starts from them.
\<close>

fun each_fit_restored :: "'w \<Rightarrow> ('w, 'x) event list \<Rightarrow> bool" where
  "each_fit_restored w0 [] = True"
| "each_fit_restored w0 (Set_weights w # Fit w' xs ys n # es) =
     (w = w0 \<and> w' = w0 \<and> each_fit_restored w0 es)"
| "each_fit_restored w0 (Fit w xs ys n # es) = False"
| "each_fit_restored w0 (e # es) = each_fit_restored w0 es"

text \<open>
  A session that continues another: its log is the other's followed by a segment in which
  every \<^verbatim>\<open>fit\<close> is directly preceded by the restore of \<open>w0\<close>.
\<close>

definition restores_well :: "'w \<Rightarrow> ('w, 'x) session \<Rightarrow> ('w, 'x) session \<Rightarrow> bool" where
  "restores_well w0 st st' = (\<exists>seg. calls st' = calls st @ seg \<and> each_fit_restored w0 seg)"

text \<open>
  In a trace of the second script, a \<^verbatim>\<open>fit_dataset\<close> without an imputed data set
  starts from the weights the most recently built model came with, and one with an
  imputed data set comes directly after a \<^verbatim>\<open>set_weights\<close> of those weights and starts
  from them.
\<close>

fun refits_restored :: "'w option \<Rightarrow> ('w, 'd) sens_event list \<Rightarrow> bool" where
  "refits_restored current [] = True"
| "refits_restored current (Model_created w # es) = refits_restored (Some w) es"
| "refits_restored current (Model_set_weights w # Fit_dataset w' train (Some imputed) # es) =
     (current = Some w \<and> w' = w \<and> refits_restored current es)"
| "refits_restored current (Fit_dataset w train None # es) =
     (current = Some w \<and> refits_restored current es)"
| "refits_restored current (Fit_dataset w train (Some imputed) # es) = False"
| "refits_restored current (e # es) = refits_restored current es"

text \<open>For each \<^verbatim>\<open>fit_dataset\<close> of a trace, in order: was it given an imputed data set?\<close>

fun fit_kinds :: "('w, 'd) sens_event list \<Rightarrow> bool list" where
  "fit_kinds [] = []"
| "fit_kinds (Fit_dataset w train pretraining # es) = (pretraining \<noteq> None) # fit_kinds es"
| "fit_kinds (e # es) = fit_kinds es"

text \<open>
  A state that continues another: its trace is the other's followed by a segment in which
  that holds whatever came before.
\<close>

definition extends_well :: "('w, 'd, 'r) sens_state \<Rightarrow> ('w, 'd, 'r) sens_state \<Rightarrow> bool" where
  "extends_well st st' = (\<exists>seg. trace st' = trace st @ seg \<and> (\<forall>c. refits_restored c seg))"

text \<open>
  The row that the docstring of \<^verbatim>\<open>leave_out_allele_cross_validation\<close> describes for
  one allele: its name, its number of samples, and mean, median, standard deviation,
  minimum and maximum of the per-fold AUCs and of the per-fold accuracies.
\<close>

definition allele_row_entries :: "string \<Rightarrow> real list \<Rightarrow> real list \<Rightarrow> real list \<Rightarrow> (string \<times> cell) list" where
  "allele_row_entries allele_name ic50_allele aucs accuracies =
     [(''allele_name'', Cell_str allele_name),
      (''dataset_size'', Cell_int (int (length ic50_allele))),
      (''auc_mean'', Cell_real (np_mean aucs)),
      (''auc_median'', Cell_real (np_median aucs)),
      (''auc_std'', Cell_real (np_std aucs)),
      (''auc_min'', Cell_real (Min (set aucs))),
      (''auc_max'', Cell_real (Max (set aucs))),
      (''accuracy_mean'', Cell_real (np_mean accuracies)),
      (''accuracy_median'', Cell_real (np_median accuracies)),
      (''accuracy_std'', Cell_real (np_std accuracies)),
      (''accuracy_min'', Cell_real (Min (set accuracies))),
      (''accuracy_max'', Cell_real (Max (set accuracies)))]"

text \<open>
  An allele that contributes a row, with the two lists its cross-validation returned: an
  item of \<^verbatim>\<open>allele_datasets\<close> that passes both eligibility tests (lines 256 and 262)
  and for which the call of \<^verbatim>\<open>kfold_cross_validation_for_single_allele\<close> at line 294,
  with the arguments the loop passes and in the session the loop has reached, returned
  these lists, the first of them not empty (line 303).
\<close>

definition evaluated_allele ::
  "sklearn \<Rightarrow> ('w, 'x) mhcflurry \<Rightarrow> ModelConfig \<Rightarrow> bool \<Rightarrow> int \<Rightarrow> int \<Rightarrow> int \<Rightarrow>
   (string \<times> 'x dataset) \<times> real list \<times> real list \<Rightarrow> bool" where
  "evaluated_allele SK L config binary_encoding min_samples_per_allele cv_folds max_ic50' e =
     (case e of ((a0, d), aucs, accuracies) \<Rightarrow>
        \<not> (isdigit a0 \<or> length a0 < 5) \<and> \<not> int (length (ds_X d)) < min_samples_per_allele
        \<and> aucs \<noteq> []
        \<and> (\<exists>st3 st4.
              kfold_cross_validation_for_single_allele SK L (normalize_allele_name L a0)
                (if binary_encoding then indices_to_hotshot_encoding L (ds_X d) else ds_X d)
                (ic50_to_target max_ic50' (ds_ic50 d)) (ds_ic50 d) (n_epochs config) cv_folds max_ic50' st3
              = (Inr (aucs, accuracies), st4)))"

text \<open>
  The cells such an allele contributes to column \<open>k\<close>, and its row: the docstring's row for
  the normalized name, the allele's samples and the returned lists.
\<close>

definition emitted_cells ::
  "('w, 'x) mhcflurry \<Rightarrow> string \<Rightarrow> (string \<times> 'x dataset) \<times> real list \<times> real list \<Rightarrow> cell list" where
  "emitted_cells L k e =
     (case e of ((a0, d), aucs, accuracies) \<Rightarrow>
        map snd (filter (\<lambda>(k', v). k' = k)
                   (allele_row_entries (normalize_allele_name L a0) (ds_ic50 d) aucs accuracies)))"

definition emitted_row ::
  "('w, 'x) mhcflurry \<Rightarrow> (string \<times> 'x dataset) \<times> real list \<times> real list \<Rightarrow> cell list" where
  "emitted_row L e =
     (case e of ((a0, d), aucs, accuracies) \<Rightarrow>
        map snd (allele_row_entries (normalize_allele_name L a0) (ds_ic50 d) aucs accuracies))"

text \<open>
  The rows one repetition of the second script appends: one without imputation, and one
  more with it when an imputer was given.
\<close>

definition rows_per_repeat :: "'i option \<Rightarrow> nat" where
  "rows_per_repeat imputer = (if imputer = None then 1 else 2)"

definition impute_flags :: "'i option \<Rightarrow> cell list" where
  "impute_flags imputer = (if imputer = None then [Cell_bool False] else [Cell_bool False, Cell_bool True])"

section \<open>A small concrete instance of the external functions\<close>

text \<open>
  For evaluating the first script on explicit inputs: the two folds of four samples, a
  fit that counts its calls, constant predictions and scores, a data set of two alleles,
  the first configuration of the grid and a command line.
\<close>

definition example_sklearn :: sklearn where
  "example_sklearn =
     \<lparr>roc_auc_score = (\<lambda>labels scores. Inr 1),
      f1_score = (\<lambda>labels predictions. 1),
      KFold = (\<lambda>n n_folds. Inr [([2, 3], [0, 1]), ([0, 1], [2, 3])])\<rparr>"

definition example_datasets :: "(string \<times> nat dataset) list" where
  "example_datasets =
     [(''B0702'', \<lparr>ds_X = [4, 5, 6, 7], ds_ic50 = [50, 5000, 20, 700]\<rparr>),
      (''A0201'', \<lparr>ds_X = [0, 1, 2, 3], ds_ic50 = [100, 1000, 50, 5000]\<rparr>)]"

definition example_config :: ModelConfig where
  "example_config =
     \<lparr>embedding_size = 0, hidden_layer_size = 64, activation = ''relu'', loss = ''mse'',
      init = ''glorot_uniform'', n_pretrain_epochs = 0, n_epochs = 5, dropout_probability = 0,
      max_ic50 = 5000\<rparr>"

definition example_mhcflurry :: "(int, nat) mhcflurry" where
  "example_mhcflurry =
     \<lparr>keras_fit = (\<lambda>xs ys nb_epoch w. w + 1),
      keras_predict = (\<lambda>w xs. map (\<lambda>x. 1) xs),
      make_embedding_network = (\<lambda>peptide_length input_dim output_dim layer_sizes act ini los dropout. 0),
      make_hotshot_network = (\<lambda>peptide_length layer_sizes act ini los dropout. 0),
      normalize_allele_name = (\<lambda>name. name),
      indices_to_hotshot_encoding = (\<lambda>xs. xs),
      load_data = (\<lambda>path. example_datasets)\<rparr>"

definition example_args :: args where
  "example_args =
     \<lparr>args_binding_data_csv_path = ''bdata.2009.mhci.public.1.txt'',
      args_min_samples_per_allele = 2,
      args_results_filename = ''results.csv'',
      args_cv_folds = 2,
      args_training_epochs = 5,
      args_max_dropout = 1 / 4\<rparr>"

text \<open>
  For the second script: every split returns the data set it was given, a fit adds one
  to the weights, and a new predictor starts from the generator's state.
\<close>

definition example_predictor_lib :: "(int, nat, nat, string) predictor_lib" where
  "example_predictor_lib =
     \<lparr>from_csv = (\<lambda>path. 0),
      get_allele = (\<lambda>dataset allele. dataset),
      dataset_len = (\<lambda>dataset. 300),
      affinities = (\<lambda>dataset. [100, 1000]),
      peptides = (\<lambda>dataset. [''SIINFEKLL'', ''AAAAAAAAA'']),
      random_split = (\<lambda>dataset n r. (Inr (dataset, dataset), r + 1)),
      split_allele_randomly_and_impute_training_set =
        (\<lambda>dataset allele n imputation_method min_peptide min_allele r.
           (Inr (dataset, dataset, dataset), r + 1)),
      fit_dataset = (\<lambda>train pretraining n_epochs n_negative censored w r. (w + 1, r + 1)),
      predict = (\<lambda>w ps. map (\<lambda>p. 1) ps),
      imputer_from_args =
        (\<lambda>a. if sargs_imputation_method a = ''none'' then None else Some (sargs_imputation_method a)),
      predictor_from_args = (\<lambda>allele a r. (int r, r + 1)),
      log_spaced_int64 = (\<lambda>lo hi num k. lo + int k * 100)\<rparr>"

definition example_sens_args :: sens_args where
  "example_sens_args =
     \<lparr>sargs_training_csv = ''bdata.2009.mhci.public.1.txt'',
      sargs_allele = ''A0201'',
      sargs_repeat = 2,
      sargs_number_dataset_sizes = 2,
      sargs_min_training_samples = 20,
      sargs_max_training_samples = 2000,
      sargs_sample_censored_affinities = False,
      sargs_training_epochs = 200,
      sargs_batch_size = 32,
      sargs_random_negative_samples = 100,
      sargs_hidden_layer_size = 10,
      sargs_activation = ''tanh'',
      sargs_imputation_method = ''none''\<rparr>"

section \<open>Properties\<close>

subsection \<open>The hyperparameter grid\<close>

lemma length_generate_all_model_configs:
  "length (generate_all_model_configs es n d) = 64 * length es"
  by (induction es)
     (simp_all add: generate_all_model_configs_def ACTIVATIONS_def INITILIZATION_METHODS_def
        HIDDEN1_LAYER_SIZES_def MAX_IC50_VALUES_def)

lemma generate_all_model_configs_loss_epochs:
  "list_all (\<lambda>c. loss c = ''mse'' \<and> n_epochs c = n) (generate_all_model_configs es n d)"
  by (auto simp add: generate_all_model_configs_def list_all_iff)

lemma generate_all_model_configs_member:
  "c \<in> set (generate_all_model_configs es n d) \<longleftrightarrow>
     activation c \<in> set ACTIVATIONS \<and> loss c = ''mse'' \<and> init c \<in> set INITILIZATION_METHODS
     \<and> n_pretrain_epochs c \<in> {0, 10} \<and> hidden_layer_size c \<in> set HIDDEN1_LAYER_SIZES
     \<and> embedding_size c \<in> set es \<and> dropout_probability c \<in> {0, d}
     \<and> max_ic50 c \<in> set MAX_IC50_VALUES \<and> n_epochs c = n \<and> ModelConfig.more c = ()"
  apply (cases c)
  apply (simp add: generate_all_model_configs_def)
  apply blast
  done

text \<open>
  C9, as the claim states it, fails: with \<^verbatim>\<open>embedding_sizes=[0, 64]\<close> and the script's
  defaults the grid does not have 256 configurations.
\<close>

theorem generate_all_model_configs_not_256:
  "length (generate_all_model_configs [0, 64] 125 0.25) \<noteq> 256"
  by (simp add: length_generate_all_model_configs)

text \<open>
  C9, amended: for \<^verbatim>\<open>embedding_sizes=[0, 64]\<close> and every \<^verbatim>\<open>n_training_epochs\<close> and
  \<^verbatim>\<open>max_dropout\<close>, \<^verbatim>\<open>generate_all_model_configs\<close> returns exactly 128 configurations,
  the cross product of 2 activations, 1 loss, 2 initialization methods, 2 pretrain-epoch
  values, 2 hidden-layer sizes, 2 embedding sizes, 2 dropout values and 2 max-IC50
  values; every one has loss \<^verbatim>\<open>"mse"\<close> and \<^verbatim>\<open>n_epochs\<close> equal to the argument.
\<close>

theorem generate_all_model_configs_128:
  "length (generate_all_model_configs [0, 64] n d) = 128
   \<and> list_all (\<lambda>c. loss c = ''mse'' \<and> n_epochs c = n) (generate_all_model_configs [0, 64] n d)
   \<and> (c \<in> set (generate_all_model_configs [0, 64] n d) \<longleftrightarrow>
        activation c \<in> {''relu'', ''tanh''} \<and> loss c = ''mse''
        \<and> init c \<in> {''glorot_uniform'', ''glorot_normal''}
        \<and> n_pretrain_epochs c \<in> {0, 10} \<and> hidden_layer_size c \<in> {64, 512}
        \<and> embedding_size c \<in> {0, 64} \<and> dropout_probability c \<in> {0, d}
        \<and> max_ic50 c \<in> {5000, 20000} \<and> n_epochs c = n \<and> ModelConfig.more c = ())"
  using generate_all_model_configs_member [of c "[0, 64]" n d]
  by (simp add: length_generate_all_model_configs generate_all_model_configs_loss_epochs
        ACTIVATIONS_def INITILIZATION_METHODS_def HIDDEN1_LAYER_SIZES_def MAX_IC50_VALUES_def)

subsection \<open>The model's calls\<close>

lemma fit_starts_append: "fit_starts (es @ fs) = fit_starts es @ fit_starts fs"
  by (induction es rule: fit_starts.induct) simp_all

lemma session_print: "calls (print m st) = calls st @ [Print m]" "weights (print m st) = weights st"
  by (simp_all add: print_def)

lemma session_set_weights:
  "calls (model_set_weights w st) = calls st @ [Set_weights w]" "weights (model_set_weights w st) = w"
  by (simp_all add: model_set_weights_def)

lemma session_fit:
  "calls (model_fit L xs ys n st) = calls st @ [Fit (weights st) xs ys n]"
  "weights (model_fit L xs ys n st) = keras_fit L xs ys n (weights st)"
  by (simp_all add: model_fit_def)

lemma session_predict:
  "calls (snd (model_predict L xs st)) = calls st @ [Predict (weights st) xs]"
  "weights (snd (model_predict L xs st)) = weights st"
  "fst (model_predict L xs st) = keras_predict L (weights st) xs"
  by (simp_all add: model_predict_def)

lemma session_get_weights:
  "calls (snd (model_get_weights st)) = calls st @ [Get_weights (weights st)]"
  "weights (snd (model_get_weights st)) = weights st"
  "fst (model_get_weights st) = weights st"
  by (simp_all add: model_get_weights_def)

lemma kfold_epochs_calls:
  "kfold_epochs a n cvf ns st = (r, st') \<Longrightarrow>
     weights st' = weights st \<and> fit_starts (calls st') = fit_starts (calls st)"
  by (auto simp add: kfold_epochs_def Let_def session_print fit_starts_append split: if_splits)

subsection \<open>Degenerate folds\<close>

text \<open>
  C1: a fold whose test labels (\<^verbatim>\<open>ic50 <= 500\<close>) are all true or all false is
  skipped. With the fold's indices inside the arrays, so that the four index reads of the
  loop body succeed, the loop on such a fold does nothing but print the notice and go on
  with the remaining folds: the model's weights are untouched, no \<^verbatim>\<open>fit\<close> or
  \<^verbatim>\<open>predict\<close> is logged, nothing is appended to the two result lists and no exception
  is raised.
\<close>

theorem kfold_degenerate_fold_skipped:
  assumes "list_all (\<lambda>i. i < length Xs) train_idx" and "list_all (\<lambda>i. i < length Ys) train_idx"
    and "list_all (\<lambda>i. i < length Xs) test_idx" and "list_all (\<lambda>i. i < length ic50s) test_idx"
    and "list_all (\<lambda>i. ic50s ! i \<le> 500) test_idx \<or> list_all (\<lambda>i. \<not> ic50s ! i \<le> 500) test_idx"
  shows "for_each (kfold_fold SK L allele_name Xs Ys ic50s n_training_epochs max_ic50' initial_weights)
           ((cv_iter, train_idx, test_idx) # rest) (fold_aucs, fold_accuracies) st
         = for_each (kfold_fold SK L allele_name Xs Ys ic50s n_training_epochs max_ic50' initial_weights)
             rest (fold_aucs, fold_accuracies)
             (st\<lparr>calls := calls st @ [Print (Skipping_cv_iter cv_iter allele_name)]\<rparr>)"
proof -
  let ?labels = "map (\<lambda>v. v \<le> 500) (map (nth ic50s) test_idx)"
  from assms(5) have "list_all (\<lambda>b. b) ?labels \<or> \<not> list_ex (\<lambda>b. b) ?labels"
    by (auto simp add: list_all_iff list_ex_iff)
  then have "kfold_fold SK L allele_name Xs Ys ic50s n_training_epochs max_ic50' initial_weights
          (cv_iter, train_idx, test_idx) (fold_aucs, fold_accuracies) st
        = (Inr (fold_aucs, fold_accuracies),
           st\<lparr>calls := calls st @ [Print (Skipping_cv_iter cv_iter allele_name)]\<rparr>)"
    using assms(1-4) by (simp add: kfold_fold_def np_take_def print_def)
  then show ?thesis by simp
qed

text \<open>The theorem at a two-sample data set whose test fold holds one strong binder.\<close>

theorem kfold_degenerate_fold_skipped_witness:
  "for_each (kfold_fold example_sklearn example_mhcflurry ''A0201'' [0, 1] [1, 0] [100, 1000] 5 5000 0)
     [(0, [1], [0])] ([], []) \<lparr>weights = 7, calls = []\<rparr>
   = (Inr ([], []), \<lparr>weights = 7, calls = [Print (Skipping_cv_iter 0 ''A0201'')]\<rparr>)"
  using kfold_degenerate_fold_skipped [of "[0, 1] :: nat list" "[1]" "[1, 0]" "[0]" "[100, 1000]"
      example_sklearn example_mhcflurry "''A0201''" 5 5000 0 0 "[]" "[]" "[]" "\<lparr>weights = 7, calls = []\<rparr>"]
  by simp

subsection \<open>Loops and logs\<close>

lemma for_each_related:
  assumes refl: "\<And>s. R s s"
    and trans: "\<And>s t u. R s t \<Longrightarrow> R t u \<Longrightarrow> R s u"
    and body: "\<And>x acc st r st'. body x acc st = (r, st') \<Longrightarrow> R st st'"
    and run: "for_each body xs acc st = (r, st')"
  shows "R st st'"
  using run
proof (induction xs arbitrary: acc st)
  case Nil
  then show ?case by (simp add: refl)
next
  case (Cons x xs)
  obtain r1 st1 where step: "body x acc st = (r1, st1)" by (cases "body x acc st") auto
  have p1: "R st st1" by (rule body [OF step])
  show ?case
  proof (cases r1)
    case (Inl e)
    with Cons.prems step p1 show ?thesis by simp
  next
    case (Inr acc1)
    with Cons.prems step have "for_each body xs acc1 st1 = (r, st')" by simp
    from p1 Cons.IH [OF this] show ?thesis by (rule trans)
  qed
qed

lemma for_each_prefix:
  assumes body: "\<And>x acc st r st'. body x acc st = (r, st') \<Longrightarrow> prefix (calls st) (calls st')"
    and run: "for_each body xs acc st = (r, st')"
  shows "prefix (calls st) (calls st')"
  by (rule for_each_related [where R = "\<lambda>s t. prefix (calls s) (calls t)", OF _ _ body run])
     (auto elim: prefix_order.trans)

lemma kfold_fold_prefix:
  "kfold_fold SK L a Xs Ys ic n m w0 item acc st = (r, st') \<Longrightarrow> prefix (calls st) (calls st')"
  by (cases item; cases acc)
     (auto split: sum.splits if_splits prod.splits
        simp add: kfold_fold_def Let_def session_print session_set_weights session_fit model_predict_def)

lemma kfold_epochs_prefix:
  "kfold_epochs a n cvf ns st = (r, st') \<Longrightarrow> prefix (calls st) (calls st')"
  by (auto simp add: kfold_epochs_def Let_def session_print split: if_splits)

lemma kfold_prefix:
  assumes "kfold_cross_validation_for_single_allele SK L a Xs Ys ic n cvf m st = (r, st')"
  shows "prefix (calls st) (calls st')"
proof -
  let ?st1 = "snd (model_get_weights st)"
  have p1: "prefix (calls st) (calls ?st1)" by (simp add: session_get_weights)
  obtain r2 st2 where e: "kfold_epochs a n cvf (length Ys) ?st1 = (r2, st2)"
    by (cases "kfold_epochs a n cvf (length Ys) ?st1") auto
  have p2: "prefix (calls st) (calls st2)"
    using p1 kfold_epochs_prefix [OF e] by (rule prefix_order.trans)
  show ?thesis
  proof (cases r2)
    case (Inl err)
    then show ?thesis using assms e p2
      by (simp add: kfold_cross_validation_for_single_allele_def model_get_weights_def Let_def)
  next
    case (Inr n')
    show ?thesis
    proof (cases "KFold SK (length Ys) cvf")
      case (Inl err)
      then show ?thesis using assms e p2 Inr
        by (simp add: kfold_cross_validation_for_single_allele_def model_get_weights_def Let_def)
    next
      case folds: (Inr folds)
      from assms e Inr folds
      have "for_each (kfold_fold SK L a Xs Ys ic n' m (weights st))
                (List.enumerate 0 folds) ([], []) st2 = (r, st')"
        by (simp add: kfold_cross_validation_for_single_allele_def model_get_weights_def Let_def)
      then have "prefix (calls st2) (calls st')"
        by (rule for_each_prefix [rotated]) (rule kfold_fold_prefix)
      with p2 show ?thesis by (rule prefix_order.trans)
    qed
  qed
qed

lemma pretrain_prefix:
  "pretrain L ads a be npe m st = (r, st') \<Longrightarrow> prefix (calls st) (calls st')"
  by (auto simp add: pretrain_def Let_def session_print session_fit split: sum.splits)

lemma loao_allele_restores:
  assumes el: "\<not> (isdigit a0 \<or> length a0 < 5)" "\<not> int (length (ds_X d)) < ms"
  shows "prefix (calls st @ [Set_weights w0])
           (calls (snd (loao_allele SK L ads config be npe ms cvf m w0 (a0, d) tbl st)))"
proof -
  let ?st1 = "model_set_weights w0 st"
  let ?a = "normalize_allele_name L a0"
  let ?X = "if be then indices_to_hotshot_encoding L (ds_X d) else ds_X d"
  have c1: "calls ?st1 = calls st @ [Set_weights w0]" by (simp add: session_set_weights)
  obtain r2 st2 where pre: "(if npe > 0 then pretrain L ads ?a be npe m ?st1 else (Inr (), ?st1)) = (r2, st2)"
    by (cases "if npe > 0 then pretrain L ads ?a be npe m ?st1 else (Inr (), ?st1)") auto
  have p2: "prefix (calls ?st1) (calls st2)"
    using pre pretrain_prefix by (auto split: if_splits)
  obtain r4 st4 where cv: "kfold_cross_validation_for_single_allele SK L ?a ?X
        (ic50_to_target m (ds_ic50 d)) (ds_ic50 d) (n_epochs config) cvf m
        (print (Cross_validation_for ?a (length (ic50_to_target m (ds_ic50 d)))) st2) = (r4, st4)"
    by (cases "kfold_cross_validation_for_single_allele SK L ?a ?X
        (ic50_to_target m (ds_ic50 d)) (ds_ic50 d) (n_epochs config) cvf m
        (print (Cross_validation_for ?a (length (ic50_to_target m (ds_ic50 d)))) st2)") auto
  have "prefix (calls st2) (calls (print (Cross_validation_for ?a (length (ic50_to_target m (ds_ic50 d)))) st2))"
    by (simp add: session_print)
  then have p4: "prefix (calls ?st1) (calls st4)"
    using p2 kfold_prefix [OF cv] by (meson prefix_order.trans)
  have p5: "prefix (calls ?st1) (calls (print msg' st4))" for msg'
    using p4 by (auto simp add: session_print prefix_def)
  have "prefix (calls ?st1) (calls (snd (loao_allele SK L ads config be npe ms cvf m w0 (a0, d) tbl st)))"
    using el pre cv p2 p4 p5
    by (auto simp add: loao_allele_def Let_def split: sum.splits prod.splits if_splits)
  then show ?thesis by (simp only: c1)
qed

lemma loao_allele_independent:
  assumes el: "\<not> (isdigit a0 \<or> length a0 < 5)" "\<not> int (length (ds_X d)) < ms"
  shows "loao_allele SK L ads config be npe ms cvf m w0 (a0, d) tbl (st\<lparr>weights := w'\<rparr>)
         = loao_allele SK L ads config be npe ms cvf m w0 (a0, d) tbl st"
  using el by (simp add: loao_allele_def Let_def model_set_weights_def)


lemma refits_after_set_weights:
  assumes "\<And>c'. refits_restored c' fs"
  shows "refits_restored c (Model_set_weights v # fs)"
proof (cases fs)
  case Nil
  then show ?thesis by simp
next
  case (Cons e fs')
  show ?thesis
  proof (cases e)
    case (Fit_dataset w train pretraining)
    with Cons assms [of c] show ?thesis by (cases pretraining) auto
  qed (use Cons assms [of c] in simp_all)
qed

lemma refits_append:
  "refits_restored c es \<Longrightarrow> (\<And>c'. refits_restored c' fs) \<Longrightarrow> refits_restored c (es @ fs)"
  by (induction c es rule: refits_restored.induct) (simp_all add: refits_after_set_weights)

lemma extends_well_refl: "extends_well st st"
  by (simp add: extends_well_def)

lemma extends_well_trans: "extends_well s t \<Longrightarrow> extends_well t u \<Longrightarrow> extends_well s u"
  unfolding extends_well_def
  by (metis append.assoc refits_append)

lemma for_each_extends:
  assumes body: "\<And>x acc st r st'. body x acc st = (r, st') \<Longrightarrow> extends_well st st'"
    and run: "for_each body xs acc st = (r, st')"
  shows "extends_well st st'"
  by (rule for_each_related [where R = extends_well, OF extends_well_refl extends_well_trans body run])

lemma split_datasets_trace:
  "split_datasets L ds dsa al imp n st = (r, st') \<Longrightarrow> trace st' = trace st"
  by (auto simp add: split_datasets_def split: option.splits prod.splits sum.splits)

lemma subsample_once_extends:
  assumes "subsample_once SK L model_fn ds dsa al imp ne nneg cens i n_train results st = (r, st')"
  shows "extends_well st st'"
proof -
  obtain r1 st1 where sp: "split_datasets L ds dsa al imp n_train st = (r1, st1)"
    by (cases "split_datasets L ds dsa al imp n_train st") auto
  have t1: "trace st1 = trace st" by (rule split_datasets_trace [OF sp])
  show ?thesis
    using assms sp t1 unfolding extends_well_def subsample_once_def
    by (auto simp add: Let_def new_model_def sens_get_weights_def sens_fit_def sens_predict_def
          sens_set_weights_def
          split: sum.splits prod.splits option.splits)
qed

lemma subsample_performance_extends:
  assumes "subsample_performance SK L ds al model_fn imp mn mx ns nr ne nneg bs cens st = (r, st')"
  shows "extends_well st st'"
proof (cases "sample_sizes L mn (min ((2 * int (dataset_len L (get_allele L ds al))) div 3) mx) ns")
  case (Inl e)
  with assms show ?thesis by (simp add: subsample_performance_def Let_def extends_well_refl)
next
  case (Inr sizes)
  let ?inner = "\<lambda>i n_train. for_each
       (\<lambda>repeat_number. subsample_once SK L model_fn ds (get_allele L ds al) al imp ne nneg cens i n_train)
       [0..<nat nr]"
  obtain r2 st2 where run: "for_each (\<lambda>(i, n_train). ?inner i n_train) (List.enumerate 0 sizes)
      initial_results st = (r2, st2)"
    by (cases "for_each (\<lambda>(i, n_train). ?inner i n_train) (List.enumerate 0 sizes) initial_results st") auto
  have inner: "extends_well s s'" if "?inner i n_train acc s = (q, s')" for i n_train acc s q s'
    using subsample_once_extends that by (rule for_each_extends)
  have outer: "extends_well s s'" if "(\<lambda>(i, n_train). ?inner i n_train) x acc s = (q, s')" for x acc s q s'
    using that inner by (cases x) auto
  have "extends_well st st2"
    using outer run by (rule for_each_extends)
  moreover have "st' = st2"
    using assms Inr run by (auto simp add: subsample_performance_def Let_def split: sum.splits)
  ultimately show ?thesis by simp
qed

lemma subsample_performance_refits:
  "refits_restored None
     (drop (length (trace st))
        (trace (snd (subsample_performance SK L ds al model_fn imp mn mx ns nr ne nneg bs cens st))))"
proof -
  obtain r st' where run: "subsample_performance SK L ds al model_fn imp mn mx ns nr ne nneg bs cens st = (r, st')"
    by (cases "subsample_performance SK L ds al model_fn imp mn mx ns nr ne nneg bs cens st") auto
  from subsample_performance_extends [OF run] show ?thesis
    by (auto simp add: run extends_well_def)
qed

subsection \<open>The restore in the loop over the alleles\<close>

lemma for_each_append:
  "for_each body (xs @ ys) acc st =
     (case for_each body xs acc st of
        (Inl e, st') \<Rightarrow> (Inl e, st')
      | (Inr acc', st') \<Rightarrow> for_each body ys acc' st')"
  by (induction xs arbitrary: acc st) (auto split: prod.splits sum.splits)

lemma loao_allele_prefix:
  assumes "loao_allele SK L ads config be npe ms cvf m w0 item tbl st = (r, st')"
  shows "prefix (calls st) (calls st')"
proof -
  obtain a0 d where item: "item = (a0, d)" by (cases item) auto
  show ?thesis
  proof (cases "\<not> (isdigit a0 \<or> length a0 < 5) \<and> \<not> int (length (ds_X d)) < ms")
    case True
    then have "prefix (calls st @ [Set_weights w0])
           (calls (snd (loao_allele SK L ads config be npe ms cvf m w0 (a0, d) tbl st)))"
      by (intro loao_allele_restores) auto
    then show ?thesis using assms item by (auto simp add: prefix_def)
  next
    case False
    then show ?thesis using assms item
      by (auto simp add: loao_allele_def Let_def session_print split: if_splits)
  qed
qed

lemma leave_out_restores:
  assumes split: "sort_key fst ads = before @ (a0, d) # after"
    and el: "\<not> (isdigit a0 \<or> length a0 < 5)" "\<not> int (length (ds_X d)) < ms"
    and reached: "for_each (loao_allele SK L ads config be npe ms cvf m (weights st)) before
                    initial_result_dict (snd (model_get_weights st)) = (Inr tbl, s)"
  shows "prefix (calls s @ [Set_weights (weights st)])
           (calls (snd (leave_out_allele_cross_validation SK L ads config be npe ms cvf m st)))"
proof -
  let ?body = "loao_allele SK L ads config be npe ms cvf m (weights st)"
  obtain r1 s1 where step: "?body (a0, d) tbl s = (r1, s1)" by (cases "?body (a0, d) tbl s") auto
  have p1: "prefix (calls s @ [Set_weights (weights st)]) (calls s1)"
    using loao_allele_restores [OF el, of s "weights st" SK L ads config be npe cvf m tbl] step by simp
  obtain r2 s2 where rest: "for_each ?body ((a0, d) # after) tbl s = (r2, s2)"
    by (cases "for_each ?body ((a0, d) # after) tbl s") auto
  have p2: "prefix (calls s1) (calls s2)"
  proof (cases r1)
    case (Inl e)
    with rest step show ?thesis by simp
  next
    case (Inr tbl1)
    with rest step have "for_each ?body after tbl1 s1 = (r2, s2)" by simp
    then show ?thesis by (rule for_each_prefix [rotated]) (rule loao_allele_prefix)
  qed
  have whole: "for_each ?body (sort_key fst ads) initial_result_dict (snd (model_get_weights st)) = (r2, s2)"
    using reached rest by (simp add: split for_each_append)
  have "snd (leave_out_allele_cross_validation SK L ads config be npe ms cvf m st) = s2"
    using whole
    by (simp add: leave_out_allele_cross_validation_def Let_def model_get_weights_def split: sum.splits)
  with p1 p2 show ?thesis by (auto elim: prefix_order.trans)
qed

subsection \<open>The pre-training branch\<close>

text \<open>
  Whatever the data, the branch ends in an exception: ValueError from \<^verbatim>\<open>np.vstack\<close>
  when no other allele is left, AttributeError from \<^verbatim>\<open>other_allele.ic50\<close> otherwise.
\<close>

lemma pretrain_raises:
  "fst (pretrain L ads a be npe m st) = Inl ValueError \<or> fst (pretrain L ads a be npe m st) = Inl AttributeError"
proof (cases "filter (\<lambda>(other_allele, other_dataset). normalize_allele_name L other_allele \<noteq> a) ads")
  case Nil
  then show ?thesis by (simp add: pretrain_def np_vstack_def)
next
  case (Cons p ps)
  then show ?thesis
    by (cases p) (simp add: pretrain_def np_vstack_def str_getattr_ic50_def Let_def)
qed

text \<open>
  C8: with \<^verbatim>\<open>n_pretrain_epochs = 10\<close> and two eligible alleles the construction of the
  pre-training data raises AttributeError: the second comprehension reads \<^verbatim>\<open>ic50\<close>
  from the allele name, where the first one reads \<^verbatim>\<open>X\<close> from the data set.
\<close>

theorem pretraining_raises_attribute_error:
  "fst (leave_out_allele_cross_validation example_sklearn example_mhcflurry example_datasets
          (example_config\<lparr>n_pretrain_epochs := 10\<rparr>) True 10 2 2 5000 \<lparr>weights = 0, calls = []\<rparr>)
   = Inl AttributeError"
  by (simp add: leave_out_allele_cross_validation_def example_datasets_def model_get_weights_def
        loao_allele_def isdigit_def Let_def example_mhcflurry_def pretrain_def np_vstack_def
        str_getattr_ic50_def)

subsection \<open>Appending to an ordered dictionary of columns\<close>

lemma dict_append_column:
  "dict_append k v d = Inr d' \<Longrightarrow> column k' d' = column k' d @ (if k' = k then [v] else [])"
  by (induction d arbitrary: d') (auto simp add: column_def split: if_splits sum.splits)

lemma dict_append_keys: "dict_append k v d = Inr d' \<Longrightarrow> map fst d' = map fst d"
  by (induction d arbitrary: d') (auto split: if_splits sum.splits)

lemma dict_append_succeeds: "k \<in> set (map fst d) \<Longrightarrow> \<exists>d'. dict_append k v d = Inr d'"
proof (induction d)
  case Nil
  then show ?case by simp
next
  case (Cons p d)
  obtain k' vs where p: "p = (k', vs)" by (cases p) auto
  show ?case
  proof (cases "k' = k")
    case True
    with p show ?thesis by simp
  next
    case False
    with Cons.prems p have "k \<in> set (map fst d)" by auto
    from Cons.IH [OF this] obtain d1 where "dict_append k v d = Inr d1" by blast
    with False p show ?thesis by simp
  qed
qed

lemma dict_append_all_column:
  "dict_append_all kvs d = Inr d' \<Longrightarrow>
     column k' d' = column k' d @ map snd (filter (\<lambda>(k, v). k = k') kvs)"
proof (induction kvs arbitrary: d)
  case Nil
  then show ?case by simp
next
  case (Cons kv kvs)
  obtain k v where kv: "kv = (k, v)" by (cases kv) auto
  from Cons.prems kv obtain d1 where d1: "dict_append k v d = Inr d1" "dict_append_all kvs d1 = Inr d'"
    by (auto split: sum.splits)
  from Cons.IH [OF d1(2)] dict_append_column [OF d1(1), of k'] kv show ?case by auto
qed

lemma dict_append_all_keys: "dict_append_all kvs d = Inr d' \<Longrightarrow> map fst d' = map fst d"
proof (induction kvs arbitrary: d)
  case Nil
  then show ?case by simp
next
  case (Cons kv kvs)
  then show ?case by (cases kv) (auto split: sum.splits dest: dict_append_keys)
qed

lemma dict_append_all_succeeds:
  "set (map fst kvs) \<subseteq> set (map fst d) \<Longrightarrow> \<exists>d'. dict_append_all kvs d = Inr d'"
proof (induction kvs arbitrary: d)
  case Nil
  then show ?case by simp
next
  case (Cons kv kvs)
  obtain k v where kv: "kv = (k, v)" by (cases kv) auto
  with Cons.prems have "k \<in> set (map fst d)" by simp
  from dict_append_succeeds [OF this, of v] obtain d1 where d1: "dict_append k v d = Inr d1" by blast
  from dict_append_keys [OF d1] Cons.prems have "set (map fst kvs) \<subseteq> set (map fst d1)" by simp
  from Cons.IH [OF this] d1 kv show ?case by simp
qed

subsection \<open>The statistics of one allele's row\<close>

lemma kfold_fold_lengths:
  assumes "kfold_fold SK L a Xs Ys ic n m w0 item acc st = (Inr acc', st')"
    and "length (fst acc) = length (snd acc)"
  shows "length (fst acc') = length (snd acc')"
  using assms
  by (cases item; cases acc)
     (auto simp add: kfold_fold_def Let_def split: sum.splits if_splits prod.splits)

lemma for_each_kfold_lengths:
  "for_each (kfold_fold SK L a Xs Ys ic n m w0) items acc st = (Inr acc', st')
   \<Longrightarrow> length (fst acc) = length (snd acc) \<Longrightarrow> length (fst acc') = length (snd acc')"
proof (induction items arbitrary: acc st)
  case Nil
  then show ?case by simp
next
  case (Cons item items)
  obtain r1 st1 where step: "kfold_fold SK L a Xs Ys ic n m w0 item acc st = (r1, st1)"
    by (cases "kfold_fold SK L a Xs Ys ic n m w0 item acc st") auto
  with Cons.prems(1) obtain acc1 where r1: "r1 = Inr acc1"
    by (cases r1) auto
  from step r1 Cons.prems(2) have "length (fst acc1) = length (snd acc1)"
    by (auto dest: kfold_fold_lengths)
  moreover from Cons.prems(1) step r1
  have "for_each (kfold_fold SK L a Xs Ys ic n m w0) items acc1 st1 = (Inr acc', st')" by simp
  ultimately show ?case by (rule Cons.IH [rotated])
qed

lemma kfold_lengths:
  assumes "kfold_cross_validation_for_single_allele SK L a Xs Ys ic n cvf m st = (Inr (aucs, accuracies), st')"
  shows "length aucs = length accuracies"
proof -
  from assms obtain n' st2 folds where
    "for_each (kfold_fold SK L a Xs Ys ic n' m (weights st)) (List.enumerate 0 folds) ([], []) st2
       = (Inr (aucs, accuracies), st')"
    by (auto simp add: kfold_cross_validation_for_single_allele_def model_get_weights_def Let_def
          split: prod.splits sum.splits)
  from for_each_kfold_lengths [OF this] show ?thesis by simp
qed

lemma np_min_Min: "np_min (v # vs) = Inr (Min (set (v # vs)))"
  using Min.set_eq_fold [of v vs] by simp

lemma np_max_Max: "np_max (v # vs) = Inr (Max (set (v # vs)))"
  using Max.set_eq_fold [of v vs] by simp

lemma dict_append_all_append:
  "dict_append_all (xs @ ys) d =
     (case dict_append_all xs d of Inl e \<Rightarrow> Inl e | Inr d1 \<Rightarrow> dict_append_all ys d1)"
  by (induction xs arbitrary: d) (auto split: sum.splits)

lemma append_allele_row_entries:
  assumes "aucs \<noteq> []" "accuracies \<noteq> []"
  shows "append_allele_row a ic aucs accuracies d
         = dict_append_all (allele_row_entries a ic aucs accuracies) d"
proof -
  from assms obtain u us v vs where c: "aucs = u # us" "accuracies = v # vs"
    by (cases aucs; cases accuracies) auto
  show ?thesis
    unfolding c append_allele_row_def summary_entries_def np_min_Min np_max_Max allele_row_entries_def
    by (simp split: sum.splits)
qed

lemma append_allele_row_columns:
  assumes ne: "aucs \<noteq> []" "accuracies \<noteq> []"
    and keys: "map fst d = map fst initial_result_dict"
  shows "\<exists>d'. append_allele_row a ic aucs accuracies d = Inr d'
           \<and> map fst d' = map fst initial_result_dict
           \<and> (\<forall>k. column k d' = column k d
                  @ map snd (filter (\<lambda>(k', v). k' = k) (allele_row_entries a ic aucs accuracies)))"
proof -
  have "set (map fst (allele_row_entries a ic aucs accuracies)) \<subseteq> set (map fst d)"
    by (simp add: keys initial_result_dict_def allele_row_entries_def)
  from dict_append_all_succeeds [OF this] obtain d'
    where d': "dict_append_all (allele_row_entries a ic aucs accuracies) d = Inr d'" by blast
  from dict_append_all_keys [OF d'] dict_append_all_column [OF d'] keys
  show ?thesis by (simp add: append_allele_row_entries [OF ne] d')
qed

lemma append_allele_row_keys:
  "append_allele_row a ic aucs accuracies d = Inr d' \<Longrightarrow> map fst d' = map fst d"
  by (auto simp add: append_allele_row_def split: sum.splits
        dest!: dict_append_keys dict_append_all_keys)

lemma loao_allele_keys:
  assumes "loao_allele SK L ads config be npe ms cvf m w0 item tbl st = (Inr tbl', st')"
  shows "map fst tbl' = map fst tbl"
  using assms
  by (cases item)
     (auto simp add: loao_allele_def Let_def split: if_splits sum.splits prod.splits
        dest: append_allele_row_keys)

text \<open>
  C6: when an allele is evaluated (it passes the two filters, and pre-training, if asked
  for, returned) and its cross-validation returns the per-fold lists \<open>aucs\<close> and
  \<open>accuracies\<close> with \<open>aucs\<close> not empty, the loop body appends one row, and in that row
  the columns \<^verbatim>\<open>auc_mean\<close>, \<^verbatim>\<open>auc_median\<close>, \<^verbatim>\<open>auc_std\<close>, \<^verbatim>\<open>auc_min\<close>,
  \<^verbatim>\<open>auc_max\<close> hold the mean, median, standard deviation, minimum and maximum of
  \<open>aucs\<close>, and the \<^verbatim>\<open>accuracy_\<close> columns those of \<open>accuracies\<close>.
\<close>

theorem allele_row_statistics:
  assumes eligible: "\<not> (isdigit a0 \<or> length a0 < 5)" "\<not> int (length (ds_X d)) < min_samples_per_allele"
    and keys: "map fst result_dict = map fst initial_result_dict"
    and pre: "(if n_pretrain_epochs' > 0
               then pretrain L allele_datasets (normalize_allele_name L a0) binary_encoding
                      n_pretrain_epochs' max_ic50' (model_set_weights initial_weights st)
               else (Inr (), model_set_weights initial_weights st)) = (Inr u, st2)"
    and cv: "kfold_cross_validation_for_single_allele SK L (normalize_allele_name L a0)
               (if binary_encoding then indices_to_hotshot_encoding L (ds_X d) else ds_X d)
               (ic50_to_target max_ic50' (ds_ic50 d)) (ds_ic50 d) (n_epochs config) cv_folds max_ic50'
               (print (Cross_validation_for (normalize_allele_name L a0)
                         (length (ic50_to_target max_ic50' (ds_ic50 d)))) st2)
             = (Inr (aucs, accuracies), st4)"
    and nonempty: "aucs \<noteq> []"
  shows "\<exists>d'. loao_allele SK L allele_datasets config binary_encoding n_pretrain_epochs'
               min_samples_per_allele cv_folds max_ic50' initial_weights (a0, d) result_dict st
             = (Inr d', st4)
           \<and> column ''auc_mean'' d' = column ''auc_mean'' result_dict @ [Cell_real (np_mean aucs)]
           \<and> column ''auc_median'' d' = column ''auc_median'' result_dict @ [Cell_real (np_median aucs)]
           \<and> column ''auc_std'' d' = column ''auc_std'' result_dict @ [Cell_real (np_std aucs)]
           \<and> column ''auc_min'' d' = column ''auc_min'' result_dict @ [Cell_real (Min (set aucs))]
           \<and> column ''auc_max'' d' = column ''auc_max'' result_dict @ [Cell_real (Max (set aucs))]
           \<and> column ''accuracy_mean'' d'
               = column ''accuracy_mean'' result_dict @ [Cell_real (np_mean accuracies)]
           \<and> column ''accuracy_median'' d'
               = column ''accuracy_median'' result_dict @ [Cell_real (np_median accuracies)]
           \<and> column ''accuracy_std'' d'
               = column ''accuracy_std'' result_dict @ [Cell_real (np_std accuracies)]
           \<and> column ''accuracy_min'' d'
               = column ''accuracy_min'' result_dict @ [Cell_real (Min (set accuracies))]
           \<and> column ''accuracy_max'' d'
               = column ''accuracy_max'' result_dict @ [Cell_real (Max (set accuracies))]"
proof -
  from kfold_lengths [OF cv] nonempty have ne2: "accuracies \<noteq> []" by auto
  from nonempty have len: "length aucs \<noteq> 0" by simp
  have body: "loao_allele SK L allele_datasets config binary_encoding n_pretrain_epochs'
               min_samples_per_allele cv_folds max_ic50' initial_weights (a0, d) result_dict st
             = (append_allele_row (normalize_allele_name L a0) (ds_ic50 d) aucs accuracies result_dict, st4)"
    using eligible pre cv len by (simp add: loao_allele_def Let_def)
  from append_allele_row_columns [OF nonempty ne2 keys, of "normalize_allele_name L a0" "ds_ic50 d"]
  obtain d' where d': "append_allele_row (normalize_allele_name L a0) (ds_ic50 d) aucs accuracies result_dict = Inr d'"
    and cols: "\<And>k. column k d' = column k result_dict
                  @ map snd (filter (\<lambda>(k', v). k' = k)
                      (allele_row_entries (normalize_allele_name L a0) (ds_ic50 d) aucs accuracies))"
    by blast
  show ?thesis
    unfolding body d'
    by (intro exI [of _ d'] conjI refl) (simp_all add: cols allele_row_entries_def)
qed

text \<open>
  The example library on the allele \<^verbatim>\<open>A0201\<close> of the example data: both folds are
  evaluated.
\<close>

lemma example_kfold:
  "fst (kfold_cross_validation_for_single_allele example_sklearn example_mhcflurry ''A0201''
         [x0, x1, x2, x3] (ic50_to_target 5000 [100, 1000, 50, 5000]) [100, 1000, 50, 5000] 5 2 5000 st)
   = Inr ([1, 1], [1 / 2, 1 / 2])"
  by (simp add: kfold_cross_validation_for_single_allele_def model_get_weights_def kfold_epochs_def
       example_sklearn_def kfold_fold_def np_take_def Let_def
       model_set_weights_def model_fit_def model_predict_def example_mhcflurry_def print_def
       np_mean_def ic50_to_target_def)

text \<open>The theorem on that allele: the row's statistics, evaluated.\<close>

theorem allele_row_statistics_witness:
  "\<exists>d'. fst (loao_allele example_sklearn example_mhcflurry example_datasets example_config False 0 2 2
                5000 0 (''A0201'', \<lparr>ds_X = [0, 1, 2, 3], ds_ic50 = [100, 1000, 50, 5000]\<rparr>)
                initial_result_dict \<lparr>weights = 0, calls = []\<rparr>) = Inr d'
        \<and> column ''auc_mean'' d' = [Cell_real 1]
        \<and> column ''auc_min'' d' = [Cell_real 1]
        \<and> column ''auc_max'' d' = [Cell_real 1]
        \<and> column ''accuracy_mean'' d' = [Cell_real (1 / 2)]
        \<and> column ''accuracy_min'' d' = [Cell_real (1 / 2)]
        \<and> column ''accuracy_max'' d' = [Cell_real (1 / 2)]"
proof -
  let ?st = "\<lparr>weights = 0 :: int, calls = [] :: (int, nat) event list\<rparr>"
  let ?d = "\<lparr>ds_X = [0, 1, 2, 3 :: nat], ds_ic50 = [100, 1000, 50, 5000]\<rparr>"
  let ?st3 = "print (Cross_validation_for (normalize_allele_name example_mhcflurry ''A0201'')
                 (length (ic50_to_target 5000 (ds_ic50 ?d)))) (model_set_weights 0 ?st)"
  let ?cv = "kfold_cross_validation_for_single_allele example_sklearn example_mhcflurry
               (normalize_allele_name example_mhcflurry ''A0201'')
               (if False then indices_to_hotshot_encoding example_mhcflurry (ds_X ?d) else ds_X ?d)
               (ic50_to_target 5000 (ds_ic50 ?d)) (ds_ic50 ?d) (n_epochs example_config) 2 5000 ?st3"
  have e1: "\<not> (isdigit ''A0201'' \<or> length ''A0201'' < 5)" by (simp add: isdigit_def)
  have e2: "\<not> int (length (ds_X ?d)) < 2" by simp
  have pre: "(if (0 :: int) > 0
               then pretrain example_mhcflurry example_datasets
                      (normalize_allele_name example_mhcflurry ''A0201'') False 0 5000
                      (model_set_weights 0 ?st)
               else (Inr (), model_set_weights 0 ?st)) = (Inr (), model_set_weights 0 ?st)"
    by simp
  have n: "normalize_allele_name example_mhcflurry ''A0201'' = ''A0201''"
    by (simp add: example_mhcflurry_def)
  have "fst ?cv = Inr ([1, 1], [1 / 2, 1 / 2])"
    by (simp add: n example_config_def example_kfold)
  then have cv: "?cv = (Inr ([1, 1], [1 / 2, 1 / 2]), snd ?cv)"
    by (metis prod.collapse)
  have ne: "[1, 1 :: real] \<noteq> []" by simp
  from allele_row_statistics [OF e1 e2 refl pre cv ne]
  show ?thesis
    by (auto simp add: column_def initial_result_dict_def np_mean_def)
qed

subsection \<open>The results file of the model-selection script\<close>

lemma write_file_same:
  "write_file name mode content fs name
   = Some ((if mode = ''a'' then (case fs name of None \<Rightarrow> [] | Some old \<Rightarrow> old) else []) @ content)"
  by (simp add: write_file_def)

lemma write_file_other: "name' \<noteq> name \<Longrightarrow> write_file name mode content fs name' = fs name'"
  by (simp add: write_file_def)

lemma main_loop_appends:
  assumes "list_all (\<lambda>(i, config). i > 0) ics" and "fs (args_results_filename a) = Some old"
  shows "\<exists>new. snd (main_loop SK L a ads ics fs) (args_results_filename a) = Some (old @ new)"
  using assms
proof (induction ics arbitrary: fs old)
  case Nil
  then show ?case by simp
next
  case (Cons ic ics)
  obtain i config where ic: "ic = (i, config)" by (cases ic) auto
  with Cons.prems have i: "i > 0" and rest: "list_all (\<lambda>(i, config). i > 0) ics" by auto
  obtain r st where ev: "evaluate_model_config SK L config ads (args_min_samples_per_allele a)
      (args_cv_folds a) (max_ic50 config) = (r, st)"
    by (cases "evaluate_model_config SK L config ads (args_min_samples_per_allele a)
      (args_cv_folds a) (max_ic50 config)") auto
  show ?case
  proof (cases r)
    case (Inl e)
    with ev ic Cons.prems(2) show ?thesis by simp
  next
    case (Inr df)
    let ?fs1 = "write_file (args_results_filename a) (file_mode i) (to_csv (add_config_columns i config df)) fs"
    have "?fs1 (args_results_filename a) = Some (old @ to_csv (add_config_columns i config df))"
      using i Cons.prems(2) by (simp add: write_file_same file_mode_def)
    from Cons.IH [of ?fs1 "old @ to_csv (add_config_columns i config df)", OF rest this] obtain new where
      "snd (main_loop SK L a ads ics ?fs1) (args_results_filename a)
       = Some ((old @ to_csv (add_config_columns i config df)) @ new)" by blast
    then show ?thesis using ev ic Inr by simp
  qed
qed

lemma enumerate_positive: "list_all (\<lambda>(i, x). i > 0) (List.enumerate (Suc k) xs)"
  by (induction xs arbitrary: k) simp_all

text \<open>
  C7: within one run the results file is built by appending only. The file is opened in
  truncating write mode for configuration 0 alone and in append mode for every later
  one; and over any stretch of the loop that starts after configuration 0, whatever the
  file holds at its start is still at the start of the file at its end, whether the
  run ends normally or with an exception.
\<close>

theorem results_file_append_only:
  "(file_mode i = ''w'' \<longleftrightarrow> i = 0) \<and> (file_mode i = ''a'' \<longleftrightarrow> i > 0)
   \<and> (fs (args_results_filename a) = Some old \<longrightarrow>
        (\<exists>new. snd (main_loop SK L a allele_datasets (List.enumerate (Suc k) configs) fs)
                 (args_results_filename a) = Some (old @ new)))"
proof (intro conjI impI)
  assume "fs (args_results_filename a) = Some old"
  with enumerate_positive
  show "\<exists>new. snd (main_loop SK L a allele_datasets (List.enumerate (Suc k) configs) fs)
                 (args_results_filename a) = Some (old @ new)"
    by (rule main_loop_appends)
qed (auto simp add: file_mode_def)

text \<open>The theorem at a file that already holds a line when configuration 1 is reached.\<close>

theorem results_file_append_only_witness:
  "\<exists>new. snd (main_loop example_sklearn example_mhcflurry example_args example_datasets
                (List.enumerate (Suc 0) [example_config])
                (Map.empty(''results.csv'' \<mapsto> [Csv_header [''allele_name'']])))
           ''results.csv'' = Some ([Csv_header [''allele_name'']] @ new)"
  using results_file_append_only [of 1 "Map.empty(''results.csv'' \<mapsto> [Csv_header [''allele_name'']])"
      example_args "[Csv_header [''allele_name'']]" example_sklearn example_mhcflurry example_datasets
      0 "[example_config]"]
  by (simp add: example_args_def)

subsection \<open>The rows of the results file\<close>

lemma for_each_accumulator:
  assumes body: "\<And>x acc st acc' st'. body x acc st = (Inr acc', st') \<Longrightarrow> P acc \<Longrightarrow> P acc'"
    and run: "for_each body xs acc st = (Inr acc', st')"
    and start: "P acc"
  shows "P acc'"
  using run start
proof (induction xs arbitrary: acc st)
  case Nil
  then show ?case by simp
next
  case (Cons x xs)
  obtain r1 st1 where step: "body x acc st = (r1, st1)" by (cases "body x acc st") auto
  with Cons.prems(1) obtain acc1 where r1: "r1 = Inr acc1" by (cases r1) auto
  from step r1 Cons.prems(2) have "P acc1" by (auto dest: body)
  moreover from Cons.prems(1) step r1 have "for_each body xs acc1 st1 = (Inr acc', st')" by simp
  ultimately show ?case by (rule Cons.IH [rotated])
qed

lemma leave_out_columns:
  assumes "leave_out_allele_cross_validation SK L ads config be npe ms cvf m st = (Inr df, st')"
  shows "map fst df = map fst initial_result_dict \<and> list_all (\<lambda>(k, vs). length vs = df_len df) df"
proof -
  from assms obtain d' st2 where
    run: "for_each (loao_allele SK L ads config be npe ms cvf m (weights st)) (sort_key fst ads)
            initial_result_dict st2 = (Inr d', st')"
    and df: "pd_DataFrame d' = Inr df"
    by (auto simp add: leave_out_allele_cross_validation_def model_get_weights_def Let_def
          split: prod.splits sum.splits)
  have "map fst d' = map fst initial_result_dict"
    by (rule for_each_accumulator [where P = "\<lambda>d. map fst d = map fst initial_result_dict", OF _ run])
       (auto dest: loao_allele_keys)
  with df show ?thesis by (auto simp add: pd_DataFrame_def split: if_splits)
qed

lemma evaluate_model_config_columns:
  assumes "evaluate_model_config SK L config ads ms cvf m = (Inr df, st')"
  shows "map fst df = map fst initial_result_dict \<and> list_all (\<lambda>(k, vs). length vs = df_len df) df"
  using assms unfolding evaluate_model_config_def Let_def by (rule leave_out_columns)

lemma df_set_column_new:
  "name \<notin> set (map fst df) \<Longrightarrow> df_set_column name vals df = df @ [(name, vals)]"
  by (simp add: df_set_column_def)

lemma fold_df_set_column_new:
  "distinct (map fst kvs) \<Longrightarrow> set (map fst kvs) \<inter> set (map fst df) = {}
   \<Longrightarrow> fold (\<lambda>(k, v). df_set_column k (f v)) kvs df = df @ map (\<lambda>(k, v). (k, f v)) kvs"
proof (induction kvs arbitrary: df)
  case Nil
  then show ?case by simp
next
  case (Cons kv kvs)
  obtain k v where kv: "kv = (k, v)" by (cases kv) auto
  from Cons.prems kv have new: "k \<notin> set (map fst df)" by auto
  from Cons.prems kv have "distinct (map fst kvs)"
    and "set (map fst kvs) \<inter> set (map fst (df @ [(k, f v)])) = {}" by auto
  from Cons.IH [OF this] show ?case by (simp add: kv df_set_column_new [OF new])
qed

lemma config_items_keys:
  "map fst (config_items config)
   = [''embedding_size'', ''hidden_layer_size'', ''activation'', ''loss'', ''init'',
      ''n_pretrain_epochs'', ''n_epochs'', ''dropout_probability'', ''max_ic50'']"
  by (simp add: config_items_def)

lemma config_items_distinct: "distinct (map fst (config_items config))"
  unfolding config_items_keys by simp

lemma config_items_disjoint:
  "set (map fst (config_items config))
   \<inter> set (map fst initial_result_dict @ [''config_idx'']) = {}"
  unfolding config_items_keys initial_result_dict_def by simp

lemma add_config_columns_eq:
  assumes keys: "map fst df = map fst initial_result_dict"
  shows "add_config_columns i config df
         = df @ (''config_idx'', replicate (df_len df) (Cell_int (int i)))
              # map (\<lambda>(k, v). (k, replicate (df_len df) v)) (config_items config)"
proof -
  have new: "''config_idx'' \<notin> set (map fst df)"
    unfolding keys initial_result_dict_def by simp
  let ?df1 = "df @ [(''config_idx'', replicate (df_len df) (Cell_int (int i)))]"
  have "set (map fst (config_items config)) \<inter> set (map fst ?df1) = {}"
    using config_items_disjoint [of config] by (simp add: keys)
  from fold_df_set_column_new [OF config_items_distinct this, of "replicate (df_len df)"]
  show ?thesis
    by (simp add: add_config_columns_def Let_def df_set_column_new [OF new])
qed

text \<open>The example library on the example data, first configuration: a table of two rows.\<close>

lemma example_evaluate:
  "fst (evaluate_model_config example_sklearn example_mhcflurry example_config example_datasets 2 2 5000)
   = Inr [(''allele_name'', [Cell_str ''A0201'', Cell_str ''B0702'']),
          (''dataset_size'', [Cell_int 4, Cell_int 4]),
          (''auc_mean'', [Cell_real 1, Cell_real 1]),
          (''auc_median'', [Cell_real (np_median [1, 1]), Cell_real (np_median [1, 1])]),
          (''auc_std'', [Cell_real (np_std [1, 1]), Cell_real (np_std [1, 1])]),
          (''auc_min'', [Cell_real 1, Cell_real 1]),
          (''auc_max'', [Cell_real 1, Cell_real 1]),
          (''accuracy_mean'', [Cell_real (1 / 2), Cell_real (1 / 2)]),
          (''accuracy_median'', [Cell_real (np_median [1 / 2, 1 / 2]), Cell_real (np_median [1 / 2, 1 / 2])]),
          (''accuracy_std'', [Cell_real (np_std [1 / 2, 1 / 2]), Cell_real (np_std [1 / 2, 1 / 2])]),
          (''accuracy_min'', [Cell_real (1 / 2), Cell_real (1 / 2)]),
          (''accuracy_max'', [Cell_real (1 / 2), Cell_real (1 / 2)])]"
  by (simp add: evaluate_model_config_def leave_out_allele_cross_validation_def example_config_def
      example_datasets_def model_get_weights_def Let_def loao_allele_def isdigit_def
      model_set_weights_def print_def example_mhcflurry_def
      kfold_cross_validation_for_single_allele_def kfold_epochs_def
      example_sklearn_def kfold_fold_def np_take_def model_fit_def model_predict_def
      append_allele_row_def initial_result_dict_def summary_entries_def pd_DataFrame_def
      df_len_def np_mean_def ic50_to_target_def)

lemma df_row_replicated:
  "r < n \<Longrightarrow> df_row (map (\<lambda>(k, v). (k, replicate n v)) kvs) r = map snd kvs"
  by (induction kvs) (auto simp add: df_row_def)

lemma to_csv_add_config_columns:
  assumes keys: "map fst df = map fst initial_result_dict"
  shows "to_csv (add_config_columns i config df)
         = Csv_header (map fst initial_result_dict @ ''config_idx'' # map fst (config_items config))
           # map (\<lambda>r. Csv_row (df_row df r @ Cell_int (int i) # map snd (config_items config)))
               [0..<df_len df]"
proof -
  let ?n = "df_len df"
  let ?extra = "(''config_idx'', replicate ?n (Cell_int (int i)))
                # map (\<lambda>(k, v). (k, replicate ?n v)) (config_items config)"
  from keys have ne: "df \<noteq> []" by (auto simp add: initial_result_dict_def)
  then have len: "df_len (df @ ?extra) = ?n" by (cases df) (simp_all add: df_len_def)
  have row: "df_row (df @ ?extra) r = df_row df r @ Cell_int (int i) # map snd (config_items config)"
    if "r < ?n" for r
    using that df_row_replicated [of r ?n "config_items config"] by (simp add: df_row_def)
  have hdr: "map fst (df @ ?extra)
             = map fst initial_result_dict @ ''config_idx'' # map fst (config_items config)"
    by (simp add: keys comp_def case_prod_beta)
  show ?thesis
    unfolding add_config_columns_eq [OF keys] to_csv_def len hdr
    by (simp add: row)
qed

text \<open>What one pass of the loop over the alleles adds to the columns.\<close>

lemma loao_allele_emits:
  assumes run: "loao_allele SK L ads config be npe ms cvf m w0 (a0, d) tbl st = (Inr tbl', st')"
    and keys: "map fst tbl = map fst initial_result_dict"
  shows "tbl' = tbl
         \<or> (\<exists>aucs accuracies. evaluated_allele SK L config be ms cvf m ((a0, d), aucs, accuracies)
               \<and> (\<forall>k. column k tbl' = column k tbl @ emitted_cells L k ((a0, d), aucs, accuracies)))"
proof (cases "isdigit a0 \<or> length a0 < 5 \<or> int (length (ds_X d)) < ms")
  case True
  with run show ?thesis by (auto simp add: loao_allele_def Let_def split: if_splits)
next
  case False
  let ?a = "normalize_allele_name L a0"
  let ?X = "if be then indices_to_hotshot_encoding L (ds_X d) else ds_X d"
  let ?st1 = "model_set_weights w0 st"
  obtain r2 st2 where pre: "(if npe > 0 then pretrain L ads ?a be npe m ?st1 else (Inr (), ?st1)) = (r2, st2)"
    by (cases "if npe > 0 then pretrain L ads ?a be npe m ?st1 else (Inr (), ?st1)") auto
  let ?st3 = "print (Cross_validation_for ?a (length (ic50_to_target m (ds_ic50 d)))) st2"
  obtain r4 st4 where cv: "kfold_cross_validation_for_single_allele SK L ?a ?X
        (ic50_to_target m (ds_ic50 d)) (ds_ic50 d) (n_epochs config) cvf m ?st3 = (r4, st4)"
    by (cases "kfold_cross_validation_for_single_allele SK L ?a ?X
        (ic50_to_target m (ds_ic50 d)) (ds_ic50 d) (n_epochs config) cvf m ?st3") auto
  from run False pre cv obtain aucs accuracies where r4: "r4 = Inr (aucs, accuracies)"
    by (cases r4; cases r2) (auto simp add: loao_allele_def Let_def split: if_splits)
  show ?thesis
  proof (cases "aucs = []")
    case True
    with run False pre cv r4 have "tbl' = tbl"
      by (cases r2) (auto simp add: loao_allele_def Let_def split: if_splits)
    then show ?thesis by simp
  next
    case ne: False
    from cv r4 have cv': "kfold_cross_validation_for_single_allele SK L ?a ?X
        (ic50_to_target m (ds_ic50 d)) (ds_ic50 d) (n_epochs config) cvf m ?st3
        = (Inr (aucs, accuracies), st4)" by simp
    from kfold_lengths [OF cv'] ne have ne2: "accuracies \<noteq> []" by auto
    from run False pre cv r4 ne
    have app: "append_allele_row ?a (ds_ic50 d) aucs accuracies tbl = Inr tbl'"
      by (cases r2) (auto simp add: loao_allele_def Let_def split: if_splits)
    from append_allele_row_columns [OF ne ne2 keys, of ?a "ds_ic50 d"] app
    have cols: "\<forall>k. column k tbl' = column k tbl @ emitted_cells L k ((a0, d), aucs, accuracies)"
      by (simp add: emitted_cells_def)
    from cv' have "\<exists>st3 st4. kfold_cross_validation_for_single_allele SK L ?a ?X
        (ic50_to_target m (ds_ic50 d)) (ds_ic50 d) (n_epochs config) cvf m st3
        = (Inr (aucs, accuracies), st4)" by blast
    with False ne have "evaluated_allele SK L config be ms cvf m ((a0, d), aucs, accuracies)"
      by (simp add: evaluated_allele_def)
    with cols show ?thesis by blast
  qed
qed

lemma for_each_loao_emits:
  "for_each (loao_allele SK L ads config be npe ms cvf m w0) xs tbl st = (Inr tbl', st')
   \<Longrightarrow> map fst tbl = map fst initial_result_dict
   \<Longrightarrow> \<exists>es. subseq (map fst es) xs \<and> list_all (evaluated_allele SK L config be ms cvf m) es
           \<and> (\<forall>k. column k tbl' = column k tbl @ concat (map (emitted_cells L k) es))"
proof (induction xs arbitrary: tbl st)
  case Nil
  then show ?case by (auto intro: exI [of _ "[]"])
next
  case (Cons x xs)
  let ?body = "loao_allele SK L ads config be npe ms cvf m w0"
  obtain a0 d where x: "x = (a0, d)" by (cases x) auto
  obtain r1 st1 where step: "?body x tbl st = (r1, st1)" by (cases "?body x tbl st") auto
  with Cons.prems(1) obtain tbl1 where r1: "r1 = Inr tbl1" by (cases r1) auto
  from step r1 x have step': "?body (a0, d) tbl st = (Inr tbl1, st1)" by simp
  from loao_allele_keys [OF step'] Cons.prems(2)
  have keys1: "map fst tbl1 = map fst initial_result_dict" by simp
  from Cons.prems(1) step r1 have "for_each ?body xs tbl1 st1 = (Inr tbl', st')" by simp
  from Cons.IH [OF this keys1] obtain es where
    es: "subseq (map fst es) xs" "list_all (evaluated_allele SK L config be ms cvf m) es"
      "\<forall>k. column k tbl' = column k tbl1 @ concat (map (emitted_cells L k) es)" by blast
  from loao_allele_emits [OF step' Cons.prems(2)]
  show ?case
  proof
    assume "tbl1 = tbl"
    with es have "subseq (map fst es) (x # xs) \<and> list_all (evaluated_allele SK L config be ms cvf m) es
           \<and> (\<forall>k. column k tbl' = column k tbl @ concat (map (emitted_cells L k) es))"
      by auto
    then show ?thesis by blast
  next
    assume "\<exists>aucs accuracies. evaluated_allele SK L config be ms cvf m ((a0, d), aucs, accuracies)
               \<and> (\<forall>k. column k tbl1 = column k tbl @ emitted_cells L k ((a0, d), aucs, accuracies))"
    then obtain aucs accuracies where
      e: "evaluated_allele SK L config be ms cvf m ((a0, d), aucs, accuracies)"
        "\<forall>k. column k tbl1 = column k tbl @ emitted_cells L k ((a0, d), aucs, accuracies)" by blast
    let ?es = "((a0, d), aucs, accuracies) # es"
    from es e x have "subseq (map fst ?es) (x # xs) \<and> list_all (evaluated_allele SK L config be ms cvf m) ?es
           \<and> (\<forall>k. column k tbl' = column k tbl @ concat (map (emitted_cells L k) ?es))"
      by auto
    then show ?thesis by blast
  qed
qed

text \<open>The rows of the returned table are the rows of the alleles that contributed.\<close>

lemma column_initial: "column k initial_result_dict = []"
  by (simp add: column_def initial_result_dict_def)

lemma leave_out_emits:
  assumes "leave_out_allele_cross_validation SK L ads config be npe ms cvf m st = (Inr df, st')"
  shows "\<exists>es. subseq (map fst es) (sort_key fst ads)
           \<and> list_all (evaluated_allele SK L config be ms cvf m) es
           \<and> (\<forall>k. column k df = concat (map (emitted_cells L k) es))"
proof -
  from assms obtain d' st2 where
    run: "for_each (loao_allele SK L ads config be npe ms cvf m (weights st)) (sort_key fst ads)
            initial_result_dict st2 = (Inr d', st')"
    and df: "pd_DataFrame d' = Inr df"
    by (auto simp add: leave_out_allele_cross_validation_def model_get_weights_def Let_def
          split: prod.splits sum.splits)
  from df have "df = d'" by (auto simp add: pd_DataFrame_def split: if_splits)
  with for_each_loao_emits [OF run refl] show ?thesis by (simp add: column_initial)
qed

lemma filter_distinct_key:
  "distinct (map fst kvs) \<Longrightarrow> i < length kvs
   \<Longrightarrow> filter (\<lambda>p. fst p = fst (kvs ! i)) kvs = [kvs ! i]"
proof (induction kvs arbitrary: i)
  case Nil
  then show ?case by simp
next
  case (Cons kv kvs)
  show ?case
  proof (cases i)
    case 0
    from Cons.prems(1) have "fst kv \<notin> fst ` set kvs" by simp
    then have "\<forall>x\<in>set kvs. fst x \<noteq> fst kv" by (metis imageI)
    then have "filter (\<lambda>p. fst p = fst kv) kvs = []"
      by (simp add: filter_empty_conv)
    with 0 show ?thesis by simp
  next
    case (Suc j)
    with Cons.prems have j: "j < length kvs" and d: "distinct (map fst kvs)" by auto
    from j have "kvs ! j \<in> set kvs" by simp
    with Cons.prems(1) have "fst kv \<noteq> fst (kvs ! j)" by auto
    with Cons.IH [OF d j] Suc show ?thesis by simp
  qed
qed

lemma allele_row_entries_keys:
  "map fst (allele_row_entries a ic aucs accuracies) = map fst initial_result_dict"
  by (simp add: allele_row_entries_def initial_result_dict_def)

lemma initial_result_dict_distinct: "distinct (map fst initial_result_dict)"
  by (simp add: initial_result_dict_def)

lemma initial_result_dict_length: "length initial_result_dict = 12"
  by (simp add: initial_result_dict_def)

lemma emitted_cells_key:
  assumes "i < 12"
  shows "emitted_cells L (map fst initial_result_dict ! i) e = [emitted_row L e ! i]"
proof -
  obtain a0 d aucs accuracies where e: "e = ((a0, d), aucs, accuracies)" by (cases e) auto
  let ?kvs = "allele_row_entries (normalize_allele_name L a0) (ds_ic50 d) aucs accuracies"
  have len: "length ?kvs = 12" by (simp add: allele_row_entries_def)
  have dist: "distinct (map fst ?kvs)"
    unfolding allele_row_entries_keys by (rule initial_result_dict_distinct)
  from assms len have i: "i < length ?kvs" by simp
  have "map fst initial_result_dict ! i = map fst ?kvs ! i"
    by (simp only: allele_row_entries_keys)
  also from i have "\<dots> = fst (?kvs ! i)" by simp
  finally have key: "map fst initial_result_dict ! i = fst (?kvs ! i)" .
  from filter_distinct_key [OF dist i] i show ?thesis
    unfolding e key by (simp add: emitted_cells_def emitted_row_def case_prod_unfold)
qed

lemma concat_singletons:
  "(\<And>e. f e = [g e]) \<Longrightarrow> concat (map f es) = map g es"
  by (induction es) simp_all

lemma df_row_columns:
  assumes "distinct (map fst df)"
  shows "df_row df r = map (\<lambda>i. column (map fst df ! i) df ! r) [0..<length df]"
proof (rule nth_equalityI)
  show "length (df_row df r) = length (map (\<lambda>i. column (map fst df ! i) df ! r) [0..<length df])"
    by (simp add: df_row_def)
next
  fix i
  assume "i < length (df_row df r)"
  then have i: "i < length df" by (simp add: df_row_def)
  obtain k vs where kv: "df ! i = (k, vs)" by (cases "df ! i") auto
  from i kv have "(k, vs) \<in> set df" by (metis nth_mem)
  with assms have "map_of df k = Some vs" by simp
  with i kv show "df_row df r ! i = map (\<lambda>i. column (map fst df ! i) df ! r) [0..<length df] ! i"
    by (simp add: df_row_def column_def)
qed

lemma emitted_table_rows:
  assumes keys: "map fst df = map fst initial_result_dict"
    and cols: "\<forall>k. column k df = concat (map (emitted_cells L k) es)"
  shows "df_len df = length es"
    and "r < length es \<Longrightarrow> df_row df r = emitted_row L (es ! r)"
proof -
  have col: "column (map fst df ! i) df = map (\<lambda>e. emitted_row L e ! i) es" if "i < 12" for i
    using cols concat_singletons [of "emitted_cells L (map fst initial_result_dict ! i)"
        "\<lambda>e. emitted_row L e ! i" es, OF emitted_cells_key [OF that]]
    by (simp add: keys)
  from keys have len: "length df = 12"
    using initial_result_dict_length by (metis length_map)
  then obtain k vs rest where df: "df = (k, vs) # rest" by (cases df) auto
  then have "df_len df = length (column (map fst df ! 0) df)"
    by (simp add: df_len_def column_def)
  with col [of 0] show "df_len df = length es" by simp
  assume r: "r < length es"
  have row_len: "length (emitted_row L e) = 12" for e
    by (cases e) (auto simp add: emitted_row_def allele_row_entries_def)
  from keys have "distinct (map fst df)" by (simp add: initial_result_dict_distinct)
  from df_row_columns [OF this]
  have "df_row df r = map (\<lambda>i. column (map fst df ! i) df ! r) [0..<12]" by (simp add: len)
  also have "\<dots> = map (\<lambda>i. emitted_row L (es ! r) ! i) [0..<12]"
    using r by (simp add: col)
  also have "\<dots> = emitted_row L (es ! r)"
    using map_nth [of "emitted_row L (es ! r)"] by (simp only: row_len)
  finally show "df_row df r = emitted_row L (es ! r)" .
qed

lemma map_upt_nth: "map (\<lambda>r. f (es ! r)) [0..<length es] = map f es"
  by (rule nth_equalityI) simp_all

text \<open>
  C5: when the evaluation of configuration \<open>i\<close> returns a table, that table has the
  twelve columns of \<^verbatim>\<open>leave_out_allele_cross_validation\<close>, and what the loop writes to
  the results file for it is a header of those twelve names, \<^verbatim>\<open>config_idx\<close> and the nine
  field names of \<^verbatim>\<open>ModelConfig\<close>, followed by one line per allele that contributed a
  row, in the sorted order of the alleles. The line of an allele holds exactly: its
  normalized name, the number of its samples, mean, median, standard deviation, minimum
  and maximum of the per-fold AUCs that its cross-validation returned, the same five of
  the per-fold accuracies, the configuration index, and the value of each of the nine
  fields of the configuration.
\<close>

theorem results_rows_content:
  assumes "evaluate_model_config SK L config allele_datasets (args_min_samples_per_allele a)
             (args_cv_folds a) (max_ic50 config) = (Inr result_df, st)"
  shows "map fst result_df
           = [''allele_name'', ''dataset_size'',
              ''auc_mean'', ''auc_median'', ''auc_std'', ''auc_min'', ''auc_max'',
              ''accuracy_mean'', ''accuracy_median'', ''accuracy_std'', ''accuracy_min'',
              ''accuracy_max'']
         \<and> (\<exists>emitted.
               subseq (map fst emitted) (sort_key fst allele_datasets)
             \<and> list_all (evaluated_allele SK L config (embedding_size config = 0)
                           (args_min_samples_per_allele a) (args_cv_folds a) (max_ic50 config))
                   emitted
             \<and> main_loop SK L a allele_datasets ((i, config) # rest) fs
               = main_loop SK L a allele_datasets rest
                   (write_file (args_results_filename a) (file_mode i)
                      (Csv_header
                         [''allele_name'', ''dataset_size'',
                      ''auc_mean'', ''auc_median'', ''auc_std'', ''auc_min'', ''auc_max'',
                      ''accuracy_mean'', ''accuracy_median'', ''accuracy_std'', ''accuracy_min'',
                      ''accuracy_max'', ''config_idx'',
                      ''embedding_size'', ''hidden_layer_size'', ''activation'', ''loss'', ''init'',
                      ''n_pretrain_epochs'', ''n_epochs'', ''dropout_probability'', ''max_ic50'']
                       # map (\<lambda>((allele, dataset), aucs, accuracies). Csv_row
                            [Cell_str (normalize_allele_name L allele),
                             Cell_int (int (length (ds_ic50 dataset))),
                             Cell_real (np_mean aucs), Cell_real (np_median aucs),
                             Cell_real (np_std aucs), Cell_real (Min (set aucs)),
                             Cell_real (Max (set aucs)),
                             Cell_real (np_mean accuracies), Cell_real (np_median accuracies),
                             Cell_real (np_std accuracies), Cell_real (Min (set accuracies)),
                             Cell_real (Max (set accuracies)),
                             Cell_int (int i),
                             Cell_int (embedding_size config), Cell_int (hidden_layer_size config),
                             Cell_str (activation config), Cell_str (loss config),
                             Cell_str (init config), Cell_int (n_pretrain_epochs config),
                             Cell_int (n_epochs config), Cell_real (dropout_probability config),
                             Cell_int (max_ic50 config)])
                           emitted)
                      fs))"
proof -
  from evaluate_model_config_columns [OF assms]
  have keys: "map fst result_df = map fst initial_result_dict" by simp
  from assms have "leave_out_allele_cross_validation SK L allele_datasets config
      (embedding_size config = 0) (n_pretrain_epochs config) (args_min_samples_per_allele a)
      (args_cv_folds a) (max_ic50 config)
      \<lparr>weights = (if embedding_size config \<noteq> 0
             then make_embedding_network L 9 20 (embedding_size config) [hidden_layer_size config]
                    (activation config) (init config) (loss config) (dropout_probability config)
             else make_hotshot_network L 9 [hidden_layer_size config]
                    (activation config) (init config) (loss config) (dropout_probability config)),
        calls = [Print Separator, Print (Config_line config)]\<rparr> = (Inr result_df, st)"
    by (simp add: evaluate_model_config_def Let_def)
  from leave_out_emits [OF this] obtain es where
    sub: "subseq (map fst es) (sort_key fst allele_datasets)"
    and ev: "list_all (evaluated_allele SK L config (embedding_size config = 0)
               (args_min_samples_per_allele a) (args_cv_folds a) (max_ic50 config)) es"
    and cols: "\<forall>k. column k result_df = concat (map (emitted_cells L k) es)"
    by blast
  let ?cfg = "Cell_int (int i) # map snd (config_items config)"
  have "map (\<lambda>r. Csv_row (df_row result_df r @ ?cfg)) [0..<df_len result_df]
        = map (\<lambda>r. Csv_row (emitted_row L (es ! r) @ ?cfg)) [0..<length es]"
    by (simp add: emitted_table_rows [OF keys cols])
  also have "\<dots> = map (\<lambda>e. Csv_row (emitted_row L e @ ?cfg)) es"
    by (rule map_upt_nth)
  also have "\<dots> = map (\<lambda>((allele, dataset), aucs, accuracies). Csv_row
                            [Cell_str (normalize_allele_name L allele),
                             Cell_int (int (length (ds_ic50 dataset))),
                             Cell_real (np_mean aucs), Cell_real (np_median aucs),
                             Cell_real (np_std aucs), Cell_real (Min (set aucs)),
                             Cell_real (Max (set aucs)),
                             Cell_real (np_mean accuracies), Cell_real (np_median accuracies),
                             Cell_real (np_std accuracies), Cell_real (Min (set accuracies)),
                             Cell_real (Max (set accuracies)),
                             Cell_int (int i),
                             Cell_int (embedding_size config), Cell_int (hidden_layer_size config),
                             Cell_str (activation config), Cell_str (loss config),
                             Cell_str (init config), Cell_int (n_pretrain_epochs config),
                             Cell_int (n_epochs config), Cell_real (dropout_probability config),
                             Cell_int (max_ic50 config)]) es"
    by (simp add: emitted_row_def allele_row_entries_def config_items_def case_prod_unfold)
  finally have rows: "map (\<lambda>r. Csv_row (df_row result_df r @ ?cfg)) [0..<df_len result_df]
        = map (\<lambda>((allele, dataset), aucs, accuracies). Csv_row
                            [Cell_str (normalize_allele_name L allele),
                             Cell_int (int (length (ds_ic50 dataset))),
                             Cell_real (np_mean aucs), Cell_real (np_median aucs),
                             Cell_real (np_std aucs), Cell_real (Min (set aucs)),
                             Cell_real (Max (set aucs)),
                             Cell_real (np_mean accuracies), Cell_real (np_median accuracies),
                             Cell_real (np_std accuracies), Cell_real (Min (set accuracies)),
                             Cell_real (Max (set accuracies)),
                             Cell_int (int i),
                             Cell_int (embedding_size config), Cell_int (hidden_layer_size config),
                             Cell_str (activation config), Cell_str (loss config),
                             Cell_str (init config), Cell_int (n_pretrain_epochs config),
                             Cell_int (n_epochs config), Cell_real (dropout_probability config),
                             Cell_int (max_ic50 config)]) es" .
  have "main_loop SK L a allele_datasets ((i, config) # rest) fs
               = main_loop SK L a allele_datasets rest
                   (write_file (args_results_filename a) (file_mode i)
                      (Csv_header
                         [''allele_name'', ''dataset_size'',
                      ''auc_mean'', ''auc_median'', ''auc_std'', ''auc_min'', ''auc_max'',
                      ''accuracy_mean'', ''accuracy_median'', ''accuracy_std'', ''accuracy_min'',
                      ''accuracy_max'', ''config_idx'',
                      ''embedding_size'', ''hidden_layer_size'', ''activation'', ''loss'', ''init'',
                      ''n_pretrain_epochs'', ''n_epochs'', ''dropout_probability'', ''max_ic50'']
                       # map (\<lambda>((allele, dataset), aucs, accuracies). Csv_row
                            [Cell_str (normalize_allele_name L allele),
                             Cell_int (int (length (ds_ic50 dataset))),
                             Cell_real (np_mean aucs), Cell_real (np_median aucs),
                             Cell_real (np_std aucs), Cell_real (Min (set aucs)),
                             Cell_real (Max (set aucs)),
                             Cell_real (np_mean accuracies), Cell_real (np_median accuracies),
                             Cell_real (np_std accuracies), Cell_real (Min (set accuracies)),
                             Cell_real (Max (set accuracies)),
                             Cell_int (int i),
                             Cell_int (embedding_size config), Cell_int (hidden_layer_size config),
                             Cell_str (activation config), Cell_str (loss config),
                             Cell_str (init config), Cell_int (n_pretrain_epochs config),
                             Cell_int (n_epochs config), Cell_real (dropout_probability config),
                             Cell_int (max_ic50 config)])
                           es)
                      fs)"
    using assms
    by (simp add: to_csv_add_config_columns [OF keys] rows)
       (simp add: initial_result_dict_def config_items_def)
  with sub ev have "\<exists>emitted.
               subseq (map fst emitted) (sort_key fst allele_datasets)
             \<and> list_all (evaluated_allele SK L config (embedding_size config = 0)
                           (args_min_samples_per_allele a) (args_cv_folds a) (max_ic50 config))
                   emitted
             \<and> main_loop SK L a allele_datasets ((i, config) # rest) fs
               = main_loop SK L a allele_datasets rest
                   (write_file (args_results_filename a) (file_mode i)
                      (Csv_header
                         [''allele_name'', ''dataset_size'',
                      ''auc_mean'', ''auc_median'', ''auc_std'', ''auc_min'', ''auc_max'',
                      ''accuracy_mean'', ''accuracy_median'', ''accuracy_std'', ''accuracy_min'',
                      ''accuracy_max'', ''config_idx'',
                      ''embedding_size'', ''hidden_layer_size'', ''activation'', ''loss'', ''init'',
                      ''n_pretrain_epochs'', ''n_epochs'', ''dropout_probability'', ''max_ic50'']
                       # map (\<lambda>((allele, dataset), aucs, accuracies). Csv_row
                            [Cell_str (normalize_allele_name L allele),
                             Cell_int (int (length (ds_ic50 dataset))),
                             Cell_real (np_mean aucs), Cell_real (np_median aucs),
                             Cell_real (np_std aucs), Cell_real (Min (set aucs)),
                             Cell_real (Max (set aucs)),
                             Cell_real (np_mean accuracies), Cell_real (np_median accuracies),
                             Cell_real (np_std accuracies), Cell_real (Min (set accuracies)),
                             Cell_real (Max (set accuracies)),
                             Cell_int (int i),
                             Cell_int (embedding_size config), Cell_int (hidden_layer_size config),
                             Cell_str (activation config), Cell_str (loss config),
                             Cell_str (init config), Cell_int (n_pretrain_epochs config),
                             Cell_int (n_epochs config), Cell_real (dropout_probability config),
                             Cell_int (max_ic50 config)])
                           emitted)
                      fs)"
    by blast
  with keys show ?thesis by (simp add: initial_result_dict_def)
qed

text \<open>
  The theorem on the example run: both alleles contribute, and the file after
  configuration 0 is the header, the line of A0201 and the line of B0702.
\<close>

theorem results_rows_content_witness:
  "(\<exists>emitted.
       map fst emitted = sort_key fst example_datasets
     \<and> list_all (evaluated_allele example_sklearn example_mhcflurry example_config True 2 2 5000)
           emitted
     \<and> snd (main_loop example_sklearn example_mhcflurry example_args example_datasets
              [(0, example_config)] Map.empty) ''results.csv''
       = Some (Csv_header
                 [''allele_name'', ''dataset_size'',
          ''auc_mean'', ''auc_median'', ''auc_std'', ''auc_min'', ''auc_max'',
          ''accuracy_mean'', ''accuracy_median'', ''accuracy_std'', ''accuracy_min'',
          ''accuracy_max'', ''config_idx'',
          ''embedding_size'', ''hidden_layer_size'', ''activation'', ''loss'', ''init'',
          ''n_pretrain_epochs'', ''n_epochs'', ''dropout_probability'', ''max_ic50'']
               # map (\<lambda>((allele, dataset), aucs, accuracies). Csv_row
                [Cell_str (normalize_allele_name example_mhcflurry allele),
                 Cell_int (int (length (ds_ic50 dataset))),
                 Cell_real (np_mean aucs), Cell_real (np_median aucs),
                 Cell_real (np_std aucs), Cell_real (Min (set aucs)),
                 Cell_real (Max (set aucs)),
                 Cell_real (np_mean accuracies), Cell_real (np_median accuracies),
                 Cell_real (np_std accuracies), Cell_real (Min (set accuracies)),
                 Cell_real (Max (set accuracies)),
                 Cell_int (int (0::nat)),
                 Cell_int (embedding_size example_config), Cell_int (hidden_layer_size example_config),
                 Cell_str (activation example_config), Cell_str (loss example_config),
                 Cell_str (init example_config), Cell_int (n_pretrain_epochs example_config),
                 Cell_int (n_epochs example_config), Cell_real (dropout_probability example_config),
                 Cell_int (max_ic50 example_config)])
                   emitted))
   \<and> snd (main_loop example_sklearn example_mhcflurry example_args example_datasets
          [(0, example_config)] Map.empty) ''results.csv''
     = Some
      [Csv_header
         [''allele_name'', ''dataset_size'',
          ''auc_mean'', ''auc_median'', ''auc_std'', ''auc_min'', ''auc_max'',
          ''accuracy_mean'', ''accuracy_median'', ''accuracy_std'', ''accuracy_min'',
          ''accuracy_max'', ''config_idx'',
          ''embedding_size'', ''hidden_layer_size'', ''activation'', ''loss'', ''init'',
          ''n_pretrain_epochs'', ''n_epochs'', ''dropout_probability'', ''max_ic50''],
       Csv_row
         [Cell_str ''A0201'', Cell_int 4,
          Cell_real 1, Cell_real (np_median [1, 1]), Cell_real (np_std [1, 1]), Cell_real 1, Cell_real 1,
          Cell_real (1 / 2), Cell_real (np_median [1 / 2, 1 / 2]), Cell_real (np_std [1 / 2, 1 / 2]),
          Cell_real (1 / 2), Cell_real (1 / 2),
          Cell_int 0,
          Cell_int 0, Cell_int 64, Cell_str ''relu'', Cell_str ''mse'', Cell_str ''glorot_uniform'',
          Cell_int 0, Cell_int 5, Cell_real 0, Cell_int 5000],
       Csv_row
         [Cell_str ''B0702'', Cell_int 4,
          Cell_real 1, Cell_real (np_median [1, 1]), Cell_real (np_std [1, 1]), Cell_real 1, Cell_real 1,
          Cell_real (1 / 2), Cell_real (np_median [1 / 2, 1 / 2]), Cell_real (np_std [1 / 2, 1 / 2]),
          Cell_real (1 / 2), Cell_real (1 / 2),
          Cell_int 0,
          Cell_int 0, Cell_int 64, Cell_str ''relu'', Cell_str ''mse'', Cell_str ''glorot_uniform'',
          Cell_int 0, Cell_int 5, Cell_real 0, Cell_int 5000]]"
proof -
  let ?ev = "evaluate_model_config example_sklearn example_mhcflurry example_config example_datasets
               (args_min_samples_per_allele example_args) (args_cv_folds example_args)
               (max_ic50 example_config)"
  let ?df = "[(''allele_name'', [Cell_str ''A0201'', Cell_str ''B0702'']),
          (''dataset_size'', [Cell_int 4, Cell_int 4]),
          (''auc_mean'', [Cell_real 1, Cell_real 1]),
          (''auc_median'', [Cell_real (np_median [1, 1]), Cell_real (np_median [1, 1])]),
          (''auc_std'', [Cell_real (np_std [1, 1]), Cell_real (np_std [1, 1])]),
          (''auc_min'', [Cell_real 1, Cell_real 1]),
          (''auc_max'', [Cell_real 1, Cell_real 1]),
          (''accuracy_mean'', [Cell_real (1 / 2), Cell_real (1 / 2)]),
          (''accuracy_median'', [Cell_real (np_median [1 / 2, 1 / 2]), Cell_real (np_median [1 / 2, 1 / 2])]),
          (''accuracy_std'', [Cell_real (np_std [1 / 2, 1 / 2]), Cell_real (np_std [1 / 2, 1 / 2])]),
          (''accuracy_min'', [Cell_real (1 / 2), Cell_real (1 / 2)]),
          (''accuracy_max'', [Cell_real (1 / 2), Cell_real (1 / 2)])]"
  let ?file = "snd (main_loop example_sklearn example_mhcflurry example_args example_datasets
          [(0, example_config)] Map.empty) ''results.csv''"
  have a: "args_min_samples_per_allele example_args = 2" "args_cv_folds example_args = 2"
    "max_ic50 example_config = 5000" "(embedding_size example_config = 0) = True"
    by (simp_all add: example_args_def example_config_def)
  have "?ev = (Inr ?df, snd ?ev)"
    unfolding a by (simp add: example_evaluate prod_eq_iff)
  then obtain st where ev: "?ev = (Inr ?df, st)" by blast
  have keys: "map fst ?df = map fst initial_result_dict"
    by (simp add: initial_result_dict_def)
  have "main_loop example_sklearn example_mhcflurry example_args example_datasets
          [(0, example_config)] Map.empty
        = (None, write_file (args_results_filename example_args) (file_mode 0)
                   (to_csv (add_config_columns 0 example_config ?df)) Map.empty)"
    using ev by simp
  then have explicit: "?file = Some
      [Csv_header
         [''allele_name'', ''dataset_size'',
          ''auc_mean'', ''auc_median'', ''auc_std'', ''auc_min'', ''auc_max'',
          ''accuracy_mean'', ''accuracy_median'', ''accuracy_std'', ''accuracy_min'',
          ''accuracy_max'', ''config_idx'',
          ''embedding_size'', ''hidden_layer_size'', ''activation'', ''loss'', ''init'',
          ''n_pretrain_epochs'', ''n_epochs'', ''dropout_probability'', ''max_ic50''],
       Csv_row
         [Cell_str ''A0201'', Cell_int 4,
          Cell_real 1, Cell_real (np_median [1, 1]), Cell_real (np_std [1, 1]), Cell_real 1, Cell_real 1,
          Cell_real (1 / 2), Cell_real (np_median [1 / 2, 1 / 2]), Cell_real (np_std [1 / 2, 1 / 2]),
          Cell_real (1 / 2), Cell_real (1 / 2),
          Cell_int 0,
          Cell_int 0, Cell_int 64, Cell_str ''relu'', Cell_str ''mse'', Cell_str ''glorot_uniform'',
          Cell_int 0, Cell_int 5, Cell_real 0, Cell_int 5000],
       Csv_row
         [Cell_str ''B0702'', Cell_int 4,
          Cell_real 1, Cell_real (np_median [1, 1]), Cell_real (np_std [1, 1]), Cell_real 1, Cell_real 1,
          Cell_real (1 / 2), Cell_real (np_median [1 / 2, 1 / 2]), Cell_real (np_std [1 / 2, 1 / 2]),
          Cell_real (1 / 2), Cell_real (1 / 2),
          Cell_int 0,
          Cell_int 0, Cell_int 64, Cell_str ''relu'', Cell_str ''mse'', Cell_str ''glorot_uniform'',
          Cell_int 0, Cell_int 5, Cell_real 0, Cell_int 5000]]"
    unfolding to_csv_add_config_columns [OF keys]
    by (simp add: write_file_def file_mode_def df_row_def df_len_def example_args_def
          example_config_def upt_rec initial_result_dict_def config_items_def)
  from results_rows_content [OF ev, of 0 "[]" Map.empty] obtain emitted where
    sub: "subseq (map fst emitted) (sort_key fst example_datasets)"
    and evl: "list_all (evaluated_allele example_sklearn example_mhcflurry example_config True 2 2 5000)
                emitted"
    and ml: "?file = Some (Csv_header
                 [''allele_name'', ''dataset_size'',
          ''auc_mean'', ''auc_median'', ''auc_std'', ''auc_min'', ''auc_max'',
          ''accuracy_mean'', ''accuracy_median'', ''accuracy_std'', ''accuracy_min'',
          ''accuracy_max'', ''config_idx'',
          ''embedding_size'', ''hidden_layer_size'', ''activation'', ''loss'', ''init'',
          ''n_pretrain_epochs'', ''n_epochs'', ''dropout_probability'', ''max_ic50'']
               # map (\<lambda>((allele, dataset), aucs, accuracies). Csv_row
                [Cell_str (normalize_allele_name example_mhcflurry allele),
                 Cell_int (int (length (ds_ic50 dataset))),
                 Cell_real (np_mean aucs), Cell_real (np_median aucs),
                 Cell_real (np_std aucs), Cell_real (Min (set aucs)),
                 Cell_real (Max (set aucs)),
                 Cell_real (np_mean accuracies), Cell_real (np_median accuracies),
                 Cell_real (np_std accuracies), Cell_real (Min (set accuracies)),
                 Cell_real (Max (set accuracies)),
                 Cell_int (int (0::nat)),
                 Cell_int (embedding_size example_config), Cell_int (hidden_layer_size example_config),
                 Cell_str (activation example_config), Cell_str (loss example_config),
                 Cell_str (init example_config), Cell_int (n_pretrain_epochs example_config),
                 Cell_int (n_epochs example_config), Cell_real (dropout_probability example_config),
                 Cell_int (max_ic50 example_config)])
                   emitted)"
    unfolding a by (auto simp add: write_file_def file_mode_def example_args_def)
  from ml [symmetric] explicit
  have "Some (Csv_header [''allele_name'', ''dataset_size'',
          ''auc_mean'', ''auc_median'', ''auc_std'', ''auc_min'', ''auc_max'',
          ''accuracy_mean'', ''accuracy_median'', ''accuracy_std'', ''accuracy_min'',
          ''accuracy_max'', ''config_idx'',
          ''embedding_size'', ''hidden_layer_size'', ''activation'', ''loss'', ''init'',
          ''n_pretrain_epochs'', ''n_epochs'', ''dropout_probability'', ''max_ic50''] # map (\<lambda>((allele, dataset), aucs, accuracies). Csv_row
                [Cell_str (normalize_allele_name example_mhcflurry allele),
                 Cell_int (int (length (ds_ic50 dataset))),
                 Cell_real (np_mean aucs), Cell_real (np_median aucs),
                 Cell_real (np_std aucs), Cell_real (Min (set aucs)),
                 Cell_real (Max (set aucs)),
                 Cell_real (np_mean accuracies), Cell_real (np_median accuracies),
                 Cell_real (np_std accuracies), Cell_real (Min (set accuracies)),
                 Cell_real (Max (set accuracies)),
                 Cell_int (int (0::nat)),
                 Cell_int (embedding_size example_config), Cell_int (hidden_layer_size example_config),
                 Cell_str (activation example_config), Cell_str (loss example_config),
                 Cell_str (init example_config), Cell_int (n_pretrain_epochs example_config),
                 Cell_int (n_epochs example_config), Cell_real (dropout_probability example_config),
                 Cell_int (max_ic50 example_config)]) emitted) = Some [Csv_header
         [''allele_name'', ''dataset_size'',
          ''auc_mean'', ''auc_median'', ''auc_std'', ''auc_min'', ''auc_max'',
          ''accuracy_mean'', ''accuracy_median'', ''accuracy_std'', ''accuracy_min'',
          ''accuracy_max'', ''config_idx'',
          ''embedding_size'', ''hidden_layer_size'', ''activation'', ''loss'', ''init'',
          ''n_pretrain_epochs'', ''n_epochs'', ''dropout_probability'', ''max_ic50''],
       Csv_row
         [Cell_str ''A0201'', Cell_int 4,
          Cell_real 1, Cell_real (np_median [1, 1]), Cell_real (np_std [1, 1]), Cell_real 1, Cell_real 1,
          Cell_real (1 / 2), Cell_real (np_median [1 / 2, 1 / 2]), Cell_real (np_std [1 / 2, 1 / 2]),
          Cell_real (1 / 2), Cell_real (1 / 2),
          Cell_int 0,
          Cell_int 0, Cell_int 64, Cell_str ''relu'', Cell_str ''mse'', Cell_str ''glorot_uniform'',
          Cell_int 0, Cell_int 5, Cell_real 0, Cell_int 5000],
       Csv_row
         [Cell_str ''B0702'', Cell_int 4,
          Cell_real 1, Cell_real (np_median [1, 1]), Cell_real (np_std [1, 1]), Cell_real 1, Cell_real 1,
          Cell_real (1 / 2), Cell_real (np_median [1 / 2, 1 / 2]), Cell_real (np_std [1 / 2, 1 / 2]),
          Cell_real (1 / 2), Cell_real (1 / 2),
          Cell_int 0,
          Cell_int 0, Cell_int 64, Cell_str ''relu'', Cell_str ''mse'', Cell_str ''glorot_uniform'',
          Cell_int 0, Cell_int 5, Cell_real 0, Cell_int 5000]]"
    by (rule trans)
  then have "length (Csv_header [''allele_name'', ''dataset_size'',
          ''auc_mean'', ''auc_median'', ''auc_std'', ''auc_min'', ''auc_max'',
          ''accuracy_mean'', ''accuracy_median'', ''accuracy_std'', ''accuracy_min'',
          ''accuracy_max'', ''config_idx'',
          ''embedding_size'', ''hidden_layer_size'', ''activation'', ''loss'', ''init'',
          ''n_pretrain_epochs'', ''n_epochs'', ''dropout_probability'', ''max_ic50''] # map (\<lambda>((allele, dataset), aucs, accuracies). Csv_row
                [Cell_str (normalize_allele_name example_mhcflurry allele),
                 Cell_int (int (length (ds_ic50 dataset))),
                 Cell_real (np_mean aucs), Cell_real (np_median aucs),
                 Cell_real (np_std aucs), Cell_real (Min (set aucs)),
                 Cell_real (Max (set aucs)),
                 Cell_real (np_mean accuracies), Cell_real (np_median accuracies),
                 Cell_real (np_std accuracies), Cell_real (Min (set accuracies)),
                 Cell_real (Max (set accuracies)),
                 Cell_int (int (0::nat)),
                 Cell_int (embedding_size example_config), Cell_int (hidden_layer_size example_config),
                 Cell_str (activation example_config), Cell_str (loss example_config),
                 Cell_str (init example_config), Cell_int (n_pretrain_epochs example_config),
                 Cell_int (n_epochs example_config), Cell_real (dropout_probability example_config),
                 Cell_int (max_ic50 example_config)]) emitted) = length [Csv_header
         [''allele_name'', ''dataset_size'',
          ''auc_mean'', ''auc_median'', ''auc_std'', ''auc_min'', ''auc_max'',
          ''accuracy_mean'', ''accuracy_median'', ''accuracy_std'', ''accuracy_min'',
          ''accuracy_max'', ''config_idx'',
          ''embedding_size'', ''hidden_layer_size'', ''activation'', ''loss'', ''init'',
          ''n_pretrain_epochs'', ''n_epochs'', ''dropout_probability'', ''max_ic50''],
       Csv_row
         [Cell_str ''A0201'', Cell_int 4,
          Cell_real 1, Cell_real (np_median [1, 1]), Cell_real (np_std [1, 1]), Cell_real 1, Cell_real 1,
          Cell_real (1 / 2), Cell_real (np_median [1 / 2, 1 / 2]), Cell_real (np_std [1 / 2, 1 / 2]),
          Cell_real (1 / 2), Cell_real (1 / 2),
          Cell_int 0,
          Cell_int 0, Cell_int 64, Cell_str ''relu'', Cell_str ''mse'', Cell_str ''glorot_uniform'',
          Cell_int 0, Cell_int 5, Cell_real 0, Cell_int 5000],
       Csv_row
         [Cell_str ''B0702'', Cell_int 4,
          Cell_real 1, Cell_real (np_median [1, 1]), Cell_real (np_std [1, 1]), Cell_real 1, Cell_real 1,
          Cell_real (1 / 2), Cell_real (np_median [1 / 2, 1 / 2]), Cell_real (np_std [1 / 2, 1 / 2]),
          Cell_real (1 / 2), Cell_real (1 / 2),
          Cell_int 0,
          Cell_int 0, Cell_int 64, Cell_str ''relu'', Cell_str ''mse'', Cell_str ''glorot_uniform'',
          Cell_int 0, Cell_int 5, Cell_real 0, Cell_int 5000]]"
    by (simp only: option.inject)
  then have "length emitted = 2" by simp
  then have "length (map fst emitted) = length (sort_key fst example_datasets)"
    by (simp add: example_datasets_def)
  with sub have "map fst emitted = sort_key fst example_datasets"
    by (rule subseq_same_length)
  with evl ml explicit show ?thesis by blast
qed

subsection \<open>The table of the dataset-size-sensitivity script\<close>

lemma for_each_growth:
  assumes body: "\<And>x acc st acc' st'. body x acc st = (Inr acc', st') \<Longrightarrow> col acc' = col acc @ g x"
    and run: "for_each body xs acc st = (Inr acc', st')"
  shows "col acc' = col acc @ concat (map g xs)"
  using run
proof (induction xs arbitrary: acc st)
  case Nil
  then show ?case by simp
next
  case (Cons x xs)
  obtain r1 st1 where step: "body x acc st = (r1, st1)" by (cases "body x acc st") auto
  with Cons.prems obtain acc1 where r1: "r1 = Inr acc1" by (cases r1) auto
  from step r1 have g: "col acc1 = col acc @ g x" by (auto dest: body)
  from Cons.prems step r1 have "for_each body xs acc1 st1 = (Inr acc', st')" by simp
  from Cons.IH [OF this] g show ?case by simp
qed

lemma split_datasets_imputed:
  "split_datasets L ds dsa al imp n st = (Inr (tr, imputed, te), st') \<Longrightarrow> (imputed = None) = (imp = None)"
  by (auto simp add: split_datasets_def split: option.splits prod.splits sum.splits)

lemma result_row_columns:
  assumes "dict_append_all (result_row n_train i auc f1 b) d = Inr d'"
  shows "column ''idx'' d' = column ''idx'' d @ [Cell_int (int i)]"
    and "column ''impute'' d' = column ''impute'' d @ [Cell_bool b]"
    and "column ''num_samples'' d' = column ''num_samples'' d @ [Cell_int n_train]"
    and "map fst d' = map fst d"
  using dict_append_all_column [OF assms, of "''idx''"]
    dict_append_all_column [OF assms, of "''impute''"]
    dict_append_all_column [OF assms, of "''num_samples''"]
    dict_append_all_keys [OF assms]
  by (simp_all add: result_row_def)

lemma subsample_once_columns:
  assumes "subsample_once SK L model_fn ds dsa al imp ne nneg cens i n_train results st = (Inr results', st')"
  shows "column ''idx'' results' = column ''idx'' results @ replicate (rows_per_repeat imp) (Cell_int (int i))"
    and "column ''impute'' results' = column ''impute'' results @ impute_flags imp"
    and "column ''num_samples'' results'
         = column ''num_samples'' results @ replicate (rows_per_repeat imp) (Cell_int n_train)"
    and "map fst results' = map fst results"
proof -
  obtain r1 st1 where sp: "split_datasets L ds dsa al imp n_train st = (r1, st1)"
    by (cases "split_datasets L ds dsa al imp n_train st") auto
  with assms obtain tr imputed te where r1: "r1 = Inr (tr, imputed, te)"
    by (cases r1) (auto simp add: subsample_once_def)
  from sp r1 have "split_datasets L ds dsa al imp n_train st = (Inr (tr, imputed, te), st1)" by simp
  then have imp: "(imputed = None) = (imp = None)" by (rule split_datasets_imputed)
  from assms sp r1 obtain auc f1 results1 where
    first: "dict_append_all (result_row n_train i auc f1 False) results = Inr results1"
    and second: "(imputed = None \<and> results' = results1)
        \<or> (imputed \<noteq> None \<and> (\<exists>auc' f1'. dict_append_all (result_row n_train i auc' f1' True) results1 = Inr results'))"
    by (auto simp add: subsample_once_def Let_def
          split: sum.splits prod.splits option.splits) blast
  note c1 = result_row_columns [OF first]
  have "column ''idx'' results' = column ''idx'' results @ replicate (rows_per_repeat imp) (Cell_int (int i))
      \<and> column ''impute'' results' = column ''impute'' results @ impute_flags imp
      \<and> column ''num_samples'' results'
         = column ''num_samples'' results @ replicate (rows_per_repeat imp) (Cell_int n_train)
      \<and> map fst results' = map fst results"
  proof (cases imputed)
    case None
    with second imp c1 show ?thesis
      by (simp add: rows_per_repeat_def impute_flags_def)
  next
    case (Some d)
    with second obtain auc' f1' where
      "dict_append_all (result_row n_train i auc' f1' True) results1 = Inr results'" by auto
    note c2 = result_row_columns [OF this]
    from Some imp have "imp \<noteq> None" by simp
    with c1 c2 show ?thesis
      by (simp add: rows_per_repeat_def impute_flags_def numeral_2_eq_2)
  qed
  then show "column ''idx'' results' = column ''idx'' results @ replicate (rows_per_repeat imp) (Cell_int (int i))"
    and "column ''impute'' results' = column ''impute'' results @ impute_flags imp"
    and "column ''num_samples'' results'
         = column ''num_samples'' results @ replicate (rows_per_repeat imp) (Cell_int n_train)"
    and "map fst results' = map fst results"
    by simp_all
qed

lemma concat_replicate_replicate: "concat (replicate r (replicate m x)) = replicate (r * m) x"
  by (induction r) (simp_all add: replicate_add)

lemma length_concat_constant:
  "(\<And>x. x \<in> set xs \<Longrightarrow> length (g x) = c) \<Longrightarrow> length (concat (map g xs)) = length xs * c"
  by (induction xs) simp_all

lemma repeats_columns:
  assumes "for_each (\<lambda>repeat_number. subsample_once SK L model_fn ds dsa al imp ne nneg cens i n_train)
             reps results st = (Inr results', st')"
  shows "column ''idx'' results'
         = column ''idx'' results @ replicate (length reps * rows_per_repeat imp) (Cell_int (int i))"
    and "column ''impute'' results'
         = column ''impute'' results @ concat (replicate (length reps) (impute_flags imp))"
    and "column ''num_samples'' results'
         = column ''num_samples'' results @ replicate (length reps * rows_per_repeat imp) (Cell_int n_train)"
    and "map fst results' = map fst results"
proof -
  let ?body = "\<lambda>repeat_number. subsample_once SK L model_fn ds dsa al imp ne nneg cens i n_train"
  have "column ''idx'' results'
        = column ''idx'' results @ concat (map (\<lambda>x. replicate (rows_per_repeat imp) (Cell_int (int i))) reps)"
    by (rule for_each_growth [where body = ?body, OF _ assms]) (rule subsample_once_columns(1))
  then show "column ''idx'' results'
         = column ''idx'' results @ replicate (length reps * rows_per_repeat imp) (Cell_int (int i))"
    by (simp add: map_replicate_const concat_replicate_replicate)
  have "column ''impute'' results'
        = column ''impute'' results @ concat (map (\<lambda>x. impute_flags imp) reps)"
    by (rule for_each_growth [where body = ?body, OF _ assms]) (rule subsample_once_columns(2))
  then show "column ''impute'' results'
         = column ''impute'' results @ concat (replicate (length reps) (impute_flags imp))"
    by (simp add: map_replicate_const)
  have "column ''num_samples'' results'
        = column ''num_samples'' results @ concat (map (\<lambda>x. replicate (rows_per_repeat imp) (Cell_int n_train)) reps)"
    by (rule for_each_growth [where body = ?body, OF _ assms]) (rule subsample_once_columns(3))
  then show "column ''num_samples'' results'
         = column ''num_samples'' results @ replicate (length reps * rows_per_repeat imp) (Cell_int n_train)"
    by (simp add: map_replicate_const concat_replicate_replicate)
  show "map fst results' = map fst results"
    by (rule for_each_accumulator [where body = ?body and P = "\<lambda>d. map fst d = map fst results", OF _ assms])
       (auto dest: subsample_once_columns(4))
qed

lemma sample_sizes_length:
  "sample_sizes L mn mx ns = Inr sizes \<Longrightarrow> length sizes = nat ns"
  by (auto simp add: sample_sizes_def Let_def split: if_splits)

lemma concat_map_enumerate:
  "concat (map (\<lambda>(i, x). g i) (List.enumerate n xs)) = concat (map g [n..<n + length xs])"
proof -
  have "(\<lambda>(i, x). g i) = g \<circ> (fst :: nat \<times> 'b \<Rightarrow> nat)" by (auto simp add: fun_eq_iff)
  then have "map (\<lambda>(i, x). g i) (List.enumerate n xs) = map g (map fst (List.enumerate n xs))"
    by (simp only: map_map)
  also have "\<dots> = map g [n..<n + length xs]"
    by (simp only: map_fst_enumerate)
  finally show ?thesis by (rule arg_cong)
qed

lemma concat_replicate_concat:
  "concat (replicate a (concat (replicate b xs))) = concat (replicate (a * b) xs)"
  by (induction a) (simp_all add: replicate_add)

lemma df_len_first_column:
  "map fst tbl = map fst initial_results \<Longrightarrow> df_len tbl = length (column ''num_samples'' tbl)"
  by (cases tbl) (auto simp add: initial_results_def df_len_def column_def)

lemma subsample_performance_table:
  assumes "fst (subsample_performance SK L ds al model_fn imp mn mx ns nr ne nneg bs cens st) = Inr tbl"
  shows "column ''idx'' tbl
         = concat (map (\<lambda>i. replicate (nat nr * rows_per_repeat imp) (Cell_int (int i))) [0..<nat ns])"
    and "column ''impute'' tbl = concat (replicate (nat ns * nat nr) (impute_flags imp))"
    and "df_len tbl = nat ns * nat nr * rows_per_repeat imp"
    and "list_all (\<lambda>(k, vs). length vs = df_len tbl) tbl"
proof -
  let ?dsa = "get_allele L ds al"
  let ?once = "\<lambda>i n_train repeat_number.
       subsample_once SK L model_fn ds ?dsa al imp ne nneg cens i n_train"
  let ?outer = "\<lambda>(i, n_train). for_each (?once i n_train) [0..<nat nr]"
  from assms obtain sizes st' where
    sizes: "sample_sizes L mn (min ((2 * int (dataset_len L ?dsa)) div 3) mx) ns = Inr sizes"
    and run: "for_each ?outer (List.enumerate 0 sizes) initial_results st = (Inr tbl, st')"
    and df: "pd_DataFrame tbl = Inr tbl"
    by (auto simp add: subsample_performance_def Let_def pd_DataFrame_def
          split: sum.splits prod.splits if_splits)
  have len: "length sizes = nat ns" by (rule sample_sizes_length [OF sizes])
  have empty: "column k initial_results = []" for k
    by (simp add: column_def initial_results_def)
  have "column ''idx'' tbl = column ''idx'' initial_results
          @ concat (map (\<lambda>(i, n_train). replicate (nat nr * rows_per_repeat imp) (Cell_int (int i)))
                      (List.enumerate 0 sizes))"
    by (rule for_each_growth [where body = ?outer, OF _ run])
       (auto dest: repeats_columns(1))
  then show "column ''idx'' tbl
         = concat (map (\<lambda>i. replicate (nat nr * rows_per_repeat imp) (Cell_int (int i))) [0..<nat ns])"
    by (simp add: empty concat_map_enumerate len)
  have "column ''impute'' tbl = column ''impute'' initial_results
          @ concat (map (\<lambda>(i, n_train). concat (replicate (nat nr) (impute_flags imp)))
                      (List.enumerate 0 sizes))"
    by (rule for_each_growth [where body = ?outer, OF _ run])
       (auto dest: repeats_columns(2))
  then have "column ''impute'' tbl
      = concat (map (\<lambda>i. concat (replicate (nat nr) (impute_flags imp))) [0..<nat ns])"
    by (simp add: empty concat_map_enumerate len)
  also have "\<dots> = concat (replicate (nat ns * nat nr) (impute_flags imp))"
    by (simp add: map_replicate_const concat_replicate_concat)
  finally show "column ''impute'' tbl = concat (replicate (nat ns * nat nr) (impute_flags imp))" .
  have keys: "map fst tbl = map fst initial_results"
    by (rule for_each_accumulator [where body = ?outer and P = "\<lambda>d. map fst d = map fst initial_results",
          OF _ run])
       (auto dest: repeats_columns(4))
  have "column ''num_samples'' tbl = column ''num_samples'' initial_results
          @ concat (map (\<lambda>(i, n_train). replicate (nat nr * rows_per_repeat imp) (Cell_int n_train))
                      (List.enumerate 0 sizes))"
    by (rule for_each_growth [where body = ?outer, OF _ run])
       (auto dest: repeats_columns(3))
  moreover have "length (concat (map (\<lambda>(i, n_train). replicate (nat nr * rows_per_repeat imp) (Cell_int n_train))
                      (List.enumerate 0 sizes)))
        = length (List.enumerate 0 sizes) * (nat nr * rows_per_repeat imp)"
    by (rule length_concat_constant) auto
  ultimately have "length (column ''num_samples'' tbl) = length sizes * (nat nr * rows_per_repeat imp)"
    by (simp add: empty)
  with keys len show "df_len tbl = nat ns * nat nr * rows_per_repeat imp"
    by (simp add: df_len_first_column)
  from df show "list_all (\<lambda>(k, vs). length vs = df_len tbl) tbl"
    by (simp add: pd_DataFrame_def split: if_splits)
qed

text \<open>The example run returns a table, without and with an imputer.\<close>

lemma example_subsample_returns:
  "\<exists>tbl. fst (subsample_performance example_sklearn example_predictor_lib 0 ''A0201''
                (predictor_from_args example_predictor_lib ''A0201'' example_sens_args) None
                20 2000 2 2 200 100 32 False \<lparr>rng = 0, trace = []\<rparr>) = Inr tbl"
  by (simp add: subsample_performance_def Let_def sample_sizes_def example_predictor_lib_def
        subsample_once_def split_datasets_def new_model_def sens_get_weights_def sens_fit_def
        sens_predict_def example_sklearn_def result_row_def initial_results_def
        pd_DataFrame_def df_len_def upt_rec)

lemma example_subsample_imputed_returns:
  "\<exists>tbl. fst (subsample_performance example_sklearn example_predictor_lib 0 ''A0201''
                (predictor_from_args example_predictor_lib ''A0201'' example_sens_args) (Some ''mice'')
                20 2000 2 2 200 100 32 False \<lparr>rng = 0, trace = []\<rparr>) = Inr tbl"
  by (simp add: subsample_performance_def Let_def sample_sizes_def example_predictor_lib_def
        subsample_once_def split_datasets_def new_model_def sens_get_weights_def sens_fit_def
        sens_predict_def sens_set_weights_def example_sklearn_def result_row_def initial_results_def
        pd_DataFrame_def df_len_def upt_rec)

text \<open>
  C3, as the claim states it, fails. With two sample sizes and two repetitions per size
  the four rows are those of (size 0, repetition 0), (size 0, repetition 1),
  (size 1, repetition 0), (size 1, repetition 1): the repeat indices of the rows are
  0, 1, 0, 1, and the column \<^verbatim>\<open>idx\<close> holds 0, 0, 1, 1.
\<close>

theorem idx_is_not_repeat_index:
  "\<exists>tbl. fst (subsample_performance example_sklearn example_predictor_lib 0 ''A0201''
                (predictor_from_args example_predictor_lib ''A0201'' example_sens_args) None
                20 2000 2 2 200 100 32 False \<lparr>rng = 0, trace = []\<rparr>) = Inr tbl
         \<and> column ''idx'' tbl = [Cell_int 0, Cell_int 0, Cell_int 1, Cell_int 1]
         \<and> column ''idx'' tbl \<noteq> [Cell_int 0, Cell_int 1, Cell_int 0, Cell_int 1]"
proof -
  from example_subsample_returns obtain tbl where
    tbl: "fst (subsample_performance example_sklearn example_predictor_lib 0 ''A0201''
                (predictor_from_args example_predictor_lib ''A0201'' example_sens_args) None
                20 2000 2 2 200 100 32 False \<lparr>rng = 0, trace = []\<rparr>) = Inr tbl" by blast
  from subsample_performance_table(1) [OF tbl]
  have "column ''idx'' tbl = [Cell_int 0, Cell_int 0, Cell_int 1, Cell_int 1]"
    by (simp add: rows_per_repeat_def upt_rec numeral_2_eq_2)
  with tbl show ?thesis by auto
qed

text \<open>
  C3, amended: in the table \<^verbatim>\<open>subsample_performance\<close> returns, the column \<^verbatim>\<open>idx\<close>
  holds, for every row, the index of the row's sample size in the sequence of sample
  sizes (0 to \<^verbatim>\<open>n_subsample_sizes - 1\<close>); all rows of one sample size, whatever the
  repetition and with or without imputation, carry the same \<^verbatim>\<open>idx\<close>.
\<close>

theorem idx_is_size_index:
  assumes "fst (subsample_performance SK L dataset allele model_fn imputer min_training_samples
                  max_training_samples n_subsample_sizes n_repeats_per_size n_training_epochs
                  n_random_negative_samples batch_size sample_censored_affinities st) = Inr results_df"
  shows "column ''idx'' results_df
         = concat (map (\<lambda>i. replicate (nat n_repeats_per_size * (if imputer = None then 1 else 2))
                                (Cell_int (int i)))
                     [0..<nat n_subsample_sizes])"
  using subsample_performance_table(1) [OF assms] by (simp add: rows_per_repeat_def)

text \<open>The theorem on the example run.\<close>

theorem idx_is_size_index_witness:
  "\<exists>tbl. fst (subsample_performance example_sklearn example_predictor_lib 0 ''A0201''
                (predictor_from_args example_predictor_lib ''A0201'' example_sens_args) None
                20 2000 2 2 200 100 32 False \<lparr>rng = 0, trace = []\<rparr>) = Inr tbl
         \<and> column ''idx'' tbl = [Cell_int 0, Cell_int 0, Cell_int 1, Cell_int 1]"
proof -
  from example_subsample_returns obtain tbl where
    tbl: "fst (subsample_performance example_sklearn example_predictor_lib 0 ''A0201''
                (predictor_from_args example_predictor_lib ''A0201'' example_sens_args) None
                20 2000 2 2 200 100 32 False \<lparr>rng = 0, trace = []\<rparr>) = Inr tbl" by blast
  from idx_is_size_index [OF tbl]
  have "column ''idx'' tbl = [Cell_int 0, Cell_int 0, Cell_int 1, Cell_int 1]"
    by (simp add: upt_rec numeral_2_eq_2)
  with tbl show ?thesis by auto
qed

text \<open>
  C10: when \<^verbatim>\<open>subsample_performance\<close> returns, the rows of its table come in
  \<^verbatim>\<open>n_subsample_sizes * n_repeats_per_size\<close> consecutive groups, one per (size, repeat)
  pair: a group is one row with \<^verbatim>\<open>impute=False\<close> when no imputer was given, and one row
  with \<^verbatim>\<open>impute=False\<close> followed by one with \<^verbatim>\<open>impute=True\<close> when one was. So the
  table has that many rows without an imputer and twice as many with one, in every
  column. (The two counts are those of \<^verbatim>\<open>np.linspace\<close> and \<^verbatim>\<open>range\<close>: a negative
  \<^verbatim>\<open>n_repeats_per_size\<close> gives no pair.)
\<close>

theorem subsample_row_count:
  assumes "fst (subsample_performance SK L dataset allele model_fn imputer min_training_samples
                  max_training_samples n_subsample_sizes n_repeats_per_size n_training_epochs
                  n_random_negative_samples batch_size sample_censored_affinities st) = Inr results_df"
  shows "column ''impute'' results_df
           = concat (replicate (nat n_subsample_sizes * nat n_repeats_per_size)
                       (if imputer = None then [Cell_bool False] else [Cell_bool False, Cell_bool True]))
         \<and> df_len results_df
           = nat n_subsample_sizes * nat n_repeats_per_size * (if imputer = None then 1 else 2)
         \<and> list_all (\<lambda>(k, vs). length vs = df_len results_df) results_df"
  using subsample_performance_table(2,3,4) [OF assms]
  by (simp add: rows_per_repeat_def impute_flags_def)

text \<open>The theorem on the example run with an imputer: eight rows.\<close>

theorem subsample_row_count_witness:
  "\<exists>tbl. fst (subsample_performance example_sklearn example_predictor_lib 0 ''A0201''
                (predictor_from_args example_predictor_lib ''A0201'' example_sens_args) (Some ''mice'')
                20 2000 2 2 200 100 32 False \<lparr>rng = 0, trace = []\<rparr>) = Inr tbl
         \<and> column ''impute'' tbl
             = [Cell_bool False, Cell_bool True, Cell_bool False, Cell_bool True,
                Cell_bool False, Cell_bool True, Cell_bool False, Cell_bool True]
         \<and> df_len tbl = 8"
proof -
  from example_subsample_imputed_returns obtain tbl where
    tbl: "fst (subsample_performance example_sklearn example_predictor_lib 0 ''A0201''
                (predictor_from_args example_predictor_lib ''A0201'' example_sens_args) (Some ''mice'')
                20 2000 2 2 200 100 32 False \<lparr>rng = 0, trace = []\<rparr>) = Inr tbl" by blast
  from subsample_row_count [OF tbl]
  have "column ''impute'' tbl
             = [Cell_bool False, Cell_bool True, Cell_bool False, Cell_bool True,
                Cell_bool False, Cell_bool True, Cell_bool False, Cell_bool True]
         \<and> df_len tbl = 8"
    by (simp add: numeral_eq_Suc)
  with tbl show ?thesis by auto
qed

subsection \<open>What the dataset-size-sensitivity script leaves behind\<close>

lemma sens_main_effects:
  assumes "sens_main SK L a fs st = (None, out, fs')"
  shows "\<exists>results_df.
           fst (subsample_performance SK L (from_csv L (sargs_training_csv a)) (sargs_allele a)
                  (predictor_from_args L (sargs_allele a) a) (imputer_from_args L a)
                  (sargs_min_training_samples a) (sargs_max_training_samples a)
                  (sargs_number_dataset_sizes a) (sargs_repeat a) (sargs_training_epochs a)
                  (sargs_random_negative_samples a) (sargs_batch_size a)
                  (sargs_sample_censored_affinities a) st) = Inr results_df
         \<and> out = [results_df]
         \<and> fs' = (fs(plot_filename a ''auc'' \<mapsto> [Png_image]))(plot_filename a ''f1'' \<mapsto> [Png_image])"
  using assms
  by (auto simp add: sens_main_def Let_def savefig_def split: prod.splits sum.splits)

lemma example_plot_filenames:
  "plot_filename example_sens_args ''auc'' = ''A0201-auc-vs-nsamples-hidden-10-activation-tanh-impute-none.png''"
  "plot_filename example_sens_args ''f1'' = ''A0201-f1-vs-nsamples-hidden-10-activation-tanh-impute-none.png''"
  by code_simp+

lemma example_sens_main_returns:
  "fst (sens_main example_sklearn example_predictor_lib example_sens_args Map.empty
          \<lparr>rng = 0, trace = []\<rparr>) = None"
  by (simp add: sens_main_def example_sens_args_def
        subsample_performance_def Let_def sample_sizes_def example_predictor_lib_def
        subsample_once_def split_datasets_def new_model_def sens_get_weights_def sens_fit_def
        sens_predict_def sens_set_weights_def example_sklearn_def result_row_def initial_results_def
        pd_DataFrame_def df_len_def upt_rec)

text \<open>
  C4, as the claim states it, fails. The example run, started on an empty file system,
  reaches the end of the main block, and the file system then holds the two plots and
  nothing else: the table is in no file.
\<close>

theorem table_not_written_to_csv:
  "fst (sens_main example_sklearn example_predictor_lib example_sens_args Map.empty
          \<lparr>rng = 0, trace = []\<rparr>) = None
   \<and> snd (snd (sens_main example_sklearn example_predictor_lib example_sens_args Map.empty
                  \<lparr>rng = 0, trace = []\<rparr>))
     = [''A0201-auc-vs-nsamples-hidden-10-activation-tanh-impute-none.png'' \<mapsto> [Png_image],
        ''A0201-f1-vs-nsamples-hidden-10-activation-tanh-impute-none.png'' \<mapsto> [Png_image]]"
proof -
  let ?run = "sens_main example_sklearn example_predictor_lib example_sens_args Map.empty
                \<lparr>rng = 0 :: nat, trace = []\<rparr>"
  have "?run = (None, fst (snd ?run), snd (snd ?run))"
    by (simp add: example_sens_main_returns prod_eq_iff)
  from sens_main_effects [OF this] show ?thesis
    by (auto simp add: example_sens_main_returns example_plot_filenames)
qed

text \<open>
  C4, amended: a run of the script that reaches the end of its main block has printed the
  table that \<^verbatim>\<open>subsample_performance\<close> returned on standard output, and the files it has
  written are the two PNG plots, of the AUC and of the F1 score; every other file is as
  it was, and the table is written to no file.
\<close>

theorem sens_main_outputs:
  assumes "sens_main SK L a fs st = (None, out, fs')"
  shows "\<exists>results_df.
           fst (subsample_performance SK L (from_csv L (sargs_training_csv a)) (sargs_allele a)
                  (predictor_from_args L (sargs_allele a) a) (imputer_from_args L a)
                  (sargs_min_training_samples a) (sargs_max_training_samples a)
                  (sargs_number_dataset_sizes a) (sargs_repeat a) (sargs_training_epochs a)
                  (sargs_random_negative_samples a) (sargs_batch_size a)
                  (sargs_sample_censored_affinities a) st) = Inr results_df
         \<and> out = [results_df]
         \<and> fs' = (fs(plot_filename a ''auc'' \<mapsto> [Png_image]))(plot_filename a ''f1'' \<mapsto> [Png_image])"
  using assms by (rule sens_main_effects)

text \<open>The theorem on the example run, started beside an older file.\<close>

theorem sens_main_outputs_witness:
  "\<exists>results_df.
      fst (snd (sens_main example_sklearn example_predictor_lib example_sens_args
                  [''results.csv'' \<mapsto> [Csv_header [''num_samples'']]] \<lparr>rng = 0, trace = []\<rparr>))
        = [results_df]
      \<and> snd (snd (sens_main example_sklearn example_predictor_lib example_sens_args
                      [''results.csv'' \<mapsto> [Csv_header [''num_samples'']]] \<lparr>rng = 0, trace = []\<rparr>))
        = [''results.csv'' \<mapsto> [Csv_header [''num_samples'']],
           ''A0201-auc-vs-nsamples-hidden-10-activation-tanh-impute-none.png'' \<mapsto> [Png_image],
           ''A0201-f1-vs-nsamples-hidden-10-activation-tanh-impute-none.png'' \<mapsto> [Png_image]]"
proof -
  let ?run = "sens_main example_sklearn example_predictor_lib example_sens_args
                [''results.csv'' \<mapsto> [Csv_header [''num_samples'']]] \<lparr>rng = 0 :: nat, trace = []\<rparr>"
  have "fst ?run = None"
    by (simp add: sens_main_def example_sens_args_def
        subsample_performance_def Let_def sample_sizes_def example_predictor_lib_def
        subsample_once_def split_datasets_def new_model_def sens_get_weights_def sens_fit_def
        sens_predict_def sens_set_weights_def example_sklearn_def result_row_def initial_results_def
        pd_DataFrame_def df_len_def upt_rec)
  then have "?run = (None, fst (snd ?run), snd (snd ?run))"
    by (simp add: prod_eq_iff)
  from sens_main_outputs [OF this] show ?thesis
    by (auto simp add: example_plot_filenames)
qed

subsection \<open>Every training run is preceded by the restore\<close>

lemma each_fit_after_set_weights:
  assumes "each_fit_restored w0 fs"
  shows "each_fit_restored w0 (Set_weights v # fs)"
proof (cases fs)
  case Nil
  then show ?thesis by simp
next
  case (Cons e fs')
  with assms show ?thesis by (cases e) simp_all
qed

lemma each_fit_append:
  "each_fit_restored w0 es \<Longrightarrow> each_fit_restored w0 fs \<Longrightarrow> each_fit_restored w0 (es @ fs)"
  by (induction w0 es rule: each_fit_restored.induct) (simp_all add: each_fit_after_set_weights)

lemma restores_well_refl: "restores_well w0 st st"
  by (simp add: restores_well_def)

lemma restores_well_trans: "restores_well w0 s t \<Longrightarrow> restores_well w0 t u \<Longrightarrow> restores_well w0 s u"
  unfolding restores_well_def by (metis append.assoc each_fit_append)

lemma kfold_fold_restores:
  "kfold_fold SK L a Xs Ys ic n m w0 item acc st = (r, st') \<Longrightarrow> restores_well w0 st st'"
  by (cases item; cases acc)
     (auto split: sum.splits if_splits prod.splits
        simp add: restores_well_def kfold_fold_def Let_def print_def model_set_weights_def
          model_fit_def model_predict_def)

lemma kfold_restores:
  "each_fit_restored (weights st)
     (drop (length (calls st))
        (calls (snd (kfold_cross_validation_for_single_allele SK L a Xs Ys ic n cvf m st))))"
proof -
  let ?st1 = "snd (model_get_weights st)"
  have p1: "restores_well (weights st) st ?st1"
    by (simp add: restores_well_def model_get_weights_def)
  obtain r2 st2 where e: "kfold_epochs a n cvf (length Ys) ?st1 = (r2, st2)"
    by (cases "kfold_epochs a n cvf (length Ys) ?st1") auto
  then have "restores_well (weights st) ?st1 st2"
    by (auto simp add: restores_well_def kfold_epochs_def Let_def print_def split: if_splits)
  with p1 have p2: "restores_well (weights st) st st2" by (rule restores_well_trans)
  have "restores_well (weights st) st
          (snd (kfold_cross_validation_for_single_allele SK L a Xs Ys ic n cvf m st))"
  proof (cases r2)
    case (Inl err)
    then show ?thesis using e p2
      by (simp add: kfold_cross_validation_for_single_allele_def model_get_weights_def Let_def)
  next
    case (Inr n')
    show ?thesis
    proof (cases "KFold SK (length Ys) cvf")
      case (Inl err)
      then show ?thesis using e p2 Inr
        by (simp add: kfold_cross_validation_for_single_allele_def model_get_weights_def Let_def)
    next
      case folds: (Inr folds)
      obtain r3 st3 where l: "for_each (kfold_fold SK L a Xs Ys ic n' m (weights st))
                (List.enumerate 0 folds) ([], []) st2 = (r3, st3)"
        by (cases "for_each (kfold_fold SK L a Xs Ys ic n' m (weights st))
                (List.enumerate 0 folds) ([], []) st2") auto
      have "restores_well (weights st) st2 st3"
        by (rule for_each_related [where R = "restores_well (weights st)",
              OF restores_well_refl restores_well_trans kfold_fold_restores l])
      with p2 have "restores_well (weights st) st st3" by (rule restores_well_trans)
      then show ?thesis using e Inr folds l
        by (simp add: kfold_cross_validation_for_single_allele_def model_get_weights_def Let_def)
    qed
  qed
  then show ?thesis by (auto simp add: restores_well_def)
qed

lemma kfold_fold_fit_count:
  assumes "kfold_fold SK L a Xs Ys ic n m w0 item acc st = (Inr acc', st')"
  shows "\<exists>k. length (fst acc') = length (fst acc) + k
           \<and> fit_starts (calls st') = fit_starts (calls st) @ replicate k w0"
proof -
  obtain cv_iter train_idx test_idx where item: "item = (cv_iter, train_idx, test_idx)"
    by (cases item) auto
  obtain aucs accs where acc: "acc = (aucs, accs)" by (cases acc) auto
  have r0: "\<exists>k. length aucs = length aucs + k
       \<and> fit_starts (calls st) = fit_starts (calls st) @ replicate k w0"
    by (rule exI [of _ 0]) simp
  have r1: "\<exists>k. Suc (length aucs) = length aucs + k
       \<and> fit_starts (calls st) @ [w0] = fit_starts (calls st) @ replicate k w0"
    by (rule exI [of _ 1]) simp
  show ?thesis
    using assms r0 r1 unfolding kfold_fold_def item acc
    by (auto split: sum.splits if_splits prod.splits
          simp add: Let_def fit_starts_append session_print session_set_weights session_fit
            model_predict_def)
qed

lemma for_each_kfold_fit_count:
  "for_each (kfold_fold SK L a Xs Ys ic n m w0) items acc st = (Inr acc', st')
   \<Longrightarrow> \<exists>k. length (fst acc') = length (fst acc) + k
           \<and> fit_starts (calls st') = fit_starts (calls st) @ replicate k w0"
proof (induction items arbitrary: acc st)
  case Nil
  then show ?case by (auto intro: exI [of _ 0])
next
  case (Cons item items)
  obtain r1 st1 where step: "kfold_fold SK L a Xs Ys ic n m w0 item acc st = (r1, st1)"
    by (cases "kfold_fold SK L a Xs Ys ic n m w0 item acc st") auto
  with Cons.prems obtain acc1 where r1: "r1 = Inr acc1" by (cases r1) auto
  from step r1 have "kfold_fold SK L a Xs Ys ic n m w0 item acc st = (Inr acc1, st1)" by simp
  from kfold_fold_fit_count [OF this] obtain k1
    where k1: "length (fst acc1) = length (fst acc) + k1"
      "fit_starts (calls st1) = fit_starts (calls st) @ replicate k1 w0" by blast
  from Cons.prems step r1
  have "for_each (kfold_fold SK L a Xs Ys ic n m w0) items acc1 st1 = (Inr acc', st')" by simp
  from Cons.IH [OF this] obtain k2
    where k2: "length (fst acc') = length (fst acc1) + k2"
      "fit_starts (calls st') = fit_starts (calls st1) @ replicate k2 w0" by blast
  from k1 k2 have "length (fst acc') = length (fst acc) + (k1 + k2)
      \<and> fit_starts (calls st') = fit_starts (calls st) @ replicate (k1 + k2) w0"
    by (simp add: replicate_add)
  then show ?case by blast
qed

lemma kfold_fit_count:
  assumes "kfold_cross_validation_for_single_allele SK L a Xs Ys ic n cvf m st
           = (Inr (fold_aucs, fold_accuracies), st')"
  shows "fit_starts (drop (length (calls st)) (calls st')) = replicate (length fold_aucs) (weights st)"
proof -
  from assms obtain n' st2 folds where
    e: "kfold_epochs a n cvf (length Ys) (snd (model_get_weights st)) = (Inr n', st2)"
    and l: "for_each (kfold_fold SK L a Xs Ys ic n' m (weights st)) (List.enumerate 0 folds) ([], []) st2
       = (Inr (fold_aucs, fold_accuracies), st')"
    by (auto simp add: kfold_cross_validation_for_single_allele_def model_get_weights_def Let_def
          split: prod.splits sum.splits)
  from kfold_epochs_calls [OF e]
  have "fit_starts (calls st2) = fit_starts (calls st)"
    by (simp add: session_get_weights fit_starts_append)
  with for_each_kfold_fit_count [OF l]
  have f: "fit_starts (calls st') = fit_starts (calls st) @ replicate (length fold_aucs) (weights st)"
    by simp
  from kfold_prefix [OF assms] obtain seg where seg: "calls st' = calls st @ seg"
    by (auto simp add: prefix_def)
  with f show ?thesis by (simp add: fit_starts_append)
qed

lemma kfold_fold_auc_count:
  assumes "kfold_fold SK L a Xs Ys ic n m w0 (cv_iter, train_idx, test_idx) acc st = (Inr acc', st')"
  shows "length (fst acc') = length (fst acc) + (if mixed_labels ic test_idx then 1 else 0)"
proof -
  obtain aucs accs where acc: "acc = (aucs, accs)" by (cases acc) auto
  show ?thesis
    using assms unfolding kfold_fold_def acc np_take_def mixed_labels_def
    by (auto split: sum.splits if_splits prod.splits
          simp add: Let_def list_all_iff list_ex_iff)
qed

lemma for_each_kfold_auc_count:
  "for_each (kfold_fold SK L a Xs Ys ic n m w0) items acc st = (Inr acc', st')
   \<Longrightarrow> length (fst acc')
       = length (fst acc) + length (filter (\<lambda>item. mixed_labels ic (snd (snd item))) items)"
proof (induction items arbitrary: acc st)
  case Nil
  then show ?case by simp
next
  case (Cons item items)
  obtain cv_iter train_idx test_idx where item: "item = (cv_iter, train_idx, test_idx)"
    by (cases item) auto
  obtain r1 st1 where step: "kfold_fold SK L a Xs Ys ic n m w0 item acc st = (r1, st1)"
    by (cases "kfold_fold SK L a Xs Ys ic n m w0 item acc st") auto
  with Cons.prems obtain acc1 where r1: "r1 = Inr acc1" by (cases r1) auto
  from step r1 item
  have "kfold_fold SK L a Xs Ys ic n m w0 (cv_iter, train_idx, test_idx) acc st = (Inr acc1, st1)"
    by simp
  from kfold_fold_auc_count [OF this]
  have one: "length (fst acc1) = length (fst acc) + (if mixed_labels ic test_idx then 1 else 0)" .
  from Cons.prems step r1
  have "for_each (kfold_fold SK L a Xs Ys ic n m w0) items acc1 st1 = (Inr acc', st')" by simp
  from Cons.IH [OF this] one show ?case by (simp add: item)
qed

lemma filter_enumerate_snd:
  "length (filter (\<lambda>item. P (snd item)) (List.enumerate k xs)) = length (filter P xs)"
  by (induction xs arbitrary: k) simp_all

lemma kfold_fit_count_folds:
  assumes run: "kfold_cross_validation_for_single_allele SK L a Xs Ys ic n cvf m st
           = (Inr (fold_aucs, fold_accuracies), st')"
    and folds: "KFold SK (length Ys) cvf = Inr folds"
  shows "fit_starts (drop (length (calls st)) (calls st'))
         = replicate (length (filter (\<lambda>(train_idx, test_idx). mixed_labels ic test_idx) folds))
             (weights st)"
proof -
  from run folds obtain n' st2 where
    l: "for_each (kfold_fold SK L a Xs Ys ic n' m (weights st)) (List.enumerate 0 folds) ([], []) st2
       = (Inr (fold_aucs, fold_accuracies), st')"
    by (auto simp add: kfold_cross_validation_for_single_allele_def model_get_weights_def Let_def
          split: prod.splits sum.splits)
  from for_each_kfold_auc_count [OF l]
  have "length fold_aucs
        = length (filter (\<lambda>item. (\<lambda>(train_idx, test_idx). mixed_labels ic test_idx) (snd item))
                    (List.enumerate 0 folds))"
    by (simp add: case_prod_unfold)
  then have "length fold_aucs
        = length (filter (\<lambda>(train_idx, test_idx). mixed_labels ic test_idx) folds)"
    by (simp only: filter_enumerate_snd)
  with kfold_fit_count [OF run] show ?thesis by simp
qed

lemma fit_kinds_append: "fit_kinds (es @ fs) = fit_kinds es @ fit_kinds fs"
  by (induction es rule: fit_kinds.induct) simp_all

lemma for_each_state_growth:
  assumes body: "\<And>x acc st acc' st'. body x acc st = (Inr acc', st') \<Longrightarrow> col st' = col st @ g x"
    and run: "for_each body xs acc st = (Inr acc', st')"
  shows "col st' = col st @ concat (map g xs)"
  using run
proof (induction xs arbitrary: acc st)
  case Nil
  then show ?case by simp
next
  case (Cons x xs)
  obtain r1 st1 where step: "body x acc st = (r1, st1)" by (cases "body x acc st") auto
  with Cons.prems obtain acc1 where r1: "r1 = Inr acc1" by (cases r1) auto
  from step r1 have g: "col st1 = col st @ g x" by (auto dest: body)
  from Cons.prems step r1 have "for_each body xs acc1 st1 = (Inr acc', st')" by simp
  from Cons.IH [OF this] g show ?case by simp
qed

lemma subsample_once_fit_kinds:
  assumes "subsample_once SK L model_fn ds dsa al imp ne nneg cens i n_train results st = (Inr results', st')"
  shows "fit_kinds (trace st') = fit_kinds (trace st) @ (if imp = None then [False] else [False, True])"
proof -
  obtain r1 st1 where sp: "split_datasets L ds dsa al imp n_train st = (r1, st1)"
    by (cases "split_datasets L ds dsa al imp n_train st") auto
  with assms obtain tr imputed te where r1: "r1 = Inr (tr, imputed, te)"
    by (cases r1) (auto simp add: subsample_once_def)
  from sp r1 have "split_datasets L ds dsa al imp n_train st = (Inr (tr, imputed, te), st1)" by simp
  then have imp: "(imputed = None) = (imp = None)" by (rule split_datasets_imputed)
  have t1: "trace st1 = trace st" by (rule split_datasets_trace [OF sp])
  show ?thesis
    using assms sp r1 imp t1 unfolding subsample_once_def
    by (auto simp add: Let_def new_model_def sens_get_weights_def sens_fit_def sens_predict_def
          sens_set_weights_def fit_kinds_append
          split: sum.splits prod.splits option.splits)
qed

lemma subsample_performance_fit_kinds:
  assumes "fst (subsample_performance SK L ds al model_fn imp mn mx ns nr ne nneg bs cens st) = Inr tbl"
  shows "fit_kinds (drop (length (trace st))
           (trace (snd (subsample_performance SK L ds al model_fn imp mn mx ns nr ne nneg bs cens st))))
         = concat (replicate (nat ns * nat nr) (if imp = None then [False] else [False, True]))"
proof -
  define pat where "pat = (if imp = None then [False] else [False, True])"
  let ?dsa = "get_allele L ds al"
  let ?once = "\<lambda>i n_train repeat_number.
       subsample_once SK L model_fn ds ?dsa al imp ne nneg cens i n_train"
  let ?outer = "\<lambda>(i, n_train). for_each (?once i n_train) [0..<nat nr]"
  let ?run = "subsample_performance SK L ds al model_fn imp mn mx ns nr ne nneg bs cens st"
  from assms obtain sizes st' where
    sizes: "sample_sizes L mn (min ((2 * int (dataset_len L ?dsa)) div 3) mx) ns = Inr sizes"
    and run: "for_each ?outer (List.enumerate 0 sizes) initial_results st = (Inr tbl, st')"
    and st': "snd ?run = st'"
    by (auto simp add: subsample_performance_def Let_def pd_DataFrame_def
          split: sum.splits prod.splits if_splits)
  have len: "length sizes = nat ns" by (rule sample_sizes_length [OF sizes])
  have once: "fit_kinds (trace s') = fit_kinds (trace s) @ pat"
    if "?once i n_train x acc s = (Inr acc', s')" for i n_train x acc s acc' s'
    using subsample_once_fit_kinds [OF that] by (simp add: pat_def)
  have inner: "fit_kinds (trace s') = fit_kinds (trace s) @ concat (replicate (nat nr) pat)"
    if "for_each (?once i n_train) [0..<nat nr] acc s = (Inr acc', s')" for i n_train acc s acc' s'
  proof -
    have "fit_kinds (trace s') = fit_kinds (trace s) @ concat (map (\<lambda>x. pat) [0..<nat nr])"
      by (rule for_each_state_growth [where body = "?once i n_train" and col = "\<lambda>s. fit_kinds (trace s)",
            OF _ that])
         (rule once)
    then show ?thesis by (simp add: map_replicate_const)
  qed
  have outer: "fit_kinds (trace s') = fit_kinds (trace s) @ concat (replicate (nat nr) pat)"
    if "?outer x acc s = (Inr acc', s')" for x acc s acc' s'
    using that inner by (cases x) auto
  have "fit_kinds (trace st') = fit_kinds (trace st)
          @ concat (map (\<lambda>x. concat (replicate (nat nr) pat)) (List.enumerate 0 sizes))"
    by (rule for_each_state_growth [where body = ?outer and col = "\<lambda>s. fit_kinds (trace s)", OF _ run])
       (rule outer)
  then have f: "fit_kinds (trace st') = fit_kinds (trace st) @ concat (replicate (nat ns * nat nr) pat)"
    by (simp add: map_replicate_const len concat_replicate_concat)
  from subsample_performance_extends [of SK L ds al model_fn imp mn mx ns nr ne nneg bs cens st "fst ?run" st']
    st'
  obtain seg where "trace st' = trace st @ seg"
    by (auto simp add: extends_well_def prod_eq_iff)
  with f st' show ?thesis by (simp add: fit_kinds_append pat_def)
qed

text \<open>
  The example library on the first allele of the example data, from weights 0: the
  allele's evaluation leaves the weights at 1.
\<close>

lemma example_first_allele:
  "\<exists>tbl s. for_each (loao_allele example_sklearn example_mhcflurry example_datasets example_config
                      False 0 2 2 5000 0)
               [(''A0201'', \<lparr>ds_X = [0, 1, 2, 3], ds_ic50 = [100, 1000, 50, 5000]\<rparr>)]
               initial_result_dict \<lparr>weights = 0, calls = [Get_weights 0]\<rparr> = (Inr tbl, s)
           \<and> weights s = 1"
  by (simp add: example_config_def
      example_datasets_def Let_def loao_allele_def isdigit_def
      model_set_weights_def print_def example_mhcflurry_def model_get_weights_def
      kfold_cross_validation_for_single_allele_def kfold_epochs_def
      example_sklearn_def kfold_fold_def np_take_def model_fit_def model_predict_def
      append_allele_row_def initial_result_dict_def summary_entries_def
      np_mean_def ic50_to_target_def)

text \<open>
  C2: the weights saved at entry are restored before each unit of training starts.
  \<^item> In \<^verbatim>\<open>kfold_cross_validation_for_single_allele\<close>, every \<^verbatim>\<open>fit\<close> the function
    logs comes directly after a \<^verbatim>\<open>set_weights\<close> of the weights the model had at entry
    and starts from them; and when the function returns, it has logged one such
    \<^verbatim>\<open>fit\<close> for each AUC it returns, and that is one for each fold of \<^verbatim>\<open>KFold\<close>
    whose test labels are not all equal.
  \<^item> In \<^verbatim>\<open>leave_out_allele_cross_validation\<close>, when the loop reaches an allele that is
    not skipped (in state \<open>s\<close>, after the alleles before it in sorted order), the next
    call on the model is \<^verbatim>\<open>set_weights\<close> with the weights captured at entry, and what
    the allele's evaluation returns and logs does not depend on the weights the alleles
    before it left behind.
  \<^item> In \<^verbatim>\<open>subsample_performance\<close>, every \<^verbatim>\<open>fit_dataset\<close> without imputation starts
    from the initial weights of the model built for that repetition, and every
    \<^verbatim>\<open>fit_dataset\<close> with the imputed data comes directly after a \<^verbatim>\<open>set_weights\<close> of
    those weights and starts from them; and when the function returns, each of its
    (size, repeat) pairs has logged the fit without imputation and, when an imputer was
    given, after it the restored fit with the imputed data.
\<close>

theorem weights_restored_before_training:
  "each_fit_restored (weights st)
     (drop (length (calls st))
        (calls (snd (kfold_cross_validation_for_single_allele SK L allele_name Xs Ys ic50s
                       n_training_epochs cv_folds max_ic50' st))))
   \<and> (kfold_cross_validation_for_single_allele SK L allele_name Xs Ys ic50s
          n_training_epochs cv_folds max_ic50' st = (Inr (fold_aucs, fold_accuracies), st')
        \<longrightarrow> fit_starts (drop (length (calls st)) (calls st'))
            = replicate (length fold_aucs) (weights st))
   \<and> (kfold_cross_validation_for_single_allele SK L allele_name Xs Ys ic50s
          n_training_epochs cv_folds max_ic50' st = (Inr (fold_aucs, fold_accuracies), st')
        \<and> KFold SK (length Ys) cv_folds = Inr folds
        \<longrightarrow> fit_starts (drop (length (calls st)) (calls st'))
            = replicate
                (length (filter (\<lambda>(train_idx, test_idx). mixed_labels ic50s test_idx) folds))
                (weights st))
   \<and> (sort_key fst allele_datasets = before @ (a0, d) # after
        \<and> \<not> (isdigit a0 \<or> length a0 < 5) \<and> \<not> int (length (ds_X d)) < min_samples_per_allele
        \<and> for_each (loao_allele SK L allele_datasets config binary_encoding n_pretrain_epochs'
                      min_samples_per_allele cv_folds max_ic50' (weights st))
             before initial_result_dict (snd (model_get_weights st)) = (Inr result_dict, s)
      \<longrightarrow> prefix (calls s @ [Set_weights (weights st)])
            (calls (snd (leave_out_allele_cross_validation SK L allele_datasets config binary_encoding
                           n_pretrain_epochs' min_samples_per_allele cv_folds max_ic50' st)))
          \<and> loao_allele SK L allele_datasets config binary_encoding n_pretrain_epochs'
               min_samples_per_allele cv_folds max_ic50' (weights st) (a0, d) result_dict
               (s\<lparr>weights := w'\<rparr>)
            = loao_allele SK L allele_datasets config binary_encoding n_pretrain_epochs'
               min_samples_per_allele cv_folds max_ic50' (weights st) (a0, d) result_dict s)
   \<and> refits_restored None
        (drop (length (trace st2))
           (trace (snd (subsample_performance SK L2 dataset allele model_fn imputer
                          min_training_samples max_training_samples n_subsample_sizes
                          n_repeats_per_size n_training_epochs2 n_random_negative_samples
                          batch_size sample_censored_affinities st2))))
   \<and> (fst (subsample_performance SK L2 dataset allele model_fn imputer
               min_training_samples max_training_samples n_subsample_sizes
               n_repeats_per_size n_training_epochs2 n_random_negative_samples
               batch_size sample_censored_affinities st2) = Inr results_df
        \<longrightarrow> fit_kinds
              (drop (length (trace st2))
                 (trace (snd (subsample_performance SK L2 dataset allele model_fn imputer
                                min_training_samples max_training_samples n_subsample_sizes
                                n_repeats_per_size n_training_epochs2 n_random_negative_samples
                                batch_size sample_censored_affinities st2))))
            = concat (replicate (nat n_subsample_sizes * nat n_repeats_per_size)
                        (if imputer = None then [False] else [False, True])))"
proof (intro conjI impI)
  show "each_fit_restored (weights st)
     (drop (length (calls st))
        (calls (snd (kfold_cross_validation_for_single_allele SK L allele_name Xs Ys ic50s
                       n_training_epochs cv_folds max_ic50' st))))"
    by (rule kfold_restores)
next
  assume "kfold_cross_validation_for_single_allele SK L allele_name Xs Ys ic50s
          n_training_epochs cv_folds max_ic50' st = (Inr (fold_aucs, fold_accuracies), st')"
  then show "fit_starts (drop (length (calls st)) (calls st'))
            = replicate (length fold_aucs) (weights st)"
    by (rule kfold_fit_count)
next
  assume "kfold_cross_validation_for_single_allele SK L allele_name Xs Ys ic50s
          n_training_epochs cv_folds max_ic50' st = (Inr (fold_aucs, fold_accuracies), st')
        \<and> KFold SK (length Ys) cv_folds = Inr folds"
  then show "fit_starts (drop (length (calls st)) (calls st'))
            = replicate
                (length (filter (\<lambda>(train_idx, test_idx). mixed_labels ic50s test_idx) folds))
                (weights st)"
    by (auto intro: kfold_fit_count_folds)
next
  assume h: "sort_key fst allele_datasets = before @ (a0, d) # after
        \<and> \<not> (isdigit a0 \<or> length a0 < 5) \<and> \<not> int (length (ds_X d)) < min_samples_per_allele
        \<and> for_each (loao_allele SK L allele_datasets config binary_encoding n_pretrain_epochs'
                      min_samples_per_allele cv_folds max_ic50' (weights st))
             before initial_result_dict (snd (model_get_weights st)) = (Inr result_dict, s)"
  from h show "prefix (calls s @ [Set_weights (weights st)])
            (calls (snd (leave_out_allele_cross_validation SK L allele_datasets config binary_encoding
                           n_pretrain_epochs' min_samples_per_allele cv_folds max_ic50' st)))"
    by (intro leave_out_restores) blast+
  from h show "loao_allele SK L allele_datasets config binary_encoding n_pretrain_epochs'
               min_samples_per_allele cv_folds max_ic50' (weights st) (a0, d) result_dict
               (s\<lparr>weights := w'\<rparr>)
            = loao_allele SK L allele_datasets config binary_encoding n_pretrain_epochs'
               min_samples_per_allele cv_folds max_ic50' (weights st) (a0, d) result_dict s"
    by (intro loao_allele_independent) blast+
next
  show "refits_restored None
        (drop (length (trace st2))
           (trace (snd (subsample_performance SK L2 dataset allele model_fn imputer
                          min_training_samples max_training_samples n_subsample_sizes
                          n_repeats_per_size n_training_epochs2 n_random_negative_samples
                          batch_size sample_censored_affinities st2))))"
    by (rule subsample_performance_refits)
next
  assume "fst (subsample_performance SK L2 dataset allele model_fn imputer
               min_training_samples max_training_samples n_subsample_sizes
               n_repeats_per_size n_training_epochs2 n_random_negative_samples
               batch_size sample_censored_affinities st2) = Inr results_df"
  then show "fit_kinds
              (drop (length (trace st2))
                 (trace (snd (subsample_performance SK L2 dataset allele model_fn imputer
                                min_training_samples max_training_samples n_subsample_sizes
                                n_repeats_per_size n_training_epochs2 n_random_negative_samples
                                batch_size sample_censored_affinities st2))))
            = concat (replicate (nat n_subsample_sizes * nat n_repeats_per_size)
                        (if imputer = None then [False] else [False, True]))"
    by (rule subsample_performance_fit_kinds)
qed

text \<open>
  The theorem on the example libraries: the two folds of an allele, both with mixed test
  labels, are each fitted from the entry weights 7; the second allele of the example data is reached with the
  weights at 1, and the next call restores the entry weights 0; with an imputer, each of
  the four (size, repeat) pairs fits without and then with the imputed data.
\<close>

theorem weights_restored_before_training_witness:
  "fit_starts (calls (snd (kfold_cross_validation_for_single_allele example_sklearn example_mhcflurry
                            ''A0201'' [0, 1, 2, 3] (ic50_to_target 5000 [100, 1000, 50, 5000])
                            [100, 1000, 50, 5000] 5 2 5000 \<lparr>weights = 7, calls = []\<rparr>)))
     = [7, 7]
   \<and> fit_starts (calls (snd (kfold_cross_validation_for_single_allele example_sklearn example_mhcflurry
                              ''A0201'' [0, 1, 2, 3] (ic50_to_target 5000 [100, 1000, 50, 5000])
                              [100, 1000, 50, 5000] 5 2 5000 \<lparr>weights = 7, calls = []\<rparr>)))
     = replicate (length (filter (\<lambda>(train_idx, test_idx).
                                     mixed_labels [100, 1000, 50, 5000] test_idx)
                            [([2, 3], [0, 1]), ([0, 1], [2, 3])])) 7
   \<and> filter (\<lambda>(train_idx, test_idx). mixed_labels [100, 1000, 50, 5000] test_idx)
       [([2, 3], [0, 1]), ([0, 1], [2, 3])]
     = [([2, 3], [0, 1]), ([0, 1], [2, 3])]
   \<and> (\<exists>tbl s. for_each (loao_allele example_sklearn example_mhcflurry example_datasets example_config
                          False 0 2 2 5000 0)
                   [(''A0201'', \<lparr>ds_X = [0, 1, 2, 3], ds_ic50 = [100, 1000, 50, 5000]\<rparr>)]
                   initial_result_dict \<lparr>weights = 0, calls = [Get_weights 0]\<rparr> = (Inr tbl, s)
        \<and> weights s = 1
        \<and> prefix (calls s @ [Set_weights 0])
             (calls (snd (leave_out_allele_cross_validation example_sklearn example_mhcflurry
                            example_datasets example_config False 0 2 2 5000
                            \<lparr>weights = 0, calls = []\<rparr>))))
   \<and> fit_kinds (trace (snd (subsample_performance example_sklearn example_predictor_lib 0 ''A0201''
                              (predictor_from_args example_predictor_lib ''A0201'' example_sens_args)
                              (Some ''mice'') 20 2000 2 2 200 100 32 False \<lparr>rng = 0, trace = []\<rparr>)))
     = [False, True, False, True, False, True, False, True]"
proof -
  let ?kst = "\<lparr>weights = 7 :: int, calls = [] :: (int, nat) event list\<rparr>"
  let ?kf = "kfold_cross_validation_for_single_allele example_sklearn example_mhcflurry
               ''A0201'' [0, 1, 2, 3 :: nat] (ic50_to_target 5000 [100, 1000, 50, 5000])
               [100, 1000, 50, 5000] 5 2 5000 ?kst"
  have kf: "?kf = (Inr ([1, 1], [1 / 2, 1 / 2]), snd ?kf)"
    by (simp add: example_kfold prod_eq_iff)
  from weights_restored_before_training [THEN conjunct2, THEN conjunct1, THEN mp, OF kf]
  have k: "fit_starts (calls (snd ?kf)) = [7, 7]"
    by (simp add: numeral_2_eq_2)
  have "?kf = (Inr ([1, 1], [1 / 2, 1 / 2]), snd ?kf)
        \<and> KFold example_sklearn (length (ic50_to_target 5000 [100, 1000, 50, 5000])) 2
          = Inr [([2, 3], [0, 1]), ([0, 1], [2, 3])]"
    using kf by (simp add: example_sklearn_def)
  from weights_restored_before_training [THEN conjunct2, THEN conjunct2, THEN conjunct1, THEN mp,
      OF this]
  have k2: "fit_starts (calls (snd ?kf))
            = replicate (length (filter (\<lambda>(train_idx, test_idx).
                                            mixed_labels [100, 1000, 50, 5000] test_idx)
                                   [([2, 3], [0, 1]), ([0, 1], [2, 3])])) 7"
    by simp
  have mixed: "filter (\<lambda>(train_idx, test_idx). mixed_labels [100, 1000, 50, 5000] test_idx)
                 [([2, 3], [0, 1]), ([0, 1], [2, 3])]
               = [([2, 3], [0, 1]), ([0, 1], [2, 3])]"
    by (simp add: mixed_labels_def)
  let ?st = "\<lparr>weights = 0 :: int, calls = [] :: (int, nat) event list\<rparr>"
  from example_first_allele obtain tbl s where
    first: "for_each (loao_allele example_sklearn example_mhcflurry example_datasets example_config
                          False 0 2 2 5000 0)
                   [(''A0201'', \<lparr>ds_X = [0, 1, 2, 3], ds_ic50 = [100, 1000, 50, 5000]\<rparr>)]
                   initial_result_dict \<lparr>weights = 0, calls = [Get_weights 0]\<rparr> = (Inr tbl, s)"
    and changed: "weights s = 1" by blast
  have h: "sort_key fst example_datasets
             = [(''A0201'', \<lparr>ds_X = [0, 1, 2, 3], ds_ic50 = [100, 1000, 50, 5000]\<rparr>)]
               @ (''B0702'', \<lparr>ds_X = [4, 5, 6, 7], ds_ic50 = [50, 5000, 20, 700]\<rparr>) # []
        \<and> \<not> (isdigit ''B0702'' \<or> length ''B0702'' < 5)
        \<and> \<not> int (length (ds_X \<lparr>ds_X = [4, 5, 6, 7 :: nat], ds_ic50 = [50, 5000, 20, 700]\<rparr>)) < 2
        \<and> for_each (loao_allele example_sklearn example_mhcflurry example_datasets
                      example_config False 0 2 2 5000 (weights ?st))
             [(''A0201'', \<lparr>ds_X = [0, 1, 2, 3], ds_ic50 = [100, 1000, 50, 5000]\<rparr>)]
             initial_result_dict (snd (model_get_weights ?st))
           = (Inr tbl, s)"
    using first by (simp add: example_datasets_def isdigit_def model_get_weights_def)
  from weights_restored_before_training [THEN conjunct2, THEN conjunct2, THEN conjunct2,
      THEN conjunct1, THEN mp, OF h, THEN conjunct1]
  have l: "prefix (calls s @ [Set_weights 0])
             (calls (snd (leave_out_allele_cross_validation example_sklearn example_mhcflurry
                            example_datasets example_config False 0 2 2 5000 ?st)))"
    by simp
  from example_subsample_imputed_returns obtain t where
    t: "fst (subsample_performance example_sklearn example_predictor_lib 0 ''A0201''
                (predictor_from_args example_predictor_lib ''A0201'' example_sens_args) (Some ''mice'')
                20 2000 2 2 200 100 32 False \<lparr>rng = 0, trace = []\<rparr>) = Inr t" by blast
  from weights_restored_before_training [THEN conjunct2, THEN conjunct2, THEN conjunct2,
      THEN conjunct2, THEN conjunct2, THEN mp, OF t]
  have f: "fit_kinds (trace (snd (subsample_performance example_sklearn example_predictor_lib 0 ''A0201''
                              (predictor_from_args example_predictor_lib ''A0201'' example_sens_args)
                              (Some ''mice'') 20 2000 2 2 200 100 32 False \<lparr>rng = 0, trace = []\<rparr>)))
     = [False, True, False, True, False, True, False, True]"
    by (simp add: numeral_eq_Suc)
  from k k2 mixed first changed l f show ?thesis by blast
qed

end
